theory Spec2Isabelle
  imports Main
begin

section \<open>Workflow catalog and profile resolution (core/profiles.ts)\<close>

type_synonym path = string

definition CORE_WORKFLOWS :: "string list" where
  "CORE_WORKFLOWS = [''propose'', ''explore'', ''apply'', ''archive'']"

definition ALL_WORKFLOWS :: "string list" where
  "ALL_WORKFLOWS =
     [''propose'', ''explore'', ''new'', ''continue'', ''apply'', ''archive'', ''verify'']"

text \<open>
  \<^verbatim>\<open>getProfileWorkflows(profile, customWorkflows?)\<close>: the profile is a string at run time
  (it is read from a JSON file), the optional list is \<open>None\<close> when it is not supplied.
\<close>

definition getProfileWorkflows :: "string \<Rightarrow> string list option \<Rightarrow> string list" where
  "getProfileWorkflows prof customWorkflows =
     (if prof = ''custom''
      then (case customWorkflows of None \<Rightarrow> [] | Some ws \<Rightarrow> ws)
      else CORE_WORKFLOWS)"

text \<open>A JavaScript \<^verbatim>\<open>new Set([...])\<close> spread back into an array: first occurrences, in order.\<close>

definition js_set :: "'a list \<Rightarrow> 'a list" where
  "js_set xs = foldl (\<lambda>acc x. if x \<in> set acc then acc else acc @ [x]) [] xs"

section \<open>Persisted global configuration\<close>

text \<open>
  The \<^verbatim>\<open>GlobalConfig\<close> object. A field is \<open>None\<close> when the key is missing
  (\<^verbatim>\<open>undefined\<close>). The feature flags play no part in reconciliation and are left out.
  The stored file, when it parses, is taken to hold an object whose known keys are
  well typed.
\<close>

record GlobalConfig =
  profile :: "string option"
  delivery :: "string option"
  workflows :: "string list option"

datatype raw_config = NoFile | Unreadable | Parsed GlobalConfig

section \<open>The project on disk\<close>

text \<open>
  The managed part of the file system. A skill directory
  \<^verbatim>\<open>path.join(skillsDir, dirName)\<close> is addressed by the skills root and the directory name;
  it is absent, present without a \<^verbatim>\<open>SKILL.md\<close>, or holds a \<^verbatim>\<open>SKILL.md\<close> whose
  \<^verbatim>\<open>generatedBy\<close> marker is the given value (\<open>None\<close>: no marker can be parsed).
  Command files are addressed by their full path. Skill directories and command files are
  taken to live in different parts of the tree. \<open>readOnly\<close> and \<open>locked\<close> are the paths
  on which a write, respectively a removal, throws.
\<close>

datatype skill_entry = NoDir | DirOnly | SkillMd "string option"

record world =
  dirs :: "path \<Rightarrow> bool"
  skillDirs :: "path \<Rightarrow> string \<Rightarrow> skill_entry"
  cmdFiles :: "path \<Rightarrow> bool"
  readOnly :: "path \<Rightarrow> bool"
  locked :: "path \<Rightarrow> bool"
  configFile :: raw_config
  legacyArtifacts :: bool

datatype error =
    NoOpenSpecDirectory
  | InsufficientPermissions
  | InvalidProfile string
  | WriteError path
  | DeleteError path
  | SelectionError
  | UnknownTool string
  | NoSkillSupport string

definition join :: "path \<Rightarrow> string \<Rightarrow> path" where
  "join a b = a @ ''/'' @ b"

definition isAbsolute :: "path \<Rightarrow> bool" where
  "isAbsolute p = (case p of [] \<Rightarrow> False | c # _ \<Rightarrow> c = CHR ''/'')"

definition fullPath :: "path \<Rightarrow> path \<Rightarrow> path" where
  "fullPath projectPath cmdPath =
     (if isAbsolute cmdPath then cmdPath else join projectPath cmdPath)"

text \<open>\<^verbatim>\<open>fs.existsSync(path.join(skillsDir, dirName, 'SKILL.md'))\<close>\<close>

definition existsSkillFile :: "world \<Rightarrow> path \<Rightarrow> string \<Rightarrow> bool" where
  "existsSkillFile w skillsRoot dirName =
     (case skillDirs w skillsRoot dirName of SkillMd _ \<Rightarrow> True | _ \<Rightarrow> False)"

text \<open>\<^verbatim>\<open>fs.existsSync(path.join(skillsDir, dirName))\<close>\<close>

definition existsSkillDir :: "world \<Rightarrow> path \<Rightarrow> string \<Rightarrow> bool" where
  "existsSkillDir w skillsRoot dirName = (skillDirs w skillsRoot dirName \<noteq> NoDir)"

section \<open>Tool registry\<close>

text \<open>
  An entry of \<^verbatim>\<open>AI_TOOLS\<close> (\<^verbatim>\<open>value\<close>, \<^verbatim>\<open>name\<close>, optional \<^verbatim>\<open>skillsDir\<close>). The table
  itself and the command adapter registry are parameters of the model: \<open>adapters env id\<close>
  is \<^verbatim>\<open>CommandAdapterRegistry.get(id)\<close>, reduced to the adapter's \<^verbatim>\<open>getFilePath\<close>.
\<close>

record AIToolOption =
  tool_value :: string
  tool_name :: string
  skillsDir :: "string option"

record env =
  AI_TOOLS :: "AIToolOption list"
  adapters :: "string \<Rightarrow> (string \<Rightarrow> path) option"
  OPENSPEC_VERSION :: string

text \<open>\<^verbatim>\<open>if (!tool.skillsDir)\<close>: a missing and an empty string are both falsy.\<close>

definition skillsDirOf :: "AIToolOption \<Rightarrow> string option" where
  "skillsDirOf tool =
     (case skillsDir tool of None \<Rightarrow> None | Some sd \<Rightarrow> if sd = [] then None else Some sd)"

definition skillsRootOf :: "path \<Rightarrow> string \<Rightarrow> path" where
  "skillsRootOf projectPath sd = join (join projectPath sd) ''skills''"

section \<open>Console output\<close>

datatype msg =
    NoConfiguredTools
  | Migrated nat
  | NewInThisVersion
  | UpToDate "string list"
  | ForceUpdating "string list"
  | UpdatePlan "string list" "string list"
  | SpinnerSucceed string
  | SpinnerFail string
  | SummaryUpdated "string list"
  | SummaryFailed "(string \<times> error) list"
  | RemovedCommands nat
  | RemovedSkills nat
  | GettingStarted
  | ExtraWorkflowsNote nat
  | ToolsLine "string list"
  | RestartIDE
  | LegacyDetected
  | LegacyCleanedUp
  | LegacyNonInteractive
  | InitCancelled
  | ProfileNotConfirmed
  | SetupComplete "string list" "string list" "(string \<times> error) list"

section \<open>One-time migration (core/migration.ts)\<close>

text \<open>The table of migration.ts, in the order \<^verbatim>\<open>Object.entries\<close> walks it.\<close>

definition MIGRATION_WORKFLOW_TO_SKILL_DIR :: "(string \<times> string) list" where
  "MIGRATION_WORKFLOW_TO_SKILL_DIR =
     [(''propose'', ''openspec-propose''),
      (''explore'', ''openspec-explore''),
      (''new'', ''openspec-new-change''),
      (''continue'', ''openspec-continue-change''),
      (''apply'', ''openspec-apply-change''),
      (''archive'', ''openspec-archive-change''),
      (''verify'', ''openspec-verify-change'')]"

definition installedOfTool :: "world \<Rightarrow> path \<Rightarrow> AIToolOption \<Rightarrow> string list" where
  "installedOfTool w projectPath tool =
     (case skillsDirOf tool of
        None \<Rightarrow> []
      | Some sd \<Rightarrow>
          map fst (filter (\<lambda>(workflowId, skillDirName).
                             existsSkillFile w (skillsRootOf projectPath sd) skillDirName)
                          MIGRATION_WORKFLOW_TO_SKILL_DIR))"

definition scanInstalledWorkflows :: "world \<Rightarrow> path \<Rightarrow> AIToolOption list \<Rightarrow> string list" where
  "scanInstalledWorkflows w projectPath tools =
     js_set (concat (map (installedOfTool w projectPath) tools))"

text \<open>
  Modelled from the spec: the Global Config Store, whose module (global-config.ts) is not
  among the sources. \<^verbatim>\<open>read()\<close> returns the stored object with the defaults
  (\<^verbatim>\<open>profile = 'core'\<close>, \<^verbatim>\<open>delivery = 'both'\<close>) filled in, and the defaults when the
  file is absent or cannot be read; \<^verbatim>\<open>write(config)\<close> stores the object.
\<close>

definition DEFAULT_CONFIG :: GlobalConfig where
  "DEFAULT_CONFIG = \<lparr>profile = Some ''core'', delivery = Some ''both'', workflows = None\<rparr>"

definition getGlobalConfig :: "world \<Rightarrow> GlobalConfig" where
  "getGlobalConfig w =
     (case configFile w of
        Parsed c \<Rightarrow>
          \<lparr>profile = (case profile c of None \<Rightarrow> profile DEFAULT_CONFIG | Some p \<Rightarrow> Some p),
           delivery = (case delivery c of None \<Rightarrow> delivery DEFAULT_CONFIG | Some d \<Rightarrow> Some d),
           workflows = workflows c\<rparr>
      | _ \<Rightarrow> DEFAULT_CONFIG)"

definition saveGlobalConfig :: "GlobalConfig \<Rightarrow> world \<Rightarrow> world" where
  "saveGlobalConfig config w = w\<lparr>configFile := Parsed config\<rparr>"

text \<open>
  \<^verbatim>\<open>rawConfig.profile\<close> of the object read in \<^verbatim>\<open>migrateIfNeeded\<close>: \<^verbatim>\<open>{}\<close> when the
  file does not exist.
\<close>

definition rawProfile :: "raw_config \<Rightarrow> string option" where
  "rawProfile raw = (case raw of Parsed c \<Rightarrow> profile c | _ \<Rightarrow> None)"

definition migrateIfNeeded :: "path \<Rightarrow> AIToolOption list \<Rightarrow> world \<Rightarrow> world \<times> msg list" where
  "migrateIfNeeded projectPath tools w =
     (let config = getGlobalConfig w in
      if configFile w = Unreadable then (w, [])
      else if rawProfile (configFile w) \<noteq> None then (w, [])
      else
        let installedWorkflows = scanInstalledWorkflows w projectPath tools in
        if installedWorkflows = [] then (w, [])
        else (saveGlobalConfig
                (config\<lparr>profile := Some ''custom'', workflows := Some installedWorkflows\<rparr>) w,
              [Migrated (length installedWorkflows), NewInThisVersion]))"

text \<open>The claim's reading of "the raw persisted config has a profile key".\<close>

definition hasProfileKey :: "raw_config \<Rightarrow> bool" where
  "hasProfileKey raw = (case raw of Parsed c \<Rightarrow> profile c \<noteq> None | _ \<Rightarrow> False)"

section \<open>Template catalog (core/shared/skill-generation.ts)\<close>

text \<open>
  The entries of \<^verbatim>\<open>getSkillTemplates\<close> as pairs \<open>(dirName, workflowId)\<close> and the ids of
  \<^verbatim>\<open>getCommandTemplates\<close>, in the order of the source; the template bodies are opaque.
  A filter of \<open>None\<close> is the omitted argument.
\<close>

definition SKILL_TEMPLATES :: "(string \<times> string) list" where
  "SKILL_TEMPLATES =
     [(''openspec-explore'', ''explore''),
      (''openspec-new-change'', ''new''),
      (''openspec-continue-change'', ''continue''),
      (''openspec-apply-change'', ''apply''),
      (''openspec-archive-change'', ''archive''),
      (''openspec-verify-change'', ''verify''),
      (''openspec-propose'', ''propose'')]"

definition getSkillTemplates :: "string list option \<Rightarrow> (string \<times> string) list" where
  "getSkillTemplates workflowFilter =
     (case workflowFilter of
        None \<Rightarrow> SKILL_TEMPLATES
      | Some f \<Rightarrow> filter (\<lambda>(dirName, workflowId). workflowId \<in> set f) SKILL_TEMPLATES)"

definition COMMAND_TEMPLATE_IDS :: "string list" where
  "COMMAND_TEMPLATE_IDS =
     [''explore'', ''new'', ''continue'', ''apply'', ''archive'', ''verify'', ''propose'']"

definition getCommandContents :: "string list option \<Rightarrow> string list" where
  "getCommandContents workflowFilter =
     (case workflowFilter of
        None \<Rightarrow> COMMAND_TEMPLATE_IDS
      | Some f \<Rightarrow> filter (\<lambda>id. id \<in> set f) COMMAND_TEMPLATE_IDS)"

text \<open>
  Modelled from the spec: \<^verbatim>\<open>generateCommands(contents, adapter)\<close> of the command
  generation module, which is not among the sources. Each content is routed through the
  adapter: its file goes to \<^verbatim>\<open>adapter.getFilePath(id)\<close>.
\<close>

definition generateCommands :: "string list \<Rightarrow> (string \<Rightarrow> path) \<Rightarrow> path list" where
  "generateCommands contents getFilePath = map getFilePath contents"

text \<open>
  Modelled from the spec: the constants \<^verbatim>\<open>SKILL_NAMES\<close> and \<^verbatim>\<open>COMMAND_IDS\<close> of the
  shared module, which is not among the sources: the directory names and the command ids
  of the catalog.
\<close>

definition SKILL_NAMES :: "string list" where
  "SKILL_NAMES = map fst SKILL_TEMPLATES"

definition COMMAND_IDS :: "string list" where
  "COMMAND_IDS = COMMAND_TEMPLATE_IDS"

section \<open>File operations\<close>

text \<open>
  The directories above a path, which a write of the file creates when they are missing:
  for \<^verbatim>\<open>/p/.claude/commands/x.md\<close> these are \<^verbatim>\<open>/p\<close>, \<^verbatim>\<open>/p/.claude\<close> and
  \<^verbatim>\<open>/p/.claude/commands\<close>.
\<close>

definition parentDirs :: "path \<Rightarrow> path list" where
  "parentDirs p = map (\<lambda>i. take i p) (filter (\<lambda>i. p ! i = CHR ''/'') [1..<length p])"

text \<open>
  \<^verbatim>\<open>FileSystemUtils.writeFile\<close> on a \<^verbatim>\<open>SKILL.md\<close> and on a command file: it creates
  the parent directories (so the tool directory exists afterwards) and overwrites; it
  throws on a path that cannot be written.
\<close>

definition writeSkillFile :: "path \<Rightarrow> path \<Rightarrow> string \<Rightarrow> string \<Rightarrow> world \<Rightarrow> error + world" where
  "writeSkillFile toolDir skillsRoot dirName version w =
     (let skillFile = join (join skillsRoot dirName) ''SKILL.md'' in
      if readOnly w skillFile then Inl (WriteError skillFile)
      else Inr (w\<lparr>skillDirs := (skillDirs w)
                      (skillsRoot := (skillDirs w skillsRoot)(dirName := SkillMd (Some version))),
                  dirs := (dirs w)(toolDir := True)\<rparr>))"

definition writeCommandFile :: "path \<Rightarrow> world \<Rightarrow> error + world" where
  "writeCommandFile commandFile w =
     (if readOnly w commandFile then Inl (WriteError commandFile)
      else Inr (w\<lparr>cmdFiles := (cmdFiles w)(commandFile := True),
                  dirs := (\<lambda>q. q \<in> set (parentDirs commandFile) \<or> dirs w q)\<rparr>))"

text \<open>\<^verbatim>\<open>fs.promises.rm(skillDir, { recursive: true, force: true })\<close>\<close>

definition rmSkillDir :: "path \<Rightarrow> string \<Rightarrow> world \<Rightarrow> error + world" where
  "rmSkillDir skillsRoot dirName w =
     (if locked w (join skillsRoot dirName) then Inl (DeleteError (join skillsRoot dirName))
      else Inr (w\<lparr>skillDirs := (skillDirs w)
                      (skillsRoot := (skillDirs w skillsRoot)(dirName := NoDir))\<rparr>))"

text \<open>\<^verbatim>\<open>fs.promises.unlink(fullPath)\<close>\<close>

definition unlink :: "path \<Rightarrow> world \<Rightarrow> error + world" where
  "unlink p w =
     (if locked w p then Inl (DeleteError p)
      else Inr (w\<lparr>cmdFiles := (cmdFiles w)(p := False)\<rparr>))"

section \<open>Update command (core/update.ts)\<close>

definition OPENSPEC_DIR_NAME :: string where
  "OPENSPEC_DIR_NAME = ''openspec''"

definition WORKFLOW_TO_SKILL_DIR :: "(string \<times> string) list" where
  "WORKFLOW_TO_SKILL_DIR =
     [(''explore'', ''openspec-explore''),
      (''new'', ''openspec-new-change''),
      (''continue'', ''openspec-continue-change''),
      (''apply'', ''openspec-apply-change''),
      (''archive'', ''openspec-archive-change''),
      (''verify'', ''openspec-verify-change''),
      (''propose'', ''openspec-propose'')]"

definition findTool :: "env \<Rightarrow> string \<Rightarrow> AIToolOption option" where
  "findTool env toolId = find (\<lambda>t. tool_value t = toolId) (AI_TOOLS env)"

text \<open>The loop of \<^verbatim>\<open>removeSkillDirs\<close>; an error of the removal is caught and ignored.\<close>

fun removeSkillDirsLoop :: "path \<Rightarrow> string list \<Rightarrow> world \<Rightarrow> nat \<Rightarrow> world \<times> nat" where
  "removeSkillDirsLoop skillsRoot [] w removed = (w, removed)"
| "removeSkillDirsLoop skillsRoot (workflow # rest) w removed =
     (case map_of WORKFLOW_TO_SKILL_DIR workflow of
        None \<Rightarrow> removeSkillDirsLoop skillsRoot rest w removed
      | Some dirName \<Rightarrow>
          if existsSkillDir w skillsRoot dirName
          then (case rmSkillDir skillsRoot dirName w of
                  Inr w' \<Rightarrow> removeSkillDirsLoop skillsRoot rest w' (removed + 1)
                | Inl err \<Rightarrow> removeSkillDirsLoop skillsRoot rest w removed)
          else removeSkillDirsLoop skillsRoot rest w removed)"

definition removeSkillDirs :: "path \<Rightarrow> world \<Rightarrow> world \<times> nat" where
  "removeSkillDirs skillsRoot w = removeSkillDirsLoop skillsRoot ALL_WORKFLOWS w 0"

fun removeCommandFilesLoop ::
  "path \<Rightarrow> (string \<Rightarrow> path) \<Rightarrow> string list \<Rightarrow> world \<Rightarrow> nat \<Rightarrow> world \<times> nat" where
  "removeCommandFilesLoop projectPath getFilePath [] w removed = (w, removed)"
| "removeCommandFilesLoop projectPath getFilePath (workflow # rest) w removed =
     (let p = fullPath projectPath (getFilePath workflow) in
      if cmdFiles w p
      then (case unlink p w of
              Inr w' \<Rightarrow> removeCommandFilesLoop projectPath getFilePath rest w' (removed + 1)
            | Inl err \<Rightarrow> removeCommandFilesLoop projectPath getFilePath rest w removed)
      else removeCommandFilesLoop projectPath getFilePath rest w removed)"

definition removeCommandFiles :: "env \<Rightarrow> path \<Rightarrow> string \<Rightarrow> world \<Rightarrow> world \<times> nat" where
  "removeCommandFiles env projectPath toolId w =
     (case adapters env toolId of
        None \<Rightarrow> (w, 0)
      | Some getFilePath \<Rightarrow> removeCommandFilesLoop projectPath getFilePath ALL_WORKFLOWS w 0)"

text \<open>The two write loops of the per-tool \<^verbatim>\<open>try\<close> block: the first throw ends the loop.\<close>

fun writeSkillFiles ::
  "path \<Rightarrow> path \<Rightarrow> string \<Rightarrow> (string \<times> string) list \<Rightarrow> world \<Rightarrow> error option \<times> world" where
  "writeSkillFiles toolDir skillsRoot version [] w = (None, w)"
| "writeSkillFiles toolDir skillsRoot version (entry # rest) w =
     (case writeSkillFile toolDir skillsRoot (fst entry) version w of
        Inl err \<Rightarrow> (Some err, w)
      | Inr w' \<Rightarrow> writeSkillFiles toolDir skillsRoot version rest w')"

fun writeCommandFiles :: "path list \<Rightarrow> world \<Rightarrow> error option \<times> world" where
  "writeCommandFiles [] w = (None, w)"
| "writeCommandFiles (commandFile # rest) w =
     (case writeCommandFile commandFile w of
        Inl err \<Rightarrow> (Some err, w)
      | Inr w' \<Rightarrow> writeCommandFiles rest w')"

text \<open>
  Modelled from the spec: \<^verbatim>\<open>getConfiguredTools\<close> and \<^verbatim>\<open>getToolVersionStatus\<close> of the
  shared tool-detection module, which is not among the sources. A tool is configured
  when a managed skill file exists (the command side is added by the update command
  itself). The version is the marker of the first managed file found, skills before
  commands; the command files this system writes carry no marker. \<open>needsUpdate\<close> holds
  when the marker is missing or is not the running version, compared as strings.
\<close>

record ToolVersionStatus =
  toolId :: string
  configured :: bool
  generatedByVersion :: "string option"
  needsUpdate :: bool

definition getConfiguredTools :: "env \<Rightarrow> path \<Rightarrow> world \<Rightarrow> string list" where
  "getConfiguredTools env projectPath w =
     map tool_value
       (filter (\<lambda>tool. case skillsDirOf tool of
                          None \<Rightarrow> False
                        | Some sd \<Rightarrow>
                            list_ex (existsSkillFile w (skillsRootOf projectPath sd)) SKILL_NAMES)
               (AI_TOOLS env))"

definition firstSkillMarker :: "world \<Rightarrow> path \<Rightarrow> string list \<Rightarrow> string option option" where
  "firstSkillMarker w skillsRoot names =
     (case filter (existsSkillFile w skillsRoot) names of
        [] \<Rightarrow> None
      | dirName # _ \<Rightarrow>
          (case skillDirs w skillsRoot dirName of SkillMd m \<Rightarrow> Some m | _ \<Rightarrow> None))"

definition toolHasAnyConfiguredCommand :: "env \<Rightarrow> path \<Rightarrow> string \<Rightarrow> world \<Rightarrow> bool" where
  "toolHasAnyConfiguredCommand env projectPath tid w =
     (case adapters env tid of
        None \<Rightarrow> False
      | Some getFilePath \<Rightarrow>
          list_ex (\<lambda>commandId. cmdFiles w (fullPath projectPath (getFilePath commandId)))
                  COMMAND_IDS)"

definition getToolVersionStatus :: "env \<Rightarrow> path \<Rightarrow> string \<Rightarrow> string \<Rightarrow> world \<Rightarrow> ToolVersionStatus" where
  "getToolVersionStatus env projectPath tid currentVersion w =
     (let found = (case findTool env tid of
                     None \<Rightarrow> None
                   | Some tool \<Rightarrow>
                       (case skillsDirOf tool of
                          None \<Rightarrow> None
                        | Some sd \<Rightarrow>
                            firstSkillMarker w (skillsRootOf projectPath sd) SKILL_NAMES));
          version = (case found of None \<Rightarrow> None | Some m \<Rightarrow> m)
      in \<lparr>toolId = tid,
          configured = (found \<noteq> None \<or> toolHasAnyConfiguredCommand env projectPath tid w),
          generatedByVersion = version,
          needsUpdate = (version = None \<or> version \<noteq> Some currentVersion)\<rparr>)"

definition getCommandConfiguredTools :: "env \<Rightarrow> path \<Rightarrow> world \<Rightarrow> string list" where
  "getCommandConfiguredTools env projectPath w =
     filter (\<lambda>tid. toolHasAnyConfiguredCommand env projectPath tid w)
       (map tool_value
          (filter (\<lambda>tool. case skillsDirOf tool of
                             None \<Rightarrow> False
                           | Some sd \<Rightarrow> dirs w (join projectPath sd))
                  (AI_TOOLS env)))"

definition getConfiguredToolsForUpdate :: "env \<Rightarrow> path \<Rightarrow> world \<Rightarrow> string list" where
  "getConfiguredToolsForUpdate env projectPath w =
     js_set (getConfiguredTools env projectPath w @ getCommandConfiguredTools env projectPath w)"

definition hasProfileOrDeliveryDrift ::
  "env \<Rightarrow> path \<Rightarrow> string \<Rightarrow> string list \<Rightarrow> bool \<Rightarrow> bool \<Rightarrow> world \<Rightarrow> bool" where
  "hasProfileOrDeliveryDrift env projectPath tid profileWorkflows
       shouldGenerateSkills shouldGenerateCommands w =
     (case findTool env tid of
        None \<Rightarrow> False
      | Some tool \<Rightarrow>
          (case skillsDirOf tool of
             None \<Rightarrow> False
           | Some sd \<Rightarrow>
               let skillsRoot = skillsRootOf projectPath sd in
               if (if shouldGenerateSkills
                   then list_ex (\<lambda>workflow.
                           case map_of WORKFLOW_TO_SKILL_DIR workflow of
                             None \<Rightarrow> False
                           | Some dirName \<Rightarrow> \<not> existsSkillFile w skillsRoot dirName)
                         profileWorkflows
                   else list_ex (\<lambda>workflow.
                           case map_of WORKFLOW_TO_SKILL_DIR workflow of
                             None \<Rightarrow> False
                           | Some dirName \<Rightarrow> existsSkillDir w skillsRoot dirName)
                         ALL_WORKFLOWS)
               then True
               else
                 (case adapters env tid of
                    None \<Rightarrow> False
                  | Some getFilePath \<Rightarrow>
                      if shouldGenerateCommands
                      then list_ex (\<lambda>workflow.
                              \<not> cmdFiles w (fullPath projectPath (getFilePath workflow)))
                            profileWorkflows
                      else list_ex (\<lambda>workflow.
                              cmdFiles w (fullPath projectPath (getFilePath workflow)))
                            ALL_WORKFLOWS)))"

text \<open>
  The body of the per-tool \<^verbatim>\<open>try\<close> block of \<^verbatim>\<open>execute\<close> (step 10). The result is the
  error thrown, if any, with the numbers of skill directories and command files removed
  so far, and the world as the block left it.
\<close>

definition updateTool ::
  "env \<Rightarrow> path \<Rightarrow> bool \<Rightarrow> bool \<Rightarrow> (string \<times> string) list \<Rightarrow> string list
     \<Rightarrow> AIToolOption \<Rightarrow> string \<Rightarrow> world \<Rightarrow> (error option \<times> nat \<times> nat) \<times> world" where
  "updateTool env projectPath shouldGenerateSkills shouldGenerateCommands
       skillTemplates commandContents tool sd w =
     (let toolDir = join projectPath sd;
          skillsRoot = join toolDir ''skills'';
          (e1, w1) = (if shouldGenerateSkills
                      then writeSkillFiles toolDir skillsRoot (OPENSPEC_VERSION env)
                             skillTemplates w
                      else (None, w))
      in case e1 of
           Some err \<Rightarrow> ((Some err, 0, 0), w1)
         | None \<Rightarrow>
             let (w2, removedSkills) =
                   (if \<not> shouldGenerateSkills then removeSkillDirs skillsRoot w1 else (w1, 0));
                 (e3, w3) =
                   (if shouldGenerateCommands
                    then (case adapters env (tool_value tool) of
                            None \<Rightarrow> (None, w2)
                          | Some getFilePath \<Rightarrow>
                              writeCommandFiles
                                (map (fullPath projectPath)
                                     (generateCommands commandContents getFilePath)) w2)
                    else (None, w2))
             in case e3 of
                  Some err \<Rightarrow> ((Some err, removedSkills, 0), w3)
                | None \<Rightarrow>
                    let (w4, removedCommands) =
                          (if \<not> shouldGenerateCommands
                           then removeCommandFiles env projectPath (tool_value tool) w3
                           else (w3, 0))
                    in ((None, removedSkills, removedCommands), w4))"

record update_run =
  run_world :: world
  updatedTools :: "string list"
  failedTools :: "(string \<times> error) list"
  removedSkillCount :: nat
  removedCommandCount :: nat
  spinnerLines :: "msg list"

fun updateTools ::
  "env \<Rightarrow> path \<Rightarrow> bool \<Rightarrow> bool \<Rightarrow> (string \<times> string) list \<Rightarrow> string list
     \<Rightarrow> string list \<Rightarrow> update_run \<Rightarrow> update_run" where
  "updateTools env projectPath sgs sgc skillTemplates commandContents [] r = r"
| "updateTools env projectPath sgs sgc skillTemplates commandContents (tid # rest) r =
     (case findTool env tid of
        None \<Rightarrow> updateTools env projectPath sgs sgc skillTemplates commandContents rest r
      | Some tool \<Rightarrow>
          (case skillsDirOf tool of
             None \<Rightarrow> updateTools env projectPath sgs sgc skillTemplates commandContents rest r
           | Some sd \<Rightarrow>
               (case updateTool env projectPath sgs sgc skillTemplates commandContents
                       tool sd (run_world r) of
                  ((None, removedSkills, removedCommands), w') \<Rightarrow>
                    updateTools env projectPath sgs sgc skillTemplates commandContents rest
                      (r\<lparr>run_world := w',
                         updatedTools := updatedTools r @ [tool_name tool],
                         removedSkillCount := removedSkillCount r + removedSkills,
                         removedCommandCount := removedCommandCount r + removedCommands,
                         spinnerLines := spinnerLines r @ [SpinnerSucceed (tool_name tool)]\<rparr>)
                | ((Some err, removedSkills, removedCommands), w') \<Rightarrow>
                    updateTools env projectPath sgs sgc skillTemplates commandContents rest
                      (r\<lparr>run_world := w',
                         failedTools := failedTools r @ [(tool_name tool, err)],
                         removedSkillCount := removedSkillCount r + removedSkills,
                         removedCommandCount := removedCommandCount r + removedCommands,
                         spinnerLines := spinnerLines r @ [SpinnerFail (tool_name tool)]\<rparr>))))"

text \<open>\<^verbatim>\<open>displayExtraWorkflowsNote\<close>, through the wrapper \<^verbatim>\<open>scanInstalledWorkflows\<close> of update.ts.\<close>

definition toolsOfIds :: "env \<Rightarrow> string list \<Rightarrow> AIToolOption list" where
  "toolsOfIds env ids = List.map_filter (findTool env) ids"

definition displayExtraWorkflowsNote ::
  "env \<Rightarrow> path \<Rightarrow> string list \<Rightarrow> string list \<Rightarrow> world \<Rightarrow> msg list" where
  "displayExtraWorkflowsNote env projectPath configuredTools profileWorkflows w =
     (let installedWorkflows = scanInstalledWorkflows w projectPath (toolsOfIds env configuredTools);
          extraWorkflows = filter (\<lambda>wf. wf \<notin> set profileWorkflows) installedWorkflows
      in if extraWorkflows \<noteq> [] then [ExtraWorkflowsNote (length extraWorkflows)] else [])"

text \<open>
  Steps 5 to 7 of \<^verbatim>\<open>execute\<close>: the desired workflows and artifact kinds read from the
  configuration, and the tools selected for an update.
\<close>

definition desiredWorkflowsOf :: "GlobalConfig \<Rightarrow> string list" where
  "desiredWorkflowsOf globalConfig =
     (let prof = (case profile globalConfig of None \<Rightarrow> ''core'' | Some p \<Rightarrow> p);
          profileWorkflows = getProfileWorkflows prof (workflows globalConfig)
      in filter (\<lambda>workflow. workflow \<in> set ALL_WORKFLOWS) profileWorkflows)"

definition deliveryOf :: "GlobalConfig \<Rightarrow> string" where
  "deliveryOf globalConfig = (case delivery globalConfig of None \<Rightarrow> ''both'' | Some d \<Rightarrow> d)"

definition toolStatusesOf :: "env \<Rightarrow> path \<Rightarrow> string list \<Rightarrow> world \<Rightarrow> ToolVersionStatus list" where
  "toolStatusesOf env projectPath configuredTools w =
     (let commandConfiguredTools = getCommandConfiguredTools env projectPath w
      in map (\<lambda>tid.
                let status = getToolVersionStatus env projectPath tid (OPENSPEC_VERSION env) w
                in if \<not> configured status \<and> tid \<in> set commandConfiguredTools
                   then status\<lparr>configured := True\<rparr>
                   else status)
             configuredTools)"

definition toolsToUpdateSetOf ::
  "env \<Rightarrow> path \<Rightarrow> string list \<Rightarrow> string list \<Rightarrow> bool \<Rightarrow> bool \<Rightarrow> world \<Rightarrow> string list" where
  "toolsToUpdateSetOf env projectPath configuredTools desiredWorkflows sgs sgc w =
     (let toolStatuses = toolStatusesOf env projectPath configuredTools w;
          toolsNeedingVersionUpdate = map toolId (filter needsUpdate toolStatuses);
          toolsNeedingConfigSync =
            filter (\<lambda>tid. hasProfileOrDeliveryDrift env projectPath tid desiredWorkflows sgs sgc w)
                   configuredTools
      in js_set (toolsNeedingVersionUpdate @ toolsNeedingConfigSync))"

text \<open>Step 11 of \<^verbatim>\<open>execute\<close>: the summary of the per-tool loop.\<close>

definition summaryLines :: "update_run \<Rightarrow> msg list" where
  "summaryLines r =
     (if updatedTools r \<noteq> [] then [SummaryUpdated (updatedTools r)] else [])
     @ (if failedTools r \<noteq> [] then [SummaryFailed (failedTools r)] else [])
     @ (if removedCommandCount r > 0 then [RemovedCommands (removedCommandCount r)] else [])
     @ (if removedSkillCount r > 0 then [RemovedSkills (removedSkillCount r)] else [])"

definition emptyRun :: "world \<Rightarrow> update_run" where
  "emptyRun w = \<lparr>run_world = w, updatedTools = [], failedTools = [],
                 removedSkillCount = 0, removedCommandCount = 0, spinnerLines = []\<rparr>"

text \<open>
  \<^verbatim>\<open>UpdateCommand.execute\<close>. The legacy pass of step 2 belongs to a module that is not
  among the sources: the model starts from the world it leaves and takes the tools it
  configured as \<open>newlyConfiguredTools\<close>. The hints of \<^verbatim>\<open>detectNewTools\<close> are not part of
  the output.
\<close>

definition execute :: "env \<Rightarrow> bool \<Rightarrow> path \<Rightarrow> string list \<Rightarrow> world \<Rightarrow> error + (world \<times> msg list)" where
  "execute env force projectPath newlyConfiguredTools w0 =
     (if \<not> dirs w0 (join projectPath OPENSPEC_DIR_NAME) then Inl NoOpenSpecDirectory
      else
        let configuredTools = getConfiguredToolsForUpdate env projectPath w0 in
        if configuredTools = [] \<and> newlyConfiguredTools = [] then Inr (w0, [NoConfiguredTools])
        else
          let allToolIds = js_set (configuredTools @ newlyConfiguredTools);
              (w1, migrationLines) = migrateIfNeeded projectPath (toolsOfIds env allToolIds) w0;
              globalConfig = getGlobalConfig w1;
              desiredWorkflows = desiredWorkflowsOf globalConfig;
              shouldGenerateSkills = (deliveryOf globalConfig \<noteq> ''commands'');
              shouldGenerateCommands = (deliveryOf globalConfig \<noteq> ''skills'');
              toolStatuses = toolStatusesOf env projectPath configuredTools w1;
              toolsToUpdateSet =
                toolsToUpdateSetOf env projectPath configuredTools desiredWorkflows
                  shouldGenerateSkills shouldGenerateCommands w1;
              toolsUpToDate = filter (\<lambda>s. toolId s \<notin> set toolsToUpdateSet) toolStatuses
          in
          if \<not> force \<and> toolsToUpdateSet = []
          then Inr (w1, migrationLines @ [UpToDate (map toolId toolStatuses)]
                        @ displayExtraWorkflowsNote env projectPath configuredTools
                            desiredWorkflows w1)
          else
            let planLines = (if force then [ForceUpdating configuredTools]
                             else [UpdatePlan toolsToUpdateSet (map toolId toolsUpToDate)]);
                skillTemplates =
                  (if shouldGenerateSkills then getSkillTemplates (Some desiredWorkflows) else []);
                commandContents =
                  (if shouldGenerateCommands then getCommandContents (Some desiredWorkflows)
                   else []);
                toolsToUpdate = (if force then configuredTools else toolsToUpdateSet);
                r = updateTools env projectPath shouldGenerateSkills shouldGenerateCommands
                      skillTemplates commandContents toolsToUpdate (emptyRun w1)
            in Inr (run_world r,
                    migrationLines @ planLines @ spinnerLines r @ summaryLines r
                    @ (if newlyConfiguredTools \<noteq> [] then [GettingStarted] else [])
                    @ displayExtraWorkflowsNote env projectPath configuredTools
                        desiredWorkflows (run_world r)
                    @ (if updatedTools r \<noteq> [] then [ToolsLine (updatedTools r)] else [])
                    @ [RestartIDE]))"

section \<open>Init command (core/init.ts)\<close>

text \<open>
  A validated tool of \<^verbatim>\<open>validateTools\<close>: here the skills directory is known to be set.
\<close>

record ValidatedTool =
  v_value :: string
  v_name :: string
  v_skillsDir :: string
  wasConfigured :: bool

text \<open>
  The body of the per-tool \<^verbatim>\<open>try\<close> block of \<^verbatim>\<open>generateSkillsAndCommands\<close>. The last
  component of the result tells whether the commands were skipped for want of an adapter.
  \<^verbatim>\<open>removeSkillDirs\<close> and \<^verbatim>\<open>removeCommandFiles\<close> of init.ts are copies of those of
  update.ts.
\<close>

definition initTool ::
  "env \<Rightarrow> path \<Rightarrow> bool \<Rightarrow> bool \<Rightarrow> (string \<times> string) list \<Rightarrow> string list
     \<Rightarrow> ValidatedTool \<Rightarrow> world \<Rightarrow> (error option \<times> nat \<times> nat \<times> bool) \<times> world" where
  "initTool env projectPath shouldGenerateSkills shouldGenerateCommands
       skillTemplates commandContents tool w =
     (let isClaudeTool = (v_value tool = ''claude'');
          toolGenerateSkills = (if isClaudeTool then False else shouldGenerateSkills);
          toolGenerateCommands = (if isClaudeTool then True else shouldGenerateCommands);
          toolSkillTemplates = (if toolGenerateSkills then skillTemplates else []);
          toolDir = join projectPath (v_skillsDir tool);
          skillsRoot = join toolDir ''skills'';
          (e1, w1) = (if toolGenerateSkills
                      then writeSkillFiles toolDir skillsRoot (OPENSPEC_VERSION env)
                             toolSkillTemplates w
                      else (None, w))
      in case e1 of
           Some err \<Rightarrow> ((Some err, 0, 0, False), w1)
         | None \<Rightarrow>
             let (w2, removedSkills) =
                   (if \<not> toolGenerateSkills then removeSkillDirs skillsRoot w1 else (w1, 0));
                 (e3, w3) =
                   (if toolGenerateCommands
                    then (case adapters env (v_value tool) of
                            None \<Rightarrow> (None, w2)
                          | Some getFilePath \<Rightarrow>
                              writeCommandFiles
                                (map (fullPath projectPath)
                                     (generateCommands commandContents getFilePath)) w2)
                    else (None, w2));
                 skipped = (toolGenerateCommands \<and> adapters env (v_value tool) = None)
             in case e3 of
                  Some err \<Rightarrow> ((Some err, removedSkills, 0, skipped), w3)
                | None \<Rightarrow>
                    let (w4, removedCommands) =
                          (if \<not> toolGenerateCommands
                           then removeCommandFiles env projectPath (v_value tool) w3
                           else (w3, 0))
                    in ((None, removedSkills, removedCommands, skipped), w4))"

record init_run =
  init_world :: world
  createdTools :: "ValidatedTool list"
  refreshedTools :: "ValidatedTool list"
  init_failedTools :: "(string \<times> error) list"
  commandsSkipped :: "string list"
  init_removedSkillCount :: nat
  init_removedCommandCount :: nat

fun initTools ::
  "env \<Rightarrow> path \<Rightarrow> bool \<Rightarrow> bool \<Rightarrow> (string \<times> string) list \<Rightarrow> string list
     \<Rightarrow> ValidatedTool list \<Rightarrow> init_run \<Rightarrow> init_run" where
  "initTools env projectPath sgs sgc skillTemplates commandContents [] r = r"
| "initTools env projectPath sgs sgc skillTemplates commandContents (tool # rest) r =
     (case initTool env projectPath sgs sgc skillTemplates commandContents tool (init_world r) of
        ((None, removedSkills, removedCommands, skipped), w') \<Rightarrow>
          initTools env projectPath sgs sgc skillTemplates commandContents rest
            (r\<lparr>init_world := w',
               createdTools := (if wasConfigured tool then createdTools r
                                else createdTools r @ [tool]),
               refreshedTools := (if wasConfigured tool then refreshedTools r @ [tool]
                                  else refreshedTools r),
               commandsSkipped := (if skipped then commandsSkipped r @ [v_value tool]
                                   else commandsSkipped r),
               init_removedSkillCount := init_removedSkillCount r + removedSkills,
               init_removedCommandCount := init_removedCommandCount r + removedCommands\<rparr>)
      | ((Some err, removedSkills, removedCommands, skipped), w') \<Rightarrow>
          initTools env projectPath sgs sgc skillTemplates commandContents rest
            (r\<lparr>init_world := w',
               init_failedTools := init_failedTools r @ [(v_name tool, err)],
               commandsSkipped := (if skipped then commandsSkipped r @ [v_value tool]
                                   else commandsSkipped r),
               init_removedSkillCount := init_removedSkillCount r + removedSkills,
               init_removedCommandCount := init_removedCommandCount r + removedCommands\<rparr>))"

text \<open>\<^verbatim>\<open>resolveProfileOverride\<close>: the \<^verbatim>\<open>--profile\<close> option, when given, must be valid.\<close>

definition resolveProfileOverride :: "string option \<Rightarrow> error + string option" where
  "resolveProfileOverride profileOverride =
     (case profileOverride of
        None \<Rightarrow> Inr None
      | Some s \<Rightarrow> if s = ''core'' \<or> s = ''custom'' then Inr (Some s) else Inl (InvalidProfile s))"

definition generateSkillsAndCommands ::
  "env \<Rightarrow> string option \<Rightarrow> path \<Rightarrow> ValidatedTool list \<Rightarrow> world \<Rightarrow> error + init_run" where
  "generateSkillsAndCommands env profileOverride projectPath tools w =
     (let globalConfig = getGlobalConfig w in
      case resolveProfileOverride profileOverride of
        Inl err \<Rightarrow> Inl err
      | Inr override \<Rightarrow>
          let prof = (case override of
                        Some p \<Rightarrow> p
                      | None \<Rightarrow> (case profile globalConfig of None \<Rightarrow> ''core'' | Some p \<Rightarrow> p));
              deliv = deliveryOf globalConfig;
              workflowList = getProfileWorkflows prof (workflows globalConfig);
              shouldGenerateSkills = (deliv \<noteq> ''commands'');
              shouldGenerateCommands = (deliv \<noteq> ''skills'');
              skillTemplates =
                (if shouldGenerateSkills then getSkillTemplates (Some workflowList) else []);
              commandContents =
                (if shouldGenerateCommands then getCommandContents (Some workflowList) else [])
          in Inr (initTools env projectPath shouldGenerateSkills shouldGenerateCommands
                    skillTemplates commandContents tools
                    \<lparr>init_world = w, createdTools = [], refreshedTools = [],
                     init_failedTools = [], commandsSkipped = [],
                     init_removedSkillCount = 0, init_removedCommandCount = 0\<rparr>))"

text \<open>
  What the command line hands to \<^verbatim>\<open>InitCommand\<close> and what the outside answers during
  the run: the \<^verbatim>\<open>--profile\<close> and \<^verbatim>\<open>--force\<close> options, whether prompts are possible,
  whether the project directory can be written, the user's answers to the two
  confirmations, the tools \<^verbatim>\<open>getAvailableTools\<close> detects and the outcome of the tool
  selection (a prompt or the parsed \<^verbatim>\<open>--tools\<close> option).
\<close>

record init_input =
  profileOverride :: "string option"
  forceOption :: bool
  canPrompt :: bool
  writePermission :: bool
  confirmCleanup :: bool
  confirmProfile :: bool
  detectedTools :: "AIToolOption list"
  selectedToolIds :: "error + string list"

datatype outcome = Completed | Raised error | Exited nat

text \<open>The exit code the command line gives: it catches an error and exits with 1.\<close>

definition exitCode :: "outcome \<Rightarrow> nat" where
  "exitCode out = (case out of Completed \<Rightarrow> 0 | Raised e \<Rightarrow> 1 | Exited n \<Rightarrow> n)"

text \<open>
  \<^verbatim>\<open>handleLegacyCleanup\<close> of init.ts. Detection and cleanup belong to a module that is not
  among the sources; \<open>legacyArtifacts\<close> says whether legacy files are on disk, and the
  cleanup removes them.
\<close>

definition initLegacyCleanup :: "init_input \<Rightarrow> world \<Rightarrow> (nat option \<times> world) \<times> msg list" where
  "initLegacyCleanup inp w =
     (if \<not> legacyArtifacts w then ((None, w), [])
      else if forceOption inp
        then ((None, w\<lparr>legacyArtifacts := False\<rparr>), [LegacyDetected, LegacyCleanedUp])
      else if \<not> canPrompt inp
        then ((Some 1, w), [LegacyDetected, LegacyNonInteractive])
      else if \<not> confirmCleanup inp
        then ((Some 0, w), [LegacyDetected, InitCancelled])
      else ((None, w\<lparr>legacyArtifacts := False\<rparr>), [LegacyDetected, LegacyCleanedUp]))"

fun validateTools :: "env \<Rightarrow> string list \<Rightarrow> string list \<Rightarrow> error + ValidatedTool list" where
  "validateTools env configuredBefore [] = Inr []"
| "validateTools env configuredBefore (tid # rest) =
     (case findTool env tid of
        None \<Rightarrow> Inl (UnknownTool tid)
      | Some tool \<Rightarrow>
          (case skillsDirOf tool of
             None \<Rightarrow> Inl (NoSkillSupport tid)
           | Some sd \<Rightarrow>
               (case validateTools env configuredBefore rest of
                  Inl err \<Rightarrow> Inl err
                | Inr vs \<Rightarrow>
                    Inr (\<lparr>v_value = tool_value tool, v_name = tool_name tool, v_skillsDir = sd,
                          wasConfigured = (tool_value tool \<in> set configuredBefore)\<rparr> # vs))))"

definition createDirectoryStructure :: "path \<Rightarrow> world \<Rightarrow> world" where
  "createDirectoryStructure openspecPath w =
     w\<lparr>dirs := (\<lambda>p. p = openspecPath \<or> p = join openspecPath ''specs''
                    \<or> p = join openspecPath ''changes''
                    \<or> p = join (join openspecPath ''changes'') ''archive'' \<or> dirs w p)\<rparr>"

text \<open>
  \<^verbatim>\<open>InitCommand.execute\<close>, in the order of the source. Modelled from the spec:
  \<^verbatim>\<open>getToolStates\<close> of the shared module, which is not among the sources; a tool was
  configured before when a managed skill file of it exists. The project's
  \<^verbatim>\<open>config.yaml\<close> of the last step is not part of the world.
\<close>

definition initExecute :: "env \<Rightarrow> init_input \<Rightarrow> path \<Rightarrow> world \<Rightarrow> outcome \<times> world \<times> msg list" where
  "initExecute env inp projectPath w0 =
     (let openspecPath = join projectPath OPENSPEC_DIR_NAME;
          extendMode = dirs w0 openspecPath
      in
      if \<not> writePermission inp then (Raised InsufficientPermissions, w0, [])
      else
        case initLegacyCleanup inp w0 of
          ((Some code, w1), legacyLines) \<Rightarrow> (Exited code, w1, legacyLines)
        | ((None, w1), legacyLines) \<Rightarrow>
            let (w2, migrationLines) =
                  (if extendMode then migrateIfNeeded projectPath (detectedTools inp) w1
                   else (w1, []));
                globalConfig = getGlobalConfig w2
            in
            case resolveProfileOverride (profileOverride inp) of
              Inl err \<Rightarrow> (Raised err, w2, legacyLines @ migrationLines)
            | Inr override \<Rightarrow>
                let prof = (case override of
                              Some p \<Rightarrow> p
                            | None \<Rightarrow> (case profile globalConfig of
                                         None \<Rightarrow> ''core'' | Some p \<Rightarrow> p));
                    workflowList = getProfileWorkflows prof (workflows globalConfig)
                in
                if canPrompt inp \<and> prof = ''custom'' \<and> workflowList \<noteq> []
                   \<and> \<not> confirmProfile inp
                then (Completed, w2, legacyLines @ migrationLines @ [ProfileNotConfirmed])
                else
                  let configuredBefore = getConfiguredTools env projectPath w2 in
                  case selectedToolIds inp of
                    Inl err \<Rightarrow> (Raised err, w2, legacyLines @ migrationLines)
                  | Inr ids \<Rightarrow>
                      (case validateTools env configuredBefore ids of
                         Inl err \<Rightarrow> (Raised err, w2, legacyLines @ migrationLines)
                       | Inr validatedTools \<Rightarrow>
                           let w3 = createDirectoryStructure openspecPath w2 in
                           (case generateSkillsAndCommands env (profileOverride inp)
                                   projectPath validatedTools w3 of
                              Inl err \<Rightarrow> (Raised err, w3, legacyLines @ migrationLines)
                            | Inr r \<Rightarrow>
                                (Completed, init_world r,
                                 legacyLines @ migrationLines
                                 @ [SetupComplete (map v_name (createdTools r))
                                      (map v_name (refreshedTools r))
                                      (init_failedTools r)]))))"

section \<open>Example projects\<close>

text \<open>Two tools with their command adapters, and a project at \<^verbatim>\<open>/p\<close>.\<close>

definition ex_claude :: AIToolOption where
  "ex_claude = \<lparr>tool_value = ''claude'', tool_name = ''Claude Code'', skillsDir = Some ''.claude''\<rparr>"

definition ex_cursor :: AIToolOption where
  "ex_cursor = \<lparr>tool_value = ''cursor'', tool_name = ''Cursor'', skillsDir = Some ''.cursor''\<rparr>"

definition ex_env :: env where
  "ex_env =
     \<lparr>AI_TOOLS = [ex_claude, ex_cursor],
      adapters = (\<lambda>t. if t = ''claude'' then Some (\<lambda>c. ''.claude/commands/opsx/'' @ c @ ''.md'')
                      else if t = ''cursor'' then Some (\<lambda>c. ''.cursor/commands/opsx-'' @ c @ ''.md'')
                      else None),
      OPENSPEC_VERSION = ''1.0.0''\<rparr>"

definition mkWorld ::
  "(path \<Rightarrow> bool) \<Rightarrow> (path \<Rightarrow> string \<Rightarrow> skill_entry) \<Rightarrow> (path \<Rightarrow> bool) \<Rightarrow> raw_config \<Rightarrow> world" where
  "mkWorld ds sk cf raw =
     \<lparr>dirs = ds, skillDirs = sk, cmdFiles = cf, readOnly = (\<lambda>p. False), locked = (\<lambda>p. False),
      configFile = raw, legacyArtifacts = False\<rparr>"

definition ex_dirs :: "path \<Rightarrow> bool" where
  "ex_dirs p = (p = ''/p/openspec'' \<or> p = ''/p/.claude'' \<or> p = ''/p/.cursor'')"

text \<open>Claude has the skills explore and apply, written by an earlier version.\<close>

definition ex_oldSkills :: "path \<Rightarrow> string \<Rightarrow> skill_entry" where
  "ex_oldSkills r d =
     (if r = ''/p/.claude/skills'' \<and> (d = ''openspec-explore'' \<or> d = ''openspec-apply-change'')
      then SkillMd (Some ''0.1.0'') else NoDir)"

definition ex_unreadable :: world where
  "ex_unreadable = mkWorld ex_dirs ex_oldSkills (\<lambda>p. False) Unreadable"

definition ex_premigration :: world where
  "ex_premigration = mkWorld ex_dirs ex_oldSkills (\<lambda>p. False) NoFile"

text \<open>The path of the \<^verbatim>\<open>SKILL.md\<close> of a catalog entry.\<close>

definition skillFileOf :: "path \<Rightarrow> string \<times> string \<Rightarrow> path" where
  "skillFileOf root entry = join (join root (fst entry)) ''SKILL.md''"

definition toolError ::
  "env \<Rightarrow> path \<Rightarrow> bool \<Rightarrow> bool \<Rightarrow> (string \<times> string) list \<Rightarrow> string list \<Rightarrow> AIToolOption \<Rightarrow> string \<Rightarrow> (path \<Rightarrow> bool) \<Rightarrow> error option" where
  "toolError env pp sgs sgc st cc tool sd ro =
     (case (if sgs then dropWhile (\<lambda>e. \<not> ro (skillFileOf (skillsRootOf pp sd) e)) st else []) of
        e # _ \<Rightarrow> Some (WriteError (skillFileOf (skillsRootOf pp sd) e))
      | [] \<Rightarrow>
          (case (if sgc then adapters env (tool_value tool) else None) of
             None \<Rightarrow> None
           | Some g \<Rightarrow>
               (case dropWhile (\<lambda>q. \<not> ro q) (map (fullPath pp) (generateCommands cc g)) of
                  [] \<Rightarrow> None
                | q # _ \<Rightarrow> Some (WriteError q))))"

definition processable :: "env \<Rightarrow> string list \<Rightarrow> (AIToolOption \<times> string) list" where
  "processable env ids =
     List.map_filter (\<lambda>tid. case findTool env tid of
                               None \<Rightarrow> None
                             | Some tool \<Rightarrow> (case skillsDirOf tool of
                                               None \<Rightarrow> None
                                             | Some sd \<Rightarrow> Some (tool, sd))) ids"


definition linesOf :: "error + (world \<times> msg list) \<Rightarrow> msg list" where
  "linesOf r = (case r of Inl e \<Rightarrow> [] | Inr (w, out) \<Rightarrow> out)"

definition worldAfter :: "world \<Rightarrow> error + (world \<times> msg list) \<Rightarrow> world" where
  "worldAfter w r = (case r of Inl e \<Rightarrow> w | Inr (w', out) \<Rightarrow> w')"

definition ex_coreSkills :: GlobalConfig where
  "ex_coreSkills = \<lparr>profile = Some ''core'', delivery = Some ''skills'', workflows = None\<rparr>"

definition ex_lockedCommand :: world where
  "ex_lockedCommand =
     (mkWorld ex_dirs ex_oldSkills (\<lambda>p. p = ''/p/.claude/commands/opsx/explore.md'')
        (Parsed ex_coreSkills))
       \<lparr>locked := (\<lambda>p. p = ''/p/.claude/commands/opsx/explore.md'')\<rparr>"

definition ex_coreCommands :: GlobalConfig where
  "ex_coreCommands = \<lparr>profile = Some ''core'', delivery = Some ''commands'', workflows = None\<rparr>"

definition ex_lockedSkill :: world where
  "ex_lockedSkill =
     (mkWorld ex_dirs ex_oldSkills (\<lambda>p. False) (Parsed ex_coreCommands))
       \<lparr>locked := (\<lambda>p. p = ''/p/.claude/skills/openspec-explore'')\<rparr>"



record update_plan =
  plan_world :: world
  migrationLines :: "msg list"
  configuredTools :: "string list"
  desiredWorkflows :: "string list"
  shouldGenerateSkills :: bool
  shouldGenerateCommands :: bool
  toolsToUpdateSet :: "string list"

definition planUpdate :: "env \<Rightarrow> path \<Rightarrow> string list \<Rightarrow> world \<Rightarrow> update_plan" where
  "planUpdate env projectPath newlyConfiguredTools w0 =
     (let ct = getConfiguredToolsForUpdate env projectPath w0;
          m = migrateIfNeeded projectPath (toolsOfIds env (js_set (ct @ newlyConfiguredTools))) w0;
          globalConfig = getGlobalConfig (fst m);
          desired = desiredWorkflowsOf globalConfig;
          sgs = (deliveryOf globalConfig \<noteq> ''commands'');
          sgc = (deliveryOf globalConfig \<noteq> ''skills'')
      in \<lparr>plan_world = fst m, migrationLines = snd m, configuredTools = ct,
          desiredWorkflows = desired, shouldGenerateSkills = sgs, shouldGenerateCommands = sgc,
          toolsToUpdateSet = toolsToUpdateSetOf env projectPath ct desired sgs sgc (fst m)\<rparr>)"

definition runUpdate :: "env \<Rightarrow> bool \<Rightarrow> path \<Rightarrow> string list \<Rightarrow> world \<Rightarrow> update_run" where
  "runUpdate env force projectPath newlyConfiguredTools w0 =
     (let pl = planUpdate env projectPath newlyConfiguredTools w0
      in updateTools env projectPath (shouldGenerateSkills pl) (shouldGenerateCommands pl)
           (if shouldGenerateSkills pl then getSkillTemplates (Some (desiredWorkflows pl)) else [])
           (if shouldGenerateCommands pl then getCommandContents (Some (desiredWorkflows pl)) else [])
           (if force then configuredTools pl else toolsToUpdateSet pl)
           (emptyRun (plan_world pl)))"

text \<open>Claude holds the four core skills of version 0.1.0 and the four core commands.\<close>

definition ex_coreSkillsAt :: "string \<Rightarrow> path \<Rightarrow> string \<Rightarrow> skill_entry" where
  "ex_coreSkillsAt v r d =
     (if r = ''/p/.claude/skills''
         \<and> d \<in> set [''openspec-propose'', ''openspec-explore'', ''openspec-apply-change'',
                      ''openspec-archive-change'']
      then SkillMd (Some v) else NoDir)"

definition ex_coreCommandFiles :: "path \<Rightarrow> bool" where
  "ex_coreCommandFiles p =
     (p \<in> set [''/p/.claude/commands/opsx/propose.md'', ''/p/.claude/commands/opsx/explore.md'',
                ''/p/.claude/commands/opsx/apply.md'', ''/p/.claude/commands/opsx/archive.md''])"

definition ex_staleCore :: world where
  "ex_staleCore = mkWorld ex_dirs (ex_coreSkillsAt ''0.1.0'') ex_coreCommandFiles (Parsed DEFAULT_CONFIG)"

text \<open>
  Claude is fully reconciled under the custom profile explore, apply, archive with both
  kinds of artifacts; afterwards the profile is narrowed to explore.
\<close>

definition ex_abcSkills :: "path \<Rightarrow> string \<Rightarrow> skill_entry" where
  "ex_abcSkills r d =
     (if r = ''/p/.claude/skills''
         \<and> d \<in> set [''openspec-explore'', ''openspec-apply-change'', ''openspec-archive-change'']
      then SkillMd (Some ''1.0.0'') else NoDir)"

definition ex_abcCommandFiles :: "path \<Rightarrow> bool" where
  "ex_abcCommandFiles p =
     (p \<in> set [''/p/.claude/commands/opsx/explore.md'', ''/p/.claude/commands/opsx/apply.md'',
                ''/p/.claude/commands/opsx/archive.md''])"

definition ex_customABC :: GlobalConfig where
  "ex_customABC = \<lparr>profile = Some ''custom'', delivery = Some ''both'',
                    workflows = Some [''explore'', ''apply'', ''archive'']\<rparr>"

definition ex_reconciledABC :: world where
  "ex_reconciledABC = mkWorld ex_dirs ex_abcSkills ex_abcCommandFiles (Parsed ex_customABC)"

definition ex_narrowed :: world where
  "ex_narrowed = ex_reconciledABC\<lparr>configFile := Parsed (ex_customABC\<lparr>workflows := Some [''explore'']\<rparr>)\<rparr>"

text \<open>An init run on an existing project, without a terminal, with an invalid profile.\<close>

definition ex_bogusInit :: init_input where
  "ex_bogusInit =
     \<lparr>profileOverride = Some ''bogus'', forceOption = False, canPrompt = False,
      writePermission = True, confirmCleanup = False, confirmProfile = False,
      detectedTools = [ex_claude], selectedToolIds = Inr [''claude'']\<rparr>"

text \<open>
  A project in which no tool has any managed artifact yet, with both kinds of artifacts
  to be delivered, and Claude as a tool validated by the init command.
\<close>

definition ex_freshBoth :: world where
  "ex_freshBoth = mkWorld ex_dirs (\<lambda>r d. NoDir) (\<lambda>p. False) (Parsed DEFAULT_CONFIG)"

definition ex_claudeValidated :: ValidatedTool where
  "ex_claudeValidated =
     \<lparr>v_value = ''claude'', v_name = ''Claude Code'', v_skillsDir = ''.claude'',
      wasConfigured = False\<rparr>"

text \<open>Claude holds two skills of an earlier version; only commands are to be delivered.\<close>

definition ex_toCommands :: world where
  "ex_toCommands = mkWorld ex_dirs ex_oldSkills (\<lambda>p. False) (Parsed ex_coreCommands)"


section \<open>Profile resolution\<close>

text \<open>
  C5. \<^verbatim>\<open>getProfileWorkflows\<close> returns the fixed core list for \<^verbatim>\<open>'core'\<close> whatever custom
  list is supplied, returns the supplied list unchanged for \<^verbatim>\<open>'custom'\<close> (the empty list
  when none is supplied), and answers any other profile string as it answers \<^verbatim>\<open>'core'\<close>.
  It is a total function of its two arguments.
\<close>

theorem getProfileWorkflows_resolution:
  "getProfileWorkflows ''core'' cw = [''propose'', ''explore'', ''apply'', ''archive'']
   \<and> getProfileWorkflows ''custom'' (Some ws) = ws
   \<and> getProfileWorkflows ''custom'' None = []
   \<and> (p \<noteq> ''core'' \<and> p \<noteq> ''custom'' \<longrightarrow>
        getProfileWorkflows p cw = getProfileWorkflows ''core'' cw)"
  by (simp add: getProfileWorkflows_def CORE_WORKFLOWS_def)

theorem getProfileWorkflows_resolution_witness:
  "''legacy'' \<noteq> ''core'' \<and> ''legacy'' \<noteq> ''custom''
   \<and> getProfileWorkflows ''legacy'' (Some [''new'', ''verify''])
       = getProfileWorkflows ''core'' (Some [''new'', ''verify''])"
proof -
  have h: "''legacy'' \<noteq> ''core'' \<and> ''legacy'' \<noteq> ''custom''" by simp
  from getProfileWorkflows_resolution [of "Some [''new'', ''verify'']" "[]" "''legacy''"]
  have "''legacy'' \<noteq> ''core'' \<and> ''legacy'' \<noteq> ''custom'' \<longrightarrow>
        getProfileWorkflows ''legacy'' (Some [''new'', ''verify''])
          = getProfileWorkflows ''core'' (Some [''new'', ''verify''])"
    by blast
  with h show ?thesis by blast
qed

section \<open>Sets built by the update command\<close>

lemma set_js_set_aux:
  "set (foldl (\<lambda>acc x. if x \<in> set acc then acc else acc @ [x]) acc xs) = set acc \<union> set xs"
  by (induction xs arbitrary: acc) auto

lemma set_js_set: "set (js_set xs) = set xs"
  by (simp add: js_set_def set_js_set_aux)

lemma js_set_Nil_iff: "js_set xs = [] \<longleftrightarrow> xs = []"
  using set_js_set [of xs] by (metis set_empty)

section \<open>Migration\<close>

lemma migrate_cases:
  "migrateIfNeeded projectPath tools w =
     (if (configFile w = NoFile \<or> (\<exists>c. configFile w = Parsed c \<and> profile c = None))
         \<and> scanInstalledWorkflows w projectPath tools \<noteq> []
      then (w\<lparr>configFile := Parsed ((getGlobalConfig w)\<lparr>profile := Some ''custom'',
                 workflows := Some (scanInstalledWorkflows w projectPath tools)\<rparr>)\<rparr>,
            [Migrated (length (scanInstalledWorkflows w projectPath tools)), NewInThisVersion])
      else (w, []))"
  by (cases "configFile w")
     (auto simp: migrateIfNeeded_def rawProfile_def saveGlobalConfig_def Let_def)

text \<open>
  C4, as stated, fails: with a config file that exists but cannot be read or parsed there
  is no profile key to be found and the scan finds two workflows, yet nothing is
  persisted.
\<close>

theorem migrateIfNeeded_unreadable_counterexample:
  "\<not> hasProfileKey (configFile ex_unreadable)
   \<and> scanInstalledWorkflows ex_unreadable ''/p'' [ex_claude] = [''explore'', ''apply'']
   \<and> configFile (fst (migrateIfNeeded ''/p'' [ex_claude] ex_unreadable)) = Unreadable
   \<and> snd (migrateIfNeeded ''/p'' [ex_claude] ex_unreadable) = []"
  by code_simp

text \<open>
  C4, amended. \<^verbatim>\<open>migrateIfNeeded\<close> persists \<^verbatim>\<open>profile = 'custom'\<close> with exactly the
  workflows the scan of the managed skill files finds (the union over the tools), keeping
  the delivery, when the config file is absent or parses without a profile key and the scan
  finds at least one workflow; once it has done so, no later call changes the config
  again, whatever is on disk then. When the file cannot be read, when the profile key is
  present with any value, or when the scan finds nothing, the call changes nothing and
  prints nothing. It never touches anything but the config file.
\<close>

theorem migrateIfNeeded_gate:
  "((configFile w = NoFile \<or> (\<exists>c. configFile w = Parsed c \<and> profile c = None))
      \<and> scanInstalledWorkflows w projectPath tools \<noteq> [] \<longrightarrow>
      (\<exists>c'. configFile (fst (migrateIfNeeded projectPath tools w)) = Parsed c'
            \<and> profile c' = Some ''custom''
            \<and> workflows c' = Some (scanInstalledWorkflows w projectPath tools)
            \<and> delivery c' = delivery (getGlobalConfig w))
      \<and> (\<forall>w2 projectPath2 tools2.
            configFile w2 = configFile (fst (migrateIfNeeded projectPath tools w)) \<longrightarrow>
            migrateIfNeeded projectPath2 tools2 w2 = (w2, [])))
   \<and> (configFile w = Unreadable \<or> (\<exists>c p. configFile w = Parsed c \<and> profile c = Some p)
        \<or> scanInstalledWorkflows w projectPath tools = [] \<longrightarrow>
        migrateIfNeeded projectPath tools w = (w, []))
   \<and> set (scanInstalledWorkflows w projectPath tools)
        = (\<Union>tool \<in> set tools. set (installedOfTool w projectPath tool))
   \<and> (fst (migrateIfNeeded projectPath tools w))\<lparr>configFile := configFile w\<rparr> = w"
  by (auto simp: migrate_cases [of projectPath tools w] migrate_cases [where w = "w2" for w2]
        scanInstalledWorkflows_def set_js_set)

theorem migrateIfNeeded_gate_witness:
  "configFile ex_premigration = NoFile
   \<and> scanInstalledWorkflows ex_premigration ''/p'' [ex_claude] = [''explore'', ''apply'']
   \<and> (\<exists>c'. configFile (fst (migrateIfNeeded ''/p'' [ex_claude] ex_premigration)) = Parsed c'
          \<and> profile c' = Some ''custom''
          \<and> workflows c' = Some [''explore'', ''apply'']
          \<and> delivery c' = Some ''both'')"
proof -
  have cf: "configFile ex_premigration = NoFile"
    by (simp add: ex_premigration_def mkWorld_def)
  have sc: "scanInstalledWorkflows ex_premigration ''/p'' [ex_claude] = [''explore'', ''apply'']"
    by code_simp
  have dl: "delivery (getGlobalConfig ex_premigration) = Some ''both''"
    by code_simp
  from cf sc have pre:
    "(configFile ex_premigration = NoFile
        \<or> (\<exists>c. configFile ex_premigration = Parsed c \<and> profile c = None))
     \<and> scanInstalledWorkflows ex_premigration ''/p'' [ex_claude] \<noteq> []"
    by simp
  from migrateIfNeeded_gate [of ex_premigration "''/p''" "[ex_claude]"] pre
  have "\<exists>c'. configFile (fst (migrateIfNeeded ''/p'' [ex_claude] ex_premigration)) = Parsed c'
          \<and> profile c' = Some ''custom''
          \<and> workflows c' = Some (scanInstalledWorkflows ex_premigration ''/p'' [ex_claude])
          \<and> delivery c' = delivery (getGlobalConfig ex_premigration)"
    by blast
  with cf sc dl show ?thesis by simp
qed

section \<open>File operations of one tool\<close>


lemma removeSkillDirsLoop_fields:
  "dirs (fst (removeSkillDirsLoop root ws w n)) = dirs w"
  "cmdFiles (fst (removeSkillDirsLoop root ws w n)) = cmdFiles w"
  "readOnly (fst (removeSkillDirsLoop root ws w n)) = readOnly w"
  "locked (fst (removeSkillDirsLoop root ws w n)) = locked w"
  "configFile (fst (removeSkillDirsLoop root ws w n)) = configFile w"
  "legacyArtifacts (fst (removeSkillDirsLoop root ws w n)) = legacyArtifacts w"
  by (induction ws arbitrary: w n; simp add: rmSkillDir_def split: option.splits)+

lemma removeSkillDirsLoop_skillDirs:
  "skillDirs (fst (removeSkillDirsLoop root ws w n)) r d =
     (if r = root \<and> (\<exists>wf \<in> set ws. map_of WORKFLOW_TO_SKILL_DIR wf = Some d)
         \<and> \<not> locked w (join root d)
      then NoDir else skillDirs w r d)"
proof (induction ws arbitrary: w n)
  case Nil
  then show ?case by simp
next
  case (Cons wf ws)
  show ?case
  proof (cases "map_of WORKFLOW_TO_SKILL_DIR wf")
    case None
    then show ?thesis using Cons.IH [of w n] by auto
  next
    case (Some d0)
    show ?thesis
    proof (cases "existsSkillDir w root d0 \<and> \<not> locked w (join root d0)")
      case True
      then show ?thesis
        using Some Cons.IH [of "w\<lparr>skillDirs := (skillDirs w)(root := (skillDirs w root)(d0 := NoDir))\<rparr>" "n + 1"]
        by (auto simp: rmSkillDir_def)
    next
      case False
      then show ?thesis
        using Some Cons.IH [of w n]
        by (auto simp: rmSkillDir_def existsSkillDir_def)
    qed
  qed
qed

lemma removeCommandFilesLoop_fields:
  "dirs (fst (removeCommandFilesLoop pp g ws w n)) = dirs w"
  "skillDirs (fst (removeCommandFilesLoop pp g ws w n)) = skillDirs w"
  "readOnly (fst (removeCommandFilesLoop pp g ws w n)) = readOnly w"
  "locked (fst (removeCommandFilesLoop pp g ws w n)) = locked w"
  "configFile (fst (removeCommandFilesLoop pp g ws w n)) = configFile w"
  "legacyArtifacts (fst (removeCommandFilesLoop pp g ws w n)) = legacyArtifacts w"
  by (induction ws arbitrary: w n; simp add: unlink_def Let_def)+

lemma removeCommandFilesLoop_cmdFiles:
  "cmdFiles (fst (removeCommandFilesLoop pp g ws w n)) q =
     (if (\<exists>wf \<in> set ws. q = fullPath pp (g wf)) \<and> \<not> locked w q then False else cmdFiles w q)"
proof (induction ws arbitrary: w n)
  case Nil
  then show ?case by simp
next
  case (Cons wf ws)
  show ?case
  proof (cases "cmdFiles w (fullPath pp (g wf)) \<and> \<not> locked w (fullPath pp (g wf))")
    case True
    then show ?thesis
      using Cons.IH [of "w\<lparr>cmdFiles := (cmdFiles w)(fullPath pp (g wf) := False)\<rparr>" "n + 1"]
      by (auto simp: unlink_def Let_def)
  next
    case False
    then show ?thesis
      using Cons.IH [of w n] by (auto simp: unlink_def Let_def)
  qed
qed

lemma writeSkillFiles_fields:
  "cmdFiles (snd (writeSkillFiles td root v es w)) = cmdFiles w"
  "readOnly (snd (writeSkillFiles td root v es w)) = readOnly w"
  "locked (snd (writeSkillFiles td root v es w)) = locked w"
  "configFile (snd (writeSkillFiles td root v es w)) = configFile w"
  "legacyArtifacts (snd (writeSkillFiles td root v es w)) = legacyArtifacts w"
  by (induction es arbitrary: w; simp add: writeSkillFile_def Let_def)+

lemma writeSkillFiles_error:
  "fst (writeSkillFiles td root v es w) =
     (case dropWhile (\<lambda>e. \<not> readOnly w (skillFileOf root e)) es of
        [] \<Rightarrow> None
      | e # _ \<Rightarrow> Some (WriteError (skillFileOf root e)))"
  by (induction es arbitrary: w) (simp_all add: writeSkillFile_def Let_def skillFileOf_def)

lemma writeSkillFiles_skillDirs:
  "skillDirs (snd (writeSkillFiles td root v es w)) r d =
     (if r = root \<and> d \<in> set (map fst (takeWhile (\<lambda>e. \<not> readOnly w (skillFileOf root e)) es))
      then SkillMd (Some v) else skillDirs w r d)"
proof (induction es arbitrary: w)
  case Nil
  then show ?case by simp
next
  case (Cons e es)
  show ?case
  proof (cases "readOnly w (skillFileOf root e)")
    case True
    then show ?thesis by (simp add: writeSkillFile_def Let_def skillFileOf_def)
  next
    case False
    let ?w' = "w\<lparr>skillDirs := (skillDirs w)(root := (skillDirs w root)(fst e := SkillMd (Some v))),
                 dirs := (dirs w)(td := True)\<rparr>"
    have step: "writeSkillFiles td root v (e # es) w = writeSkillFiles td root v es ?w'"
      using False by (simp add: writeSkillFile_def Let_def skillFileOf_def)
    have ro: "readOnly ?w' = readOnly w" by simp
    show ?thesis
      unfolding step Cons.IH [of ?w'] ro using False by simp
  qed
qed

lemma writeSkillFiles_dirs:
  "dirs (snd (writeSkillFiles td root v es w)) q =
     (if q = td \<and> takeWhile (\<lambda>e. \<not> readOnly w (skillFileOf root e)) es \<noteq> []
      then True else dirs w q)"
proof (induction es arbitrary: w)
  case Nil
  then show ?case by simp
next
  case (Cons e es)
  show ?case
  proof (cases "readOnly w (skillFileOf root e)")
    case True
    then show ?thesis by (simp add: writeSkillFile_def Let_def skillFileOf_def)
  next
    case False
    let ?w' = "w\<lparr>skillDirs := (skillDirs w)(root := (skillDirs w root)(fst e := SkillMd (Some v))),
                 dirs := (dirs w)(td := True)\<rparr>"
    have step: "writeSkillFiles td root v (e # es) w = writeSkillFiles td root v es ?w'"
      using False by (simp add: writeSkillFile_def Let_def skillFileOf_def)
    have ro: "readOnly ?w' = readOnly w" by simp
    show ?thesis
      unfolding step Cons.IH [of ?w'] ro using False by simp
  qed
qed

lemma writeCommandFiles_dirs:
  "dirs w p \<Longrightarrow> dirs (snd (writeCommandFiles ps w)) p"
  by (induction ps arbitrary: w) (simp_all add: writeCommandFile_def)

lemma writeCommandFiles_fields:
  "skillDirs (snd (writeCommandFiles ps w)) = skillDirs w"
  "readOnly (snd (writeCommandFiles ps w)) = readOnly w"
  "locked (snd (writeCommandFiles ps w)) = locked w"
  "configFile (snd (writeCommandFiles ps w)) = configFile w"
  "legacyArtifacts (snd (writeCommandFiles ps w)) = legacyArtifacts w"
  by (induction ps arbitrary: w; simp add: writeCommandFile_def)+

lemma writeCommandFiles_error:
  "fst (writeCommandFiles ps w) =
     (case dropWhile (\<lambda>q. \<not> readOnly w q) ps of
        [] \<Rightarrow> None
      | q # _ \<Rightarrow> Some (WriteError q))"
  by (induction ps arbitrary: w) (simp_all add: writeCommandFile_def)

lemma writeCommandFiles_cmdFiles:
  "cmdFiles (snd (writeCommandFiles ps w)) q =
     (q \<in> set (takeWhile (\<lambda>q. \<not> readOnly w q) ps) \<or> cmdFiles w q)"
proof (induction ps arbitrary: w)
  case Nil
  then show ?case by simp
next
  case (Cons p ps)
  show ?case
  proof (cases "readOnly w p")
    case True
    then show ?thesis by (simp add: writeCommandFile_def)
  next
    case False
    let ?w' = "w\<lparr>cmdFiles := (cmdFiles w)(p := True),
                 dirs := (\<lambda>q. q \<in> set (parentDirs p) \<or> dirs w q)\<rparr>"
    have step: "writeCommandFiles (p # ps) w = writeCommandFiles ps ?w'"
      using False by (simp add: writeCommandFile_def)
    have ro: "readOnly ?w' = readOnly w" by simp
    show ?thesis
      unfolding step Cons.IH [of ?w'] ro using False by auto
  qed
qed

lemma updateTool_fields:
  "readOnly (snd (updateTool env pp sgs sgc st cc tool sd w)) = readOnly w"
  "locked (snd (updateTool env pp sgs sgc st cc tool sd w)) = locked w"
  "configFile (snd (updateTool env pp sgs sgc st cc tool sd w)) = configFile w"
  "legacyArtifacts (snd (updateTool env pp sgs sgc st cc tool sd w)) = legacyArtifacts w"
  by (simp_all add: updateTool_def Let_def case_prod_beta removeSkillDirs_def
        removeCommandFiles_def writeSkillFiles_fields writeCommandFiles_fields
        removeSkillDirsLoop_fields removeCommandFilesLoop_fields
        split: option.splits)

lemma updateTool_skillDirs_generate:
  "skillDirs (snd (updateTool env pp True sgc st cc tool sd w)) r d =
     (if r = skillsRootOf pp sd
         \<and> d \<in> set (map fst (takeWhile (\<lambda>e. \<not> readOnly w (skillFileOf (skillsRootOf pp sd) e)) st))
      then SkillMd (Some (OPENSPEC_VERSION env)) else skillDirs w r d)"
  by (simp add: updateTool_def Let_def case_prod_beta removeCommandFiles_def skillsRootOf_def
        writeSkillFiles_skillDirs writeCommandFiles_fields removeCommandFilesLoop_fields
        split: option.splits)

lemma updateTool_skillDirs_remove:
  "skillDirs (snd (updateTool env pp False sgc st cc tool sd w)) r d =
     (if r = skillsRootOf pp sd \<and> (\<exists>wf \<in> set ALL_WORKFLOWS. map_of WORKFLOW_TO_SKILL_DIR wf = Some d)
         \<and> \<not> locked w (join (skillsRootOf pp sd) d)
      then NoDir else skillDirs w r d)"
  by (auto simp: updateTool_def Let_def case_prod_beta removeCommandFiles_def skillsRootOf_def
        removeSkillDirs_def removeSkillDirsLoop_skillDirs
        writeCommandFiles_fields removeCommandFilesLoop_fields
        split: option.splits)

lemma removeSkillDirsLoop_noop:
  "(\<And>wf d. wf \<in> set ws \<Longrightarrow> map_of WORKFLOW_TO_SKILL_DIR wf = Some d \<Longrightarrow>
       \<not> existsSkillDir w root d \<or> locked w (join root d)) \<Longrightarrow>
   removeSkillDirsLoop root ws w n = (w, n)"
  by (induction ws arbitrary: n) (auto simp: rmSkillDir_def split: option.splits)

lemma removeCommandFilesLoop_noop:
  "(\<And>wf. wf \<in> set ws \<Longrightarrow> \<not> cmdFiles w (fullPath pp (g wf)) \<or> locked w (fullPath pp (g wf))) \<Longrightarrow>
   removeCommandFilesLoop pp g ws w n = (w, n)"
  by (induction ws arbitrary: n) (auto simp: unlink_def Let_def)

lemma catalog_dirs:
  "(\<exists>wf \<in> set ALL_WORKFLOWS. map_of WORKFLOW_TO_SKILL_DIR wf = Some d) \<longleftrightarrow> d \<in> set SKILL_NAMES"
  by (auto simp: ALL_WORKFLOWS_def WORKFLOW_TO_SKILL_DIR_def SKILL_NAMES_def SKILL_TEMPLATES_def)

lemma writeSkillFiles_ok:
  "fst (writeSkillFiles td root v es w) = None \<longleftrightarrow>
     (\<forall>e \<in> set es. \<not> readOnly w (skillFileOf root e))"
proof (induction es arbitrary: w)
  case Nil
  then show ?case by simp
next
  case (Cons e es)
  show ?case
  proof (cases "readOnly w (skillFileOf root e)")
    case True
    then show ?thesis by (simp add: writeSkillFile_def Let_def skillFileOf_def)
  next
    case False
    let ?w' = "w\<lparr>skillDirs := (skillDirs w)(root := (skillDirs w root)(fst e := SkillMd (Some v))),
                 dirs := (dirs w)(td := True)\<rparr>"
    have step: "writeSkillFiles td root v (e # es) w = writeSkillFiles td root v es ?w'"
      using False by (simp add: writeSkillFile_def Let_def skillFileOf_def)
    show ?thesis
      unfolding step Cons.IH [of ?w'] using False by simp
  qed
qed

lemma writeCommandFiles_ok:
  "fst (writeCommandFiles ps w) = None \<longleftrightarrow> (\<forall>q \<in> set ps. \<not> readOnly w q)"
proof (induction ps arbitrary: w)
  case Nil
  then show ?case by simp
next
  case (Cons p ps)
  show ?case
  proof (cases "readOnly w p")
    case True
    then show ?thesis by (simp add: writeCommandFile_def)
  next
    case False
    let ?w' = "w\<lparr>cmdFiles := (cmdFiles w)(p := True),
                 dirs := (\<lambda>q. q \<in> set (parentDirs p) \<or> dirs w q)\<rparr>"
    have step: "writeCommandFiles (p # ps) w = writeCommandFiles ps ?w'"
      using False by (simp add: writeCommandFile_def)
    show ?thesis
      unfolding step Cons.IH [of ?w'] using False by simp
  qed
qed

lemma writeSkillFiles_failed:
  "fst (writeSkillFiles td root v es w) = Some err \<Longrightarrow> \<exists>e \<in> set es. readOnly w (skillFileOf root e)"
  using writeSkillFiles_ok [of td root v es w] by auto

lemma writeCommandFiles_failed:
  "fst (writeCommandFiles ps w) = Some err \<Longrightarrow> \<exists>q \<in> set ps. readOnly w q"
  using writeCommandFiles_ok [of ps w] by auto

lemma updateTool_ok:
  "fst (fst (updateTool env pp sgs sgc st cc tool sd w)) = None \<longleftrightarrow>
     (sgs \<longrightarrow> (\<forall>e \<in> set st. \<not> readOnly w (skillFileOf (skillsRootOf pp sd) e)))
     \<and> (sgc \<longrightarrow> (\<forall>g. adapters env (tool_value tool) = Some g \<longrightarrow>
                   (\<forall>c \<in> set cc. \<not> readOnly w (fullPath pp (g c)))))"
  by (cases sgs; cases sgc; cases "adapters env (tool_value tool)")
     (auto simp: updateTool_def Let_def case_prod_beta skillsRootOf_def generateCommands_def
        writeSkillFiles_ok writeCommandFiles_ok writeSkillFiles_fields
        removeSkillDirs_def removeSkillDirsLoop_fields
        dest!: writeSkillFiles_failed writeCommandFiles_failed
        split: option.splits)

lemma writeCommandFiles_cmdFiles_ok:
  assumes "fst (writeCommandFiles ps w) = None"
  shows "cmdFiles (snd (writeCommandFiles ps w)) q = (q \<in> set ps \<or> cmdFiles w q)"
proof -
  from assms have "\<forall>q \<in> set ps. \<not> readOnly w q" by (simp add: writeCommandFiles_ok)
  then have tw: "takeWhile (\<lambda>q. \<not> readOnly w q) ps = ps" by (simp add: takeWhile_eq_all_conv)
  show ?thesis by (simp only: writeCommandFiles_cmdFiles tw)
qed

lemma writeSkillFiles_skillDirs_ok:
  assumes "fst (writeSkillFiles td root v es w) = None"
  shows "skillDirs (snd (writeSkillFiles td root v es w)) r d =
           (if r = root \<and> d \<in> set (map fst es) then SkillMd (Some v) else skillDirs w r d)"
proof -
  from assms have "\<forall>e \<in> set es. \<not> readOnly w (skillFileOf root e)"
    by (simp add: writeSkillFiles_ok)
  then have tw: "takeWhile (\<lambda>e. \<not> readOnly w (skillFileOf root e)) es = es"
    by (simp add: takeWhile_eq_all_conv)
  show ?thesis by (simp only: writeSkillFiles_skillDirs tw)
qed

lemma updateTool_cmdFiles_generate:
  assumes "fst (fst (updateTool env pp sgs True st cc tool sd w)) = None"
  shows "cmdFiles (snd (updateTool env pp sgs True st cc tool sd w)) q =
     (cmdFiles w q \<or> (\<exists>g. adapters env (tool_value tool) = Some g \<and> q \<in> set (map (fullPath pp) (map g cc))))"
  using assms
  by (cases sgs; cases "adapters env (tool_value tool)")
     (auto simp: updateTool_def Let_def case_prod_beta removeSkillDirs_def generateCommands_def
        writeSkillFiles_fields removeSkillDirsLoop_fields writeCommandFiles_cmdFiles_ok
        split: option.splits)

lemma updateTool_cmdFiles_remove:
  "fst (fst (updateTool env pp sgs False st cc tool sd w)) = None \<Longrightarrow>
   cmdFiles (snd (updateTool env pp sgs False st cc tool sd w)) q =
     (if (\<exists>g. adapters env (tool_value tool) = Some g \<and> (\<exists>wf \<in> set ALL_WORKFLOWS. q = fullPath pp (g wf)))
         \<and> \<not> locked w q
      then False else cmdFiles w q)"
  by (auto simp: updateTool_def Let_def case_prod_beta removeSkillDirs_def removeCommandFiles_def
        writeSkillFiles_fields removeSkillDirsLoop_fields removeCommandFilesLoop_cmdFiles
        split: option.splits)

lemma removeSkillDirs_again:
  "removeSkillDirs root (fst (removeSkillDirs root w)) = (fst (removeSkillDirs root w), 0)"
  unfolding removeSkillDirs_def
  by (rule removeSkillDirsLoop_noop)
     (auto simp: existsSkillDir_def removeSkillDirsLoop_skillDirs removeSkillDirsLoop_fields)

lemma removeCommandFiles_again:
  "removeCommandFiles env pp tid (fst (removeCommandFiles env pp tid w))
     = (fst (removeCommandFiles env pp tid w), 0)"
proof (cases "adapters env tid")
  case None
  then show ?thesis by (simp add: removeCommandFiles_def)
next
  case (Some g)
  have "removeCommandFilesLoop pp g ALL_WORKFLOWS (fst (removeCommandFilesLoop pp g ALL_WORKFLOWS w 0)) 0
          = (fst (removeCommandFilesLoop pp g ALL_WORKFLOWS w 0), 0)"
    by (rule removeCommandFilesLoop_noop)
       (auto simp: removeCommandFilesLoop_cmdFiles removeCommandFilesLoop_fields)
  then show ?thesis using Some by (simp add: removeCommandFiles_def)
qed

section \<open>The per-tool loop\<close>


lemma updateTool_error:
  "fst (fst (updateTool env pp sgs sgc st cc tool sd w)) = toolError env pp sgs sgc st cc tool sd (readOnly w)"
proof (cases "if sgs then dropWhile (\<lambda>e. \<not> readOnly w (skillFileOf (skillsRootOf pp sd) e)) st else []")
  case Nil
  then have 1: "fst (if sgs then writeSkillFiles (join pp sd) (join (join pp sd) ''skills'')
                         (OPENSPEC_VERSION env) st w else (None, w)) = None"
    by (cases sgs) (simp_all add: writeSkillFiles_error skillsRootOf_def del: dropWhile_eq_Nil_conv)
  show ?thesis
    using Nil 1
    by (cases sgc; cases "adapters env (tool_value tool)")
       (simp_all add: updateTool_def toolError_def Let_def case_prod_beta
          writeCommandFiles_error writeSkillFiles_fields
          removeSkillDirs_def removeSkillDirsLoop_fields
          del: dropWhile_eq_Nil_conv split: option.splits list.splits)
next
  case (Cons e es)
  then have sgs: sgs by (auto split: if_splits)
  with Cons have 1: "fst (writeSkillFiles (join pp sd) (join (join pp sd) ''skills'')
                         (OPENSPEC_VERSION env) st w)
                     = Some (WriteError (skillFileOf (skillsRootOf pp sd) e))"
    by (simp add: writeSkillFiles_error skillsRootOf_def)
  show ?thesis
    using Cons sgs 1
    by (simp add: updateTool_def toolError_def Let_def case_prod_beta
          del: dropWhile_eq_Nil_conv)
qed

lemma toolError_None:
  "toolError env pp sgs sgc st cc tool sd ro = None \<longleftrightarrow>
     (sgs \<longrightarrow> (\<forall>e \<in> set st. \<not> ro (skillFileOf (skillsRootOf pp sd) e)))
     \<and> (sgc \<longrightarrow> (\<forall>g. adapters env (tool_value tool) = Some g \<longrightarrow>
                   (\<forall>c \<in> set cc. \<not> ro (fullPath pp (g c)))))"
  using updateTool_ok [of env pp sgs sgc st cc tool sd "w\<lparr>readOnly := ro\<rparr>" for w]
  by (simp add: updateTool_error)


lemma updateTools_readOnly:
  "readOnly (run_world (updateTools env pp sgs sgc st cc ids r)) = readOnly (run_world r)"
  by (induction ids arbitrary: r)
     (auto simp: split: option.splits prod.splits
        dest: arg_cong [where f = "\<lambda>x. readOnly (snd x)"] simp: updateTool_fields)

text \<open>One step of the loop on a tool that is processed.\<close>

lemma updateTools_step:
  assumes "findTool env tid = Some tool" and "skillsDirOf tool = Some sd"
  shows "updateTools env pp sgs sgc st cc (tid # ids) r =
     updateTools env pp sgs sgc st cc ids
       (case toolError env pp sgs sgc st cc tool sd (readOnly (run_world r)) of
          None \<Rightarrow>
            r\<lparr>run_world := snd (updateTool env pp sgs sgc st cc tool sd (run_world r)),
              updatedTools := updatedTools r @ [tool_name tool],
              removedSkillCount := removedSkillCount r
                 + fst (snd (fst (updateTool env pp sgs sgc st cc tool sd (run_world r)))),
              removedCommandCount := removedCommandCount r
                 + snd (snd (fst (updateTool env pp sgs sgc st cc tool sd (run_world r)))),
              spinnerLines := spinnerLines r @ [SpinnerSucceed (tool_name tool)]\<rparr>
        | Some err \<Rightarrow>
            r\<lparr>run_world := snd (updateTool env pp sgs sgc st cc tool sd (run_world r)),
              failedTools := failedTools r @ [(tool_name tool, err)],
              removedSkillCount := removedSkillCount r
                 + fst (snd (fst (updateTool env pp sgs sgc st cc tool sd (run_world r)))),
              removedCommandCount := removedCommandCount r
                 + snd (snd (fst (updateTool env pp sgs sgc st cc tool sd (run_world r)))),
              spinnerLines := spinnerLines r @ [SpinnerFail (tool_name tool)]\<rparr>)"
proof -
  obtain e rs rc w' where u: "updateTool env pp sgs sgc st cc tool sd (run_world r) = ((e, rs, rc), w')"
    by (metis prod_cases3 surj_pair)
  have e: "e = toolError env pp sgs sgc st cc tool sd (readOnly (run_world r))"
    using updateTool_error [of env pp sgs sgc st cc tool sd "run_world r"] u by simp
  show ?thesis
  proof (cases "toolError env pp sgs sgc st cc tool sd (readOnly (run_world r))")
    case None
    with assms u e show ?thesis by simp
  next
    case (Some err)
    with assms u e show ?thesis by simp
  qed
qed

lemma updateTools_skip:
  assumes "findTool env tid = None \<or> (\<exists>tool. findTool env tid = Some tool \<and> skillsDirOf tool = None)"
  shows "updateTools env pp sgs sgc st cc (tid # ids) r = updateTools env pp sgs sgc st cc ids r"
  using assms by auto

lemma processable_Cons:
  "processable env (tid # ids) =
     (case findTool env tid of
        None \<Rightarrow> processable env ids
      | Some tool \<Rightarrow> (case skillsDirOf tool of
                        None \<Rightarrow> processable env ids
                      | Some sd \<Rightarrow> (tool, sd) # processable env ids))"
  by (simp add: processable_def map_filter_simps split: option.splits)

lemma processable_Nil: "processable env [] = []"
  by (simp add: processable_def map_filter_simps)

lemma updateTools_lists:
  "updatedTools (updateTools env pp sgs sgc st cc ids r) =
     updatedTools r @ map (\<lambda>(tool, sd). tool_name tool)
        (filter (\<lambda>(tool, sd). toolError env pp sgs sgc st cc tool sd (readOnly (run_world r)) = None)
                (processable env ids))
   \<and> failedTools (updateTools env pp sgs sgc st cc ids r) =
     failedTools r @ List.map_filter
        (\<lambda>(tool, sd). map_option (\<lambda>err. (tool_name tool, err))
                         (toolError env pp sgs sgc st cc tool sd (readOnly (run_world r))))
        (processable env ids)
   \<and> spinnerLines (updateTools env pp sgs sgc st cc ids r) =
     spinnerLines r @ map
        (\<lambda>(tool, sd). if toolError env pp sgs sgc st cc tool sd (readOnly (run_world r)) = None
                       then SpinnerSucceed (tool_name tool) else SpinnerFail (tool_name tool))
        (processable env ids)"
proof (induction ids arbitrary: r)
  case Nil
  then show ?case by (simp add: processable_Nil map_filter_simps)
next
  case (Cons tid ids)
  show ?case
  proof (cases "findTool env tid")
    case None
    then show ?thesis using Cons.IH [of r] by (simp add: processable_Cons)
  next
    case (Some tool)
    show ?thesis
    proof (cases "skillsDirOf tool")
      case None
      then show ?thesis using Some Cons.IH [of r] by (simp add: processable_Cons)
    next
      case sd: (Some sd)
      show ?thesis
        by (cases "toolError env pp sgs sgc st cc tool sd (readOnly (run_world r))")
           (simp_all add: updateTools_step [OF Some sd] Cons.IH processable_Cons Some sd
              map_filter_simps updateTool_fields del: updateTools.simps)
    qed
  qed
qed



lemma execute_total:
  "dirs w (join pp OPENSPEC_DIR_NAME) \<Longrightarrow> \<exists>w' out. execute env force pp newly w = Inr (w', out)"
  by (simp add: execute_def Let_def case_prod_beta)

lemma execute_eq:
  "execute env force pp newly w0 =
     (let pl = planUpdate env pp newly w0; r = runUpdate env force pp newly w0 in
      if \<not> dirs w0 (join pp OPENSPEC_DIR_NAME) then Inl NoOpenSpecDirectory
      else if configuredTools pl = [] \<and> newly = [] then Inr (w0, [NoConfiguredTools])
      else if \<not> force \<and> toolsToUpdateSet pl = []
      then Inr (plan_world pl,
                migrationLines pl
                @ [UpToDate (map toolId (toolStatusesOf env pp (configuredTools pl) (plan_world pl)))]
                @ displayExtraWorkflowsNote env pp (configuredTools pl) (desiredWorkflows pl)
                    (plan_world pl))
      else Inr (run_world r,
                migrationLines pl
                @ (if force then [ForceUpdating (configuredTools pl)]
                   else [UpdatePlan (toolsToUpdateSet pl)
                          (map toolId (filter (\<lambda>s. toolId s \<notin> set (toolsToUpdateSet pl))
                             (toolStatusesOf env pp (configuredTools pl) (plan_world pl))))])
                @ spinnerLines r @ summaryLines r
                @ (if newly \<noteq> [] then [GettingStarted] else [])
                @ displayExtraWorkflowsNote env pp (configuredTools pl) (desiredWorkflows pl)
                    (run_world r)
                @ (if updatedTools r \<noteq> [] then [ToolsLine (updatedTools r)] else [])
                @ [RestartIDE]))"
  by (simp add: execute_def planUpdate_def runUpdate_def Let_def case_prod_beta)

section \<open>What a run prints\<close>

lemma set_map_filter: "set (List.map_filter f xs) = {y. \<exists>x \<in> set xs. f x = Some y}"
  by (induction xs) (auto simp: map_filter_simps split: option.splits)

lemma spinnerFail_failed:
  assumes "SpinnerFail n \<in> set (spinnerLines (updateTools env pp sgs sgc st cc ids (emptyRun w)))"
  shows "n \<in> fst ` set (failedTools (updateTools env pp sgs sgc st cc ids (emptyRun w)))"
proof -
  from assms obtain tool sd where
    ts: "(tool, sd) \<in> set (processable env ids)"
    and e: "toolError env pp sgs sgc st cc tool sd (readOnly w) \<noteq> None"
    and n: "n = tool_name tool"
    using updateTools_lists [of env pp sgs sgc st cc ids "emptyRun w"]
    by (auto simp: emptyRun_def split: if_splits)
  from e obtain err where "toolError env pp sgs sgc st cc tool sd (readOnly w) = Some err"
    by blast
  with ts have "(tool_name tool, err) \<in> set (failedTools (updateTools env pp sgs sgc st cc ids (emptyRun w)))"
    using updateTools_lists [of env pp sgs sgc st cc ids "emptyRun w"]
    by (force simp: emptyRun_def set_map_filter)
  with n show ?thesis by force
qed

lemma summaryFailed_in:
  "failedTools r \<noteq> [] \<Longrightarrow> SummaryFailed (failedTools r) \<in> set (summaryLines r)"
  by (simp add: summaryLines_def)

lemma migration_lines: "set (snd (migrateIfNeeded pp tools w)) \<subseteq> {Migrated (length (scanInstalledWorkflows w pp tools)), NewInThisVersion}"
  by (simp add: migrate_cases)

lemma note_lines: "set (displayExtraWorkflowsNote env pp ct desired w) \<subseteq> range ExtraWorkflowsNote"
  by (auto simp: displayExtraWorkflowsNote_def Let_def)

lemma summary_no_spinner: "SpinnerFail n \<notin> set (summaryLines r)"
  by (simp add: summaryLines_def)

lemma execute_fail_lines:
  assumes ex: "execute env force pp newly w = Inr (w', out)" and sf: "SpinnerFail n \<in> set out"
  shows "\<exists>fs. SummaryFailed fs \<in> set out \<and> n \<in> fst ` set fs"
proof -
  let ?pl = "planUpdate env pp newly w"
  let ?r = "runUpdate env force pp newly w"
  have ml: "SpinnerFail n \<notin> set (migrationLines ?pl)"
    using migration_lines by (fastforce simp: planUpdate_def Let_def)
  have nl: "\<And>w2. SpinnerFail n \<notin> set (displayExtraWorkflowsNote env pp (configuredTools ?pl)
                (desiredWorkflows ?pl) w2)"
    using note_lines by fastforce
  from ex sf ml nl have run: "SpinnerFail n \<in> set (spinnerLines ?r)"
    and out: "set (summaryLines ?r) \<subseteq> set out"
    by (auto simp: execute_eq Let_def summary_no_spinner split: if_splits)
  from run have "n \<in> fst ` set (failedTools ?r)"
    unfolding runUpdate_def Let_def by (rule spinnerFail_failed)
  moreover from this have "failedTools ?r \<noteq> []" by auto
  then have "SummaryFailed (failedTools ?r) \<in> set (summaryLines ?r)" by (rule summaryFailed_in)
  ultimately show ?thesis using out by blast
qed

lemma updateTools_locked_indep:
  "updatedTools (updateTools env pp sgs sgc st cc ids (emptyRun (w\<lparr>locked := l\<rparr>)))
     = updatedTools (updateTools env pp sgs sgc st cc ids (emptyRun w))
   \<and> failedTools (updateTools env pp sgs sgc st cc ids (emptyRun (w\<lparr>locked := l\<rparr>)))
     = failedTools (updateTools env pp sgs sgc st cc ids (emptyRun w))
   \<and> spinnerLines (updateTools env pp sgs sgc st cc ids (emptyRun (w\<lparr>locked := l\<rparr>)))
     = spinnerLines (updateTools env pp sgs sgc st cc ids (emptyRun w))"
  using updateTools_lists [of env pp sgs sgc st cc ids "emptyRun (w\<lparr>locked := l\<rparr>)"]
        updateTools_lists [of env pp sgs sgc st cc ids "emptyRun w"]
  by (simp add: emptyRun_def)

section \<open>Version staleness\<close>

text \<open>The functions that read the artifacts do not read the config file.\<close>

lemma migrate_world:
  "fst (migrateIfNeeded pp tools w) = w\<lparr>configFile := configFile (fst (migrateIfNeeded pp tools w))\<rparr>"
  by (simp add: migrate_cases)

lemma same_artifacts_base:
  assumes "skillDirs w' = skillDirs w" and "cmdFiles w' = cmdFiles w"
  shows "existsSkillFile w' = existsSkillFile w"
    and "existsSkillDir w' = existsSkillDir w"
    and "firstSkillMarker w' = firstSkillMarker w"
    and "toolHasAnyConfiguredCommand env pp tid w' = toolHasAnyConfiguredCommand env pp tid w"
proof -
  show 1: "existsSkillFile w' = existsSkillFile w"
    by (intro ext) (simp add: existsSkillFile_def assms)
  show "existsSkillDir w' = existsSkillDir w"
    by (intro ext) (simp add: existsSkillDir_def assms)
  show "firstSkillMarker w' = firstSkillMarker w"
    unfolding firstSkillMarker_def assms 1 ..
  show "toolHasAnyConfiguredCommand env pp tid w' = toolHasAnyConfiguredCommand env pp tid w"
    unfolding toolHasAnyConfiguredCommand_def assms ..
qed

lemma same_artifacts:
  assumes "skillDirs w' = skillDirs w" and "cmdFiles w' = cmdFiles w" and "dirs w' = dirs w"
  shows "getToolVersionStatus env pp tid v w' = getToolVersionStatus env pp tid v w"
    and "hasProfileOrDeliveryDrift env pp tid d sgs sgc w' = hasProfileOrDeliveryDrift env pp tid d sgs sgc w"
    and "getConfiguredTools env pp w' = getConfiguredTools env pp w"
    and "getCommandConfiguredTools env pp w' = getCommandConfiguredTools env pp w"
    and "scanInstalledWorkflows w' pp tools = scanInstalledWorkflows w pp tools"
proof -
  note b = same_artifacts_base [OF assms(1,2)]
  have th: "\<And>tid. toolHasAnyConfiguredCommand env pp tid w' = toolHasAnyConfiguredCommand env pp tid w"
    by (rule b)
  show "getToolVersionStatus env pp tid v w' = getToolVersionStatus env pp tid v w"
    unfolding getToolVersionStatus_def b ..
  show "hasProfileOrDeliveryDrift env pp tid d sgs sgc w' = hasProfileOrDeliveryDrift env pp tid d sgs sgc w"
    unfolding hasProfileOrDeliveryDrift_def b assms ..
  show "getConfiguredTools env pp w' = getConfiguredTools env pp w"
    unfolding getConfiguredTools_def b ..
  show "getCommandConfiguredTools env pp w' = getCommandConfiguredTools env pp w"
    unfolding getCommandConfiguredTools_def th assms ..
  have "installedOfTool w' pp = installedOfTool w pp"
    unfolding installedOfTool_def b ..
  then show "scanInstalledWorkflows w' pp tools = scanInstalledWorkflows w pp tools"
    by (simp add: scanInstalledWorkflows_def)
qed

lemma same_artifacts2:
  assumes "skillDirs w' = skillDirs w" and "cmdFiles w' = cmdFiles w" and "dirs w' = dirs w"
  shows "getConfiguredToolsForUpdate env pp w' = getConfiguredToolsForUpdate env pp w"
    and "toolStatusesOf env pp ct w' = toolStatusesOf env pp ct w"
    and "toolsToUpdateSetOf env pp ct d sgs sgc w' = toolsToUpdateSetOf env pp ct d sgs sgc w"
    and "displayExtraWorkflowsNote env pp ct d w' = displayExtraWorkflowsNote env pp ct d w"
proof -
  note a = same_artifacts [OF assms]
  have hp: "\<And>tid. hasProfileOrDeliveryDrift env pp tid d sgs sgc w' = hasProfileOrDeliveryDrift env pp tid d sgs sgc w"
    by (rule a)
  have gv: "\<And>tid. getToolVersionStatus env pp tid (OPENSPEC_VERSION env) w'
              = getToolVersionStatus env pp tid (OPENSPEC_VERSION env) w"
    by (rule a)
  show "getConfiguredToolsForUpdate env pp w' = getConfiguredToolsForUpdate env pp w"
    by (simp add: getConfiguredToolsForUpdate_def a)
  show ts: "toolStatusesOf env pp ct w' = toolStatusesOf env pp ct w"
    unfolding toolStatusesOf_def a gv ..
  show "toolsToUpdateSetOf env pp ct d sgs sgc w' = toolsToUpdateSetOf env pp ct d sgs sgc w"
    unfolding toolsToUpdateSetOf_def ts hp ..
  show "displayExtraWorkflowsNote env pp ct d w' = displayExtraWorkflowsNote env pp ct d w"
    unfolding displayExtraWorkflowsNote_def a ..
qed

lemma migrate_artifacts:
  "skillDirs (fst (migrateIfNeeded pp tools w)) = skillDirs w"
  "cmdFiles (fst (migrateIfNeeded pp tools w)) = cmdFiles w"
  "dirs (fst (migrateIfNeeded pp tools w)) = dirs w"
  "readOnly (fst (migrateIfNeeded pp tools w)) = readOnly w"
  "locked (fst (migrateIfNeeded pp tools w)) = locked w"
  by (simp_all add: migrate_cases)

lemma toolsToUpdateSet_plan:
  "toolsToUpdateSet (planUpdate env pp newly w) =
     toolsToUpdateSetOf env pp (getConfiguredToolsForUpdate env pp w)
       (desiredWorkflows (planUpdate env pp newly w))
       (shouldGenerateSkills (planUpdate env pp newly w))
       (shouldGenerateCommands (planUpdate env pp newly w)) w"
  by (simp add: planUpdate_def Let_def same_artifacts2 [OF migrate_artifacts(1,2,3)])

lemma stale_in_set:
  assumes "tid \<in> set ct"
    and "needsUpdate (getToolVersionStatus env pp tid (OPENSPEC_VERSION env) w)"
  shows "tid \<in> set (toolsToUpdateSetOf env pp ct d sgs sgc w)"
proof -
  let ?f = "\<lambda>tid. let status = getToolVersionStatus env pp tid (OPENSPEC_VERSION env) w
                in if \<not> configured status \<and> tid \<in> set (getCommandConfiguredTools env pp w)
                   then status\<lparr>configured := True\<rparr> else status"
  have 1: "needsUpdate (?f tid)" using assms(2) by (simp add: Let_def)
  have 2: "toolId (?f tid) = tid" by (simp add: Let_def getToolVersionStatus_def)
  have "?f tid \<in> set (filter needsUpdate (toolStatusesOf env pp ct w))"
    using assms(1) 1 by (simp add: toolStatusesOf_def Let_def)
  then have "toolId (?f tid) \<in> toolId ` set (filter needsUpdate (toolStatusesOf env pp ct w))"
    by (rule imageI)
  then have "tid \<in> toolId ` set (filter needsUpdate (toolStatusesOf env pp ct w))"
    by (simp only: 2)
  then show ?thesis
    by (simp add: toolsToUpdateSetOf_def Let_def set_js_set)
qed

lemma processed_listed:
  assumes "tid \<in> set ids" and "findTool env tid = Some tool" and "skillsDirOf tool = Some sd"
  shows "tool_name tool \<in> set (updatedTools (updateTools env pp sgs sgc st cc ids (emptyRun w)))
           \<union> fst ` set (failedTools (updateTools env pp sgs sgc st cc ids (emptyRun w)))"
proof -
  have p: "(tool, sd) \<in> set (processable env ids)"
    using assms by (force simp: processable_def set_map_filter)
  show ?thesis
  proof (cases "toolError env pp sgs sgc st cc tool sd (readOnly w)")
    case None
    with p have "tool_name tool \<in> set (updatedTools (updateTools env pp sgs sgc st cc ids (emptyRun w)))"
      using updateTools_lists [of env pp sgs sgc st cc ids "emptyRun w"]
      by (force simp: emptyRun_def)
    then show ?thesis by blast
  next
    case (Some err)
    with p have "(tool_name tool, err) \<in> set (failedTools (updateTools env pp sgs sgc st cc ids (emptyRun w)))"
      using updateTools_lists [of env pp sgs sgc st cc ids "emptyRun w"]
      by (force simp: emptyRun_def set_map_filter)
    then show ?thesis by force
  qed
qed

text \<open>
  C7. The version status asks for an update exactly when no marker was extracted or the
  marker is not the running version, compared as strings; and in a non-forced run every
  configured tool whose status asks for an update is in the set of tools to update, the
  run does not stop at the up-to-date branch, and the tool is processed by the loop (it
  ends up among the updated or the failed tools), whether or not its files match the
  desired workflows and delivery.
\<close>

theorem version_staleness_forces_update:
  "(needsUpdate (getToolVersionStatus env pp tid cur w) \<longleftrightarrow>
      generatedByVersion (getToolVersionStatus env pp tid cur w) = None
      \<or> generatedByVersion (getToolVersionStatus env pp tid cur w) \<noteq> Some cur)
   \<and> (dirs w (join pp OPENSPEC_DIR_NAME)
        \<and> tid \<in> set (getConfiguredToolsForUpdate env pp w)
        \<and> needsUpdate (getToolVersionStatus env pp tid (OPENSPEC_VERSION env) w) \<longrightarrow>
        tid \<in> set (toolsToUpdateSet (planUpdate env pp newly w))
        \<and> worldAfter w (execute env False pp newly w) = run_world (runUpdate env False pp newly w)
        \<and> (\<exists>upToDate. UpdatePlan (toolsToUpdateSet (planUpdate env pp newly w)) upToDate
               \<in> set (linesOf (execute env False pp newly w)))
        \<and> (\<forall>tool sd. findTool env tid = Some tool \<and> skillsDirOf tool = Some sd \<longrightarrow>
              tool_name tool \<in> set (updatedTools (runUpdate env False pp newly w))
                               \<union> fst ` set (failedTools (runUpdate env False pp newly w))))"
proof (intro conjI impI)
  show "needsUpdate (getToolVersionStatus env pp tid cur w) \<longleftrightarrow>
      generatedByVersion (getToolVersionStatus env pp tid cur w) = None
      \<or> generatedByVersion (getToolVersionStatus env pp tid cur w) \<noteq> Some cur"
    by (simp add: getToolVersionStatus_def Let_def)
next
  assume a: "dirs w (join pp OPENSPEC_DIR_NAME)
        \<and> tid \<in> set (getConfiguredToolsForUpdate env pp w)
        \<and> needsUpdate (getToolVersionStatus env pp tid (OPENSPEC_VERSION env) w)"
  let ?pl = "planUpdate env pp newly w"
  let ?r = "runUpdate env False pp newly w"
  have ct: "configuredTools ?pl = getConfiguredToolsForUpdate env pp w"
    by (simp add: planUpdate_def Let_def)
  show in_set: "tid \<in> set (toolsToUpdateSet ?pl)"
    unfolding toolsToUpdateSet_plan using a by (intro stale_in_set) simp_all
  then have ne: "toolsToUpdateSet ?pl \<noteq> []" by auto
  have cne: "configuredTools ?pl \<noteq> []" using a ct by auto
  show "worldAfter w (execute env False pp newly w) = run_world ?r"
    using a ne cne by (simp add: execute_eq Let_def worldAfter_def)
  show "\<exists>upToDate. UpdatePlan (toolsToUpdateSet ?pl) upToDate
               \<in> set (linesOf (execute env False pp newly w))"
    using a ne cne by (auto simp: execute_eq Let_def linesOf_def)
  show "\<forall>tool sd. findTool env tid = Some tool \<and> skillsDirOf tool = Some sd \<longrightarrow>
              tool_name tool \<in> set (updatedTools ?r) \<union> fst ` set (failedTools ?r)"
  proof (intro allI impI)
    fix tool sd
    assume "findTool env tid = Some tool \<and> skillsDirOf tool = Some sd"
    then have f: "findTool env tid = Some tool" and s: "skillsDirOf tool = Some sd" by simp_all
    from processed_listed [OF in_set f s]
    show "tool_name tool \<in> set (updatedTools ?r) \<union> fst ` set (failedTools ?r)"
      by (simp add: runUpdate_def Let_def)
  qed
qed

theorem version_staleness_forces_update_witness:
  "\<not> hasProfileOrDeliveryDrift ex_env ''/p'' ''claude''
        (desiredWorkflows (planUpdate ex_env ''/p'' [] ex_staleCore)) True True ex_staleCore
   \<and> generatedByVersion (getToolVersionStatus ex_env ''/p'' ''claude'' ''1.0.0'' ex_staleCore)
       = Some ''0.1.0''
   \<and> ''claude'' \<in> set (toolsToUpdateSet (planUpdate ex_env ''/p'' [] ex_staleCore))
   \<and> ''Claude Code'' \<in> set (updatedTools (runUpdate ex_env False ''/p'' [] ex_staleCore))
                          \<union> fst ` set (failedTools (runUpdate ex_env False ''/p'' [] ex_staleCore))"
proof -
  have 1: "\<not> hasProfileOrDeliveryDrift ex_env ''/p'' ''claude''
        (desiredWorkflows (planUpdate ex_env ''/p'' [] ex_staleCore)) True True ex_staleCore"
    by code_simp
  have 2: "generatedByVersion (getToolVersionStatus ex_env ''/p'' ''claude'' ''1.0.0'' ex_staleCore)
       = Some ''0.1.0''"
    by code_simp
  have d: "dirs ex_staleCore (join ''/p'' OPENSPEC_DIR_NAME)" by code_simp
  have c: "''claude'' \<in> set (getConfiguredToolsForUpdate ex_env ''/p'' ex_staleCore)" by code_simp
  have n: "needsUpdate (getToolVersionStatus ex_env ''/p'' ''claude'' (OPENSPEC_VERSION ex_env) ex_staleCore)"
    by code_simp
  have f: "findTool ex_env ''claude'' = Some ex_claude" by code_simp
  have s: "skillsDirOf ex_claude = Some ''.claude''" by code_simp
  have nm: "tool_name ex_claude = ''Claude Code''" by (simp add: ex_claude_def)
  from version_staleness_forces_update [where env = ex_env and pp = "''/p''" and tid = "''claude''"
      and w = ex_staleCore and newly = "[]" and cur = "''1.0.0''"] d c n
  have 3: "''claude'' \<in> set (toolsToUpdateSet (planUpdate ex_env ''/p'' [] ex_staleCore))"
    and 4: "\<forall>tool sd. findTool ex_env ''claude'' = Some tool \<and> skillsDirOf tool = Some sd \<longrightarrow>
              tool_name tool \<in> set (updatedTools (runUpdate ex_env False ''/p'' [] ex_staleCore))
                \<union> fst ` set (failedTools (runUpdate ex_env False ''/p'' [] ex_staleCore))"
    by blast+
  from 4 f s have "tool_name ex_claude \<in> set (updatedTools (runUpdate ex_env False ''/p'' [] ex_staleCore))
                \<union> fst ` set (failedTools (runUpdate ex_env False ''/p'' [] ex_staleCore))"
    by blast
  with 1 2 3 nm show ?thesis by simp
qed

section \<open>Narrowing the profile\<close>

text \<open>
  C2, as stated, fails: after narrowing the profile from explore, apply, archive to
  explore, the non-forced run finds nothing to do and only prints a note; the skill files
  and command files of apply and archive are still there.
\<close>

theorem narrowing_counterexample:
  "linesOf (execute ex_env False ''/p'' [] ex_reconciledABC) = [UpToDate [''claude'']]
   \<and> linesOf (execute ex_env False ''/p'' [] ex_narrowed)
       = [UpToDate [''claude''], ExtraWorkflowsNote 2]
   \<and> existsSkillFile (worldAfter ex_narrowed (execute ex_env False ''/p'' [] ex_narrowed))
        ''/p/.claude/skills'' ''openspec-apply-change''
   \<and> existsSkillFile (worldAfter ex_narrowed (execute ex_env False ''/p'' [] ex_narrowed))
        ''/p/.claude/skills'' ''openspec-archive-change''
   \<and> cmdFiles (worldAfter ex_narrowed (execute ex_env False ''/p'' [] ex_narrowed))
        ''/p/.claude/commands/opsx/apply.md''
   \<and> cmdFiles (worldAfter ex_narrowed (execute ex_env False ''/p'' [] ex_narrowed))
        ''/p/.claude/commands/opsx/archive.md''"
  by code_simp

lemma drift_iff:
  "hasProfileOrDeliveryDrift env pp tid d sgs sgc w \<longleftrightarrow>
     (\<exists>tool sd. findTool env tid = Some tool \<and> skillsDirOf tool = Some sd
        \<and> ((if sgs
             then (\<exists>wf \<in> set d. \<exists>dn. map_of WORKFLOW_TO_SKILL_DIR wf = Some dn
                     \<and> \<not> existsSkillFile w (skillsRootOf pp sd) dn)
             else (\<exists>wf \<in> set ALL_WORKFLOWS. \<exists>dn. map_of WORKFLOW_TO_SKILL_DIR wf = Some dn
                     \<and> existsSkillDir w (skillsRootOf pp sd) dn))
            \<or> (\<exists>g. adapters env tid = Some g
                  \<and> (if sgc then (\<exists>wf \<in> set d. \<not> cmdFiles w (fullPath pp (g wf)))
                      else (\<exists>wf \<in> set ALL_WORKFLOWS. cmdFiles w (fullPath pp (g wf)))))))"
proof (cases "findTool env tid")
  case None
  then show ?thesis by (simp add: hasProfileOrDeliveryDrift_def)
next
  case (Some tool)
  show ?thesis
  proof (cases "skillsDirOf tool")
    case None
    with Some show ?thesis by (simp add: hasProfileOrDeliveryDrift_def)
  next
    case sd: (Some sd)
    have 1: "list_ex (\<lambda>workflow. case map_of WORKFLOW_TO_SKILL_DIR workflow of
                                   None \<Rightarrow> False
                                 | Some dirName \<Rightarrow> P dirName) xs
             \<longleftrightarrow> (\<exists>wf \<in> set xs. \<exists>dn. map_of WORKFLOW_TO_SKILL_DIR wf = Some dn \<and> P dn)"
      for P xs
      by (auto simp: list_ex_iff split: option.splits)
    show ?thesis
      unfolding hasProfileOrDeliveryDrift_def Some sd option.case Let_def 1 list_ex_iff
      by (cases "adapters env tid"; cases sgs; cases sgc; auto simp: sd)
  qed
qed

lemma drift_mono:
  assumes sub: "set d' \<subseteq> set d"
    and dr: "hasProfileOrDeliveryDrift env pp tid d' sgs sgc w"
  shows "hasProfileOrDeliveryDrift env pp tid d sgs sgc w"
  using dr sub unfolding drift_iff
  by (cases sgs; cases sgc; simp; blast)

lemma toolStatus_needsUpdate:
  "needsUpdate (let status = getToolVersionStatus env pp tid v w
                in if \<not> configured status \<and> tid \<in> S then status\<lparr>configured := True\<rparr> else status)
     = needsUpdate (getToolVersionStatus env pp tid v w)"
  by (simp add: Let_def)

lemma toolsToUpdateSetOf_Nil:
  "toolsToUpdateSetOf env pp ct d sgs sgc w = [] \<longleftrightarrow>
     (\<forall>tid \<in> set ct. \<not> needsUpdate (getToolVersionStatus env pp tid (OPENSPEC_VERSION env) w)
                      \<and> \<not> hasProfileOrDeliveryDrift env pp tid d sgs sgc w)"
proof -
  have 1: "filter needsUpdate (toolStatusesOf env pp ct w) = [] \<longleftrightarrow>
           (\<forall>tid \<in> set ct. \<not> needsUpdate (getToolVersionStatus env pp tid (OPENSPEC_VERSION env) w))"
    by (induction ct) (simp_all add: toolStatusesOf_def Let_def)
  have 2: "filter (\<lambda>tid. hasProfileOrDeliveryDrift env pp tid d sgs sgc w) ct = [] \<longleftrightarrow>
           (\<forall>tid \<in> set ct. \<not> hasProfileOrDeliveryDrift env pp tid d sgs sgc w)"
    by (simp add: filter_empty_conv)
  show ?thesis
    unfolding toolsToUpdateSetOf_def Let_def js_set_Nil_iff append_is_Nil_conv map_is_Nil_conv 1 2
    by blast
qed

lemma toolsToUpdateSetOf_mono:
  "set d' \<subseteq> set d \<Longrightarrow> toolsToUpdateSetOf env pp ct d sgs sgc w = [] \<Longrightarrow>
   toolsToUpdateSetOf env pp ct d' sgs sgc w = []"
  unfolding toolsToUpdateSetOf_Nil using drift_mono by blast

lemma toolStatuses_ids: "map toolId (toolStatusesOf env pp ct w) = ct"
  by (induction ct) (simp_all add: toolStatusesOf_def Let_def getToolVersionStatus_def)

lemma plan_with_profile:
  assumes "configFile w = Parsed c" and "profile c = Some p"
  shows "plan_world (planUpdate env pp newly w) = w"
    and "migrationLines (planUpdate env pp newly w) = []"
    and "configuredTools (planUpdate env pp newly w) = getConfiguredToolsForUpdate env pp w"
    and "desiredWorkflows (planUpdate env pp newly w)
           = filter (\<lambda>wf. wf \<in> set ALL_WORKFLOWS) (getProfileWorkflows p (workflows c))"
    and "shouldGenerateSkills (planUpdate env pp newly w)
           = ((case delivery c of None \<Rightarrow> ''both'' | Some d \<Rightarrow> d) \<noteq> ''commands'')"
    and "shouldGenerateCommands (planUpdate env pp newly w)
           = ((case delivery c of None \<Rightarrow> ''both'' | Some d \<Rightarrow> d) \<noteq> ''skills'')"
proof -
  have m: "\<And>tools. migrateIfNeeded pp tools w = (w, [])"
    using assms by (simp add: migrate_cases)
  have g: "getGlobalConfig w = \<lparr>profile = Some p,
             delivery = (case delivery c of None \<Rightarrow> Some ''both'' | Some d \<Rightarrow> Some d),
             workflows = workflows c\<rparr>"
    using assms by (simp add: getGlobalConfig_def DEFAULT_CONFIG_def split: option.splits)
  have dl: "deliveryOf (getGlobalConfig w) = (case delivery c of None \<Rightarrow> ''both'' | Some d \<Rightarrow> d)"
    by (simp add: g deliveryOf_def split: option.splits)
  show "plan_world (planUpdate env pp newly w) = w"
    by (simp add: planUpdate_def Let_def m)
  show "migrationLines (planUpdate env pp newly w) = []"
    by (simp add: planUpdate_def Let_def m)
  show "configuredTools (planUpdate env pp newly w) = getConfiguredToolsForUpdate env pp w"
    by (simp add: planUpdate_def Let_def)
  show "desiredWorkflows (planUpdate env pp newly w)
           = filter (\<lambda>wf. wf \<in> set ALL_WORKFLOWS) (getProfileWorkflows p (workflows c))"
    by (simp add: planUpdate_def Let_def m g desiredWorkflowsOf_def)
  show "shouldGenerateSkills (planUpdate env pp newly w)
           = ((case delivery c of None \<Rightarrow> ''both'' | Some d \<Rightarrow> d) \<noteq> ''commands'')"
    by (simp add: planUpdate_def Let_def m dl)
  show "shouldGenerateCommands (planUpdate env pp newly w)
           = ((case delivery c of None \<Rightarrow> ''both'' | Some d \<Rightarrow> d) \<noteq> ''skills'')"
    by (simp add: planUpdate_def Let_def m dl)
qed

text \<open>
  C2, amended. When a project is fully reconciled under a custom profile (the non-forced
  run finds no tool to update) and the persisted workflow list is narrowed to a subset, a
  non-forced update run still finds no tool to update: it writes nothing and removes
  nothing, so the artifacts of the workflows that left the profile stay as they are, next
  to those of the workflows that remain. The run prints the up-to-date message and, when
  skill files of workflows outside the profile are installed, a note with their number.
\<close>

theorem narrowing_leaves_artifacts:
  "configFile w = Parsed c \<and> profile c = Some ''custom'' \<and> workflows c = Some ws
   \<and> set ws' \<subseteq> set ws \<and> dirs w (join pp OPENSPEC_DIR_NAME)
   \<and> toolsToUpdateSet (planUpdate env pp [] w) = [] \<longrightarrow>
   execute env False pp [] (w\<lparr>configFile := Parsed (c\<lparr>workflows := Some ws'\<rparr>)\<rparr>)
     = Inr (w\<lparr>configFile := Parsed (c\<lparr>workflows := Some ws'\<rparr>)\<rparr>,
            if getConfiguredToolsForUpdate env pp w = [] then [NoConfiguredTools]
            else [UpToDate (getConfiguredToolsForUpdate env pp w)]
                 @ displayExtraWorkflowsNote env pp (getConfiguredToolsForUpdate env pp w)
                     (filter (\<lambda>wf. wf \<in> set ALL_WORKFLOWS) ws') w)"
proof (intro impI)
  assume a: "configFile w = Parsed c \<and> profile c = Some ''custom'' \<and> workflows c = Some ws
   \<and> set ws' \<subseteq> set ws \<and> dirs w (join pp OPENSPEC_DIR_NAME)
   \<and> toolsToUpdateSet (planUpdate env pp [] w) = []"
  let ?c' = "c\<lparr>workflows := Some ws'\<rparr>"
  let ?w' = "w\<lparr>configFile := Parsed ?c'\<rparr>"
  let ?ct = "getConfiguredToolsForUpdate env pp w"
  let ?sgs = "(case delivery c of None \<Rightarrow> ''both'' | Some d \<Rightarrow> d) \<noteq> ''commands''"
  let ?sgc = "(case delivery c of None \<Rightarrow> ''both'' | Some d \<Rightarrow> d) \<noteq> ''skills''"
  have art: "skillDirs ?w' = skillDirs w" "cmdFiles ?w' = cmdFiles w" "dirs ?w' = dirs w"
    by simp_all
  note sa = same_artifacts2 [OF art]
  have cf: "configFile ?w' = Parsed ?c'" "profile ?c' = Some ''custom''"
    using a by simp_all
  note p' = plan_with_profile [OF cf, of env pp "[]"]
  have cfw: "configFile w = Parsed c" "profile c = Some ''custom''" using a by simp_all
  note p = plan_with_profile [OF cfw, of env pp "[]"]
  have d: "desiredWorkflows (planUpdate env pp [] w) = filter (\<lambda>wf. wf \<in> set ALL_WORKFLOWS) ws"
    using a by (simp add: p getProfileWorkflows_def)
  have d': "desiredWorkflows (planUpdate env pp [] ?w') = filter (\<lambda>wf. wf \<in> set ALL_WORKFLOWS) ws'"
    by (simp add: p' getProfileWorkflows_def)
  have sub: "set (filter (\<lambda>wf. wf \<in> set ALL_WORKFLOWS) ws')
               \<subseteq> set (filter (\<lambda>wf. wf \<in> set ALL_WORKFLOWS) ws)"
    using a by auto
  have "toolsToUpdateSetOf env pp ?ct (filter (\<lambda>wf. wf \<in> set ALL_WORKFLOWS) ws) ?sgs ?sgc w = []"
    using a by (simp add: toolsToUpdateSet_plan d p)
  from toolsToUpdateSetOf_mono [OF sub this]
  have "toolsToUpdateSetOf env pp ?ct (filter (\<lambda>wf. wf \<in> set ALL_WORKFLOWS) ws') ?sgs ?sgc w = []" .
  then have none: "toolsToUpdateSet (planUpdate env pp [] ?w') = []"
    by (simp add: toolsToUpdateSet_plan d' p' sa)
  show "execute env False pp [] ?w'
     = Inr (?w', if ?ct = [] then [NoConfiguredTools]
            else [UpToDate ?ct]
                 @ displayExtraWorkflowsNote env pp ?ct (filter (\<lambda>wf. wf \<in> set ALL_WORKFLOWS) ws') w)"
    using a none
    by (simp add: execute_eq Let_def p' getProfileWorkflows_def sa toolStatuses_ids)
qed

theorem narrowing_leaves_artifacts_witness:
  "toolsToUpdateSet (planUpdate ex_env ''/p'' [] ex_reconciledABC) = []
   \<and> execute ex_env False ''/p'' [] ex_narrowed = Inr (ex_narrowed, [UpToDate [''claude''], ExtraWorkflowsNote 2])"
proof -
  have cf: "configFile ex_reconciledABC = Parsed ex_customABC"
    by (simp add: ex_reconciledABC_def mkWorld_def)
  have pr: "profile ex_customABC = Some ''custom''"
    and wf: "workflows ex_customABC = Some [''explore'', ''apply'', ''archive'']"
    by (simp_all add: ex_customABC_def)
  have sub: "set [''explore''] \<subseteq> set [''explore'', ''apply'', ''archive'']" by simp
  have d: "dirs ex_reconciledABC (join ''/p'' OPENSPEC_DIR_NAME)" by code_simp
  have n: "toolsToUpdateSet (planUpdate ex_env ''/p'' [] ex_reconciledABC) = []" by code_simp
  have ct: "getConfiguredToolsForUpdate ex_env ''/p'' ex_reconciledABC = [''claude'']" by code_simp
  have nt: "displayExtraWorkflowsNote ex_env ''/p'' [''claude'']
                (filter (\<lambda>wf. wf \<in> set ALL_WORKFLOWS) [''explore'']) ex_reconciledABC
              = [ExtraWorkflowsNote 2]"
    by code_simp
  from narrowing_leaves_artifacts [where w = ex_reconciledABC and c = ex_customABC
      and ws = "[''explore'', ''apply'', ''archive'']" and ws' = "[''explore'']"
      and pp = "''/p''" and env = ex_env] cf pr wf sub d n
  have "execute ex_env False ''/p'' []
          (ex_reconciledABC\<lparr>configFile := Parsed (ex_customABC\<lparr>workflows := Some [''explore'']\<rparr>)\<rparr>)
     = Inr (ex_reconciledABC\<lparr>configFile := Parsed (ex_customABC\<lparr>workflows := Some [''explore'']\<rparr>)\<rparr>,
            if getConfiguredToolsForUpdate ex_env ''/p'' ex_reconciledABC = [] then [NoConfiguredTools]
            else [UpToDate (getConfiguredToolsForUpdate ex_env ''/p'' ex_reconciledABC)]
                 @ displayExtraWorkflowsNote ex_env ''/p''
                     (getConfiguredToolsForUpdate ex_env ''/p'' ex_reconciledABC)
                     (filter (\<lambda>wf. wf \<in> set ALL_WORKFLOWS) [''explore'']) ex_reconciledABC)"
    by blast
  then have "execute ex_env False ''/p'' [] ex_narrowed
               = Inr (ex_narrowed, [UpToDate [''claude''], ExtraWorkflowsNote 2])"
    unfolding ct nt ex_narrowed_def by simp
  with n show ?thesis by blast
qed

section \<open>Invalid profile override\<close>

text \<open>
  C6, as stated, fails: with an invalid \<^verbatim>\<open>--profile\<close> the run raises the validation
  error, but only after the migration step has already rewritten the persisted config.
\<close>

theorem invalid_profile_after_migration_counterexample:
  "fst (initExecute ex_env ex_bogusInit ''/p'' ex_premigration) = Raised (InvalidProfile ''bogus'')
   \<and> configFile ex_premigration = NoFile
   \<and> configFile (fst (snd (initExecute ex_env ex_bogusInit ''/p'' ex_premigration)))
       = Parsed \<lparr>profile = Some ''custom'', delivery = Some ''both'',
                 workflows = Some [''explore'', ''apply'']\<rparr>"
  by code_simp

lemma initLegacyCleanup_world:
  "snd (fst (initLegacyCleanup inp w)) = w\<lparr>legacyArtifacts := legacyArtifacts (snd (fst (initLegacyCleanup inp w)))\<rparr>"
  by (simp add: initLegacyCleanup_def)

lemma initLegacyCleanup_code:
  "fst (fst (initLegacyCleanup inp w)) \<in> {None, Some 0, Some 1}"
  "\<not> legacyArtifacts w \<or> forceOption inp \<or> (canPrompt inp \<and> confirmCleanup inp) \<Longrightarrow>
     fst (fst (initLegacyCleanup inp w)) = None"
  "configFile (snd (fst (initLegacyCleanup inp w))) = configFile w"
  "dirs (snd (fst (initLegacyCleanup inp w))) = dirs w"
  by (auto simp: initLegacyCleanup_def)

text \<open>
  C6, amended. An init run whose \<^verbatim>\<open>--profile\<close> string is neither \<^verbatim>\<open>core\<close> nor
  \<^verbatim>\<open>custom\<close> never completes and never falls back to a valid profile: it ends with the
  validation error (exit code 1), unless the permission check or the legacy pass ends it
  before. The error is raised before the tool selection, the creation of the directory
  structure and the generation: no managed skill directory, command file or directory is
  touched. The legacy cleanup and the one-time config migration come first in the source
  and may already have been done: they are the only changes such a run can make, and the
  config is migrated only when the project directory exists already.
\<close>

theorem invalid_profile_override:
  "profileOverride inp = Some s \<and> s \<noteq> ''core'' \<and> s \<noteq> ''custom'' \<longrightarrow>
     fst (initExecute env inp pp w) \<noteq> Completed
     \<and> fst (initExecute env inp pp w)
         \<in> {Raised (InvalidProfile s), Raised InsufficientPermissions, Exited 1, Exited 0}
     \<and> (writePermission inp
          \<and> (\<not> legacyArtifacts w \<or> forceOption inp \<or> (canPrompt inp \<and> confirmCleanup inp)) \<longrightarrow>
          fst (initExecute env inp pp w) = Raised (InvalidProfile s)
          \<and> exitCode (fst (initExecute env inp pp w)) = 1)
     \<and> skillDirs (fst (snd (initExecute env inp pp w))) = skillDirs w
     \<and> cmdFiles (fst (snd (initExecute env inp pp w))) = cmdFiles w
     \<and> dirs (fst (snd (initExecute env inp pp w))) = dirs w
     \<and> fst (snd (initExecute env inp pp w))
         = w\<lparr>legacyArtifacts := legacyArtifacts (fst (snd (initExecute env inp pp w))),
              configFile := configFile (fst (snd (initExecute env inp pp w)))\<rparr>
     \<and> (\<not> dirs w (join pp OPENSPEC_DIR_NAME) \<longrightarrow>
          configFile (fst (snd (initExecute env inp pp w))) = configFile w)"
proof (intro impI)
  assume a: "profileOverride inp = Some s \<and> s \<noteq> ''core'' \<and> s \<noteq> ''custom''"
  then have r: "resolveProfileOverride (profileOverride inp) = Inl (InvalidProfile s)"
    by (simp add: resolveProfileOverride_def)
  obtain code w1 ll where l: "initLegacyCleanup inp w = ((code, w1), ll)"
    by (metis surj_pair)
  have w1: "w1 = w\<lparr>legacyArtifacts := legacyArtifacts w1\<rparr>"
    using initLegacyCleanup_world [where inp = inp and w = w] l by simp
  have code: "code \<in> {None, Some 0, Some 1}"
    "\<not> legacyArtifacts w \<or> forceOption inp \<or> (canPrompt inp \<and> confirmCleanup inp) \<Longrightarrow> code = None"
    using initLegacyCleanup_code(1,2) [where inp = inp and w = w] l by simp_all
  let ?m = "migrateIfNeeded pp (detectedTools inp) w1"
  have m: "fst ?m = w1\<lparr>configFile := configFile (fst ?m)\<rparr>" by (rule migrate_world)
  have ex: "initExecute env inp pp w =
     (if \<not> writePermission inp then (Raised InsufficientPermissions, w, [])
      else case code of
             Some c \<Rightarrow> (Exited c, w1, ll)
           | None \<Rightarrow> (Raised (InvalidProfile s),
                      (if dirs w (join pp OPENSPEC_DIR_NAME) then fst ?m else w1),
                      ll @ (if dirs w (join pp OPENSPEC_DIR_NAME) then snd ?m else [])))"
    by (cases code) (simp_all add: initExecute_def Let_def l r case_prod_beta)
  have eqs: "w = w\<lparr>legacyArtifacts := legacyArtifacts w, configFile := configFile w\<rparr>" by simp
  show "fst (initExecute env inp pp w) \<noteq> Completed
     \<and> fst (initExecute env inp pp w)
         \<in> {Raised (InvalidProfile s), Raised InsufficientPermissions, Exited 1, Exited 0}
     \<and> (writePermission inp
          \<and> (\<not> legacyArtifacts w \<or> forceOption inp \<or> (canPrompt inp \<and> confirmCleanup inp)) \<longrightarrow>
          fst (initExecute env inp pp w) = Raised (InvalidProfile s)
          \<and> exitCode (fst (initExecute env inp pp w)) = 1)
     \<and> skillDirs (fst (snd (initExecute env inp pp w))) = skillDirs w
     \<and> cmdFiles (fst (snd (initExecute env inp pp w))) = cmdFiles w
     \<and> dirs (fst (snd (initExecute env inp pp w))) = dirs w
     \<and> fst (snd (initExecute env inp pp w))
         = w\<lparr>legacyArtifacts := legacyArtifacts (fst (snd (initExecute env inp pp w))),
              configFile := configFile (fst (snd (initExecute env inp pp w)))\<rparr>
     \<and> (\<not> dirs w (join pp OPENSPEC_DIR_NAME) \<longrightarrow>
          configFile (fst (snd (initExecute env inp pp w))) = configFile w)"
  proof (intro conjI)
    show "fst (initExecute env inp pp w) \<noteq> Completed"
      using code(1) by (auto simp: ex)
    show "fst (initExecute env inp pp w)
         \<in> {Raised (InvalidProfile s), Raised InsufficientPermissions, Exited 1, Exited 0}"
      using code(1) by (auto simp: ex)
    show "writePermission inp
          \<and> (\<not> legacyArtifacts w \<or> forceOption inp \<or> (canPrompt inp \<and> confirmCleanup inp)) \<longrightarrow>
          fst (initExecute env inp pp w) = Raised (InvalidProfile s)
          \<and> exitCode (fst (initExecute env inp pp w)) = 1"
      using code(2) by (auto simp: ex exitCode_def)
    have fields: "skillDirs w1 = skillDirs w" "cmdFiles w1 = cmdFiles w" "dirs w1 = dirs w"
      "configFile w1 = configFile w"
      by (subst w1, simp)+
    show "skillDirs (fst (snd (initExecute env inp pp w))) = skillDirs w"
      by (cases code) (simp_all add: ex fields migrate_artifacts)
    show "cmdFiles (fst (snd (initExecute env inp pp w))) = cmdFiles w"
      by (cases code) (simp_all add: ex fields migrate_artifacts)
    show "dirs (fst (snd (initExecute env inp pp w))) = dirs w"
      by (cases code) (simp_all add: ex fields migrate_artifacts)
    show "fst (snd (initExecute env inp pp w))
         = w\<lparr>legacyArtifacts := legacyArtifacts (fst (snd (initExecute env inp pp w))),
              configFile := configFile (fst (snd (initExecute env inp pp w)))\<rparr>"
    proof (cases "writePermission inp")
      case False
      then show ?thesis by (simp add: ex)
    next
      case True
      have 1: "w1 = w\<lparr>legacyArtifacts := legacyArtifacts w1, configFile := configFile w1\<rparr>"
        by (subst w1) (simp add: fields)
      have 2: "fst ?m = w\<lparr>legacyArtifacts := legacyArtifacts (fst ?m), configFile := configFile (fst ?m)\<rparr>"
        by (subst m, subst w1) (simp add: migrate_cases)
      show ?thesis
        using True 1 2 by (cases code) (simp_all add: ex)
    qed
    show "\<not> dirs w (join pp OPENSPEC_DIR_NAME) \<longrightarrow>
          configFile (fst (snd (initExecute env inp pp w))) = configFile w"
      by (cases code) (simp_all add: ex fields)
  qed
qed

theorem invalid_profile_override_witness:
  "profileOverride ex_bogusInit = Some ''bogus''
   \<and> writePermission ex_bogusInit
   \<and> \<not> legacyArtifacts ex_premigration
   \<and> fst (initExecute ex_env ex_bogusInit ''/p'' ex_premigration) = Raised (InvalidProfile ''bogus'')
   \<and> exitCode (fst (initExecute ex_env ex_bogusInit ''/p'' ex_premigration)) = 1
   \<and> skillDirs (fst (snd (initExecute ex_env ex_bogusInit ''/p'' ex_premigration)))
       = skillDirs ex_premigration
   \<and> cmdFiles (fst (snd (initExecute ex_env ex_bogusInit ''/p'' ex_premigration)))
       = cmdFiles ex_premigration
   \<and> dirs (fst (snd (initExecute ex_env ex_bogusInit ''/p'' ex_premigration)))
       = dirs ex_premigration"
proof -
  have h: "profileOverride ex_bogusInit = Some ''bogus'' \<and> ''bogus'' \<noteq> ''core''
           \<and> ''bogus'' \<noteq> ''custom''"
    by (simp add: ex_bogusInit_def)
  have p: "writePermission ex_bogusInit" "\<not> legacyArtifacts ex_premigration"
    by (simp_all add: ex_bogusInit_def ex_premigration_def mkWorld_def)
  from invalid_profile_override [where inp = ex_bogusInit and s = "''bogus''" and env = ex_env
         and pp = "''/p''" and w = ex_premigration] h p
  show ?thesis by blast
qed

section \<open>Delivery and artifact kinds\<close>

lemma initTool_updateTool:
  assumes "tool_value t = v_value tool"
  shows "snd (initTool env pp sgs sgc st cc tool w)
           = snd (updateTool env pp (v_value tool \<noteq> ''claude'' \<and> sgs)
                    (v_value tool = ''claude'' \<or> sgc) st cc t (v_skillsDir tool) w)"
    and "fst (fst (initTool env pp sgs sgc st cc tool w))
           = fst (fst (updateTool env pp (v_value tool \<noteq> ''claude'' \<and> sgs)
                    (v_value tool = ''claude'' \<or> sgc) st cc t (v_skillsDir tool) w))"
  using assms
  by (cases "v_value tool = ''claude''"; cases sgs; cases sgc;
      simp add: initTool_def updateTool_def Let_def case_prod_beta split: option.splits)+

lemma tool_block_skill:
  assumes ok: "fst (fst (updateTool env pp tgs tgc st cc t sd w)) = None"
    and new: "\<not> existsSkillFile w (skillsRootOf pp sd) d"
  shows "existsSkillFile (snd (updateTool env pp tgs tgc st cc t sd w)) (skillsRootOf pp sd) d
           \<longleftrightarrow> tgs \<and> d \<in> set (map fst st)"
proof (cases tgs)
  case True
  from ok True have "\<forall>e \<in> set st. \<not> readOnly w (skillFileOf (skillsRootOf pp sd) e)"
    by (simp add: updateTool_ok)
  then have tw: "takeWhile (\<lambda>e. \<not> readOnly w (skillFileOf (skillsRootOf pp sd) e)) st = st"
    by (simp add: takeWhile_eq_all_conv)
  have after: "skillDirs (snd (updateTool env pp True tgc st cc t sd w)) (skillsRootOf pp sd) d =
          (if d \<in> set (map fst st) then SkillMd (Some (OPENSPEC_VERSION env))
           else skillDirs w (skillsRootOf pp sd) d)"
    unfolding updateTool_skillDirs_generate tw by simp
  show ?thesis
    using new True after by (simp add: existsSkillFile_def split: skill_entry.splits)
next
  case False
  have after: "skillDirs (snd (updateTool env pp False tgc st cc t sd w)) (skillsRootOf pp sd) d =
          NoDir \<or> skillDirs (snd (updateTool env pp False tgc st cc t sd w)) (skillsRootOf pp sd) d
          = skillDirs w (skillsRootOf pp sd) d"
    unfolding updateTool_skillDirs_remove by simp
  show ?thesis
    using new False after by (auto simp: existsSkillFile_def split: skill_entry.splits)
qed

lemma tool_block_command:
  assumes ok: "fst (fst (updateTool env pp tgs tgc st cc t sd w)) = None"
    and g: "adapters env (tool_value t) = Some g"
    and new: "\<not> cmdFiles w q"
  shows "cmdFiles (snd (updateTool env pp tgs tgc st cc t sd w)) q
           \<longleftrightarrow> tgc \<and> q \<in> set (map (fullPath pp) (map g cc))"
proof (cases tgc)
  case True
  show ?thesis
    using updateTool_cmdFiles_generate [of env pp tgs st cc t sd w q] ok g new True by simp
next
  case False
  show ?thesis
    using updateTool_cmdFiles_remove [of env pp tgs st cc t sd w q] ok g new False by simp
qed

lemma tool_block_no_adapter:
  assumes "adapters env (tool_value t) = None"
  shows "cmdFiles (snd (updateTool env pp tgs tgc st cc t sd w)) = cmdFiles w"
  using assms
  by (simp add: updateTool_def Let_def case_prod_beta removeSkillDirs_def removeCommandFiles_def
        writeSkillFiles_fields removeSkillDirsLoop_fields split: option.splits)

lemma catalog_tables:
  "WORKFLOW_TO_SKILL_DIR = map (\<lambda>(d, workflow). (workflow, d)) SKILL_TEMPLATES"
  "COMMAND_TEMPLATE_IDS = map snd SKILL_TEMPLATES"
  "distinct (map fst WORKFLOW_TO_SKILL_DIR)"
  by (simp_all add: WORKFLOW_TO_SKILL_DIR_def SKILL_TEMPLATES_def COMMAND_TEMPLATE_IDS_def)

lemma skill_template_dir:
  "map_of WORKFLOW_TO_SKILL_DIR workflow = Some d \<longleftrightarrow> (d, workflow) \<in> set SKILL_TEMPLATES"
proof -
  have "map_of WORKFLOW_TO_SKILL_DIR workflow = Some d
          \<longleftrightarrow> (workflow, d) \<in> set WORKFLOW_TO_SKILL_DIR"
    by (rule map_of_eq_Some_iff) (rule catalog_tables(3))
  also have "\<dots> \<longleftrightarrow> (d, workflow) \<in> set SKILL_TEMPLATES"
    unfolding catalog_tables(1) by force
  finally show ?thesis .
qed

lemma getSkillTemplates_dirs:
  "d \<in> set (map fst (getSkillTemplates (Some wfs)))
     \<longleftrightarrow> (\<exists>workflow \<in> set wfs. map_of WORKFLOW_TO_SKILL_DIR workflow = Some d)"
  unfolding skill_template_dir by (force simp: getSkillTemplates_def)

lemma getCommandContents_ids:
  "map_of WORKFLOW_TO_SKILL_DIR workflow = Some d \<Longrightarrow> workflow \<in> set wfs \<Longrightarrow>
     workflow \<in> set (getCommandContents (Some wfs))"
  unfolding skill_template_dir by (force simp: getCommandContents_def catalog_tables(2))

section \<open>Reconciliation by the per-tool loop\<close>

lemma findTool_value: "findTool env tid = Some tool \<Longrightarrow> tool_value tool = tid"
  by (auto simp: findTool_def find_Some_iff)

lemma drift_selected:
  "tid \<in> set ct \<Longrightarrow> hasProfileOrDeliveryDrift env pp tid d sgs sgc w \<Longrightarrow>
   tid \<in> set (toolsToUpdateSetOf env pp ct d sgs sgc w)"
  by (simp add: toolsToUpdateSetOf_def Let_def set_js_set)

lemma getGlobalConfig_configFile:
  "configFile w' = configFile w \<Longrightarrow> getGlobalConfig w' = getGlobalConfig w"
  by (simp add: getGlobalConfig_def)

lemma desired_catalog: "set (desiredWorkflowsOf c) \<subseteq> set ALL_WORKFLOWS"
  by (auto simp: desiredWorkflowsOf_def Let_def)

lemma catalog_commands: "set ALL_WORKFLOWS = set COMMAND_TEMPLATE_IDS"
  by (auto simp: ALL_WORKFLOWS_def COMMAND_TEMPLATE_IDS_def)

lemma block_writes_skill:
  assumes s: "sgs"
    and ok: "fst (fst (updateTool env pp sgs sgc st cc t sd w)) = None"
    and d: "dn \<in> set (map fst st)"
  shows "existsSkillFile (snd (updateTool env pp sgs sgc st cc t sd w)) (skillsRootOf pp sd) dn"
proof -
  from s have e: "sgs = True" by simp
  from ok s have "\<forall>e \<in> set st. \<not> readOnly w (skillFileOf (skillsRootOf pp sd) e)"
    by (simp add: updateTool_ok)
  then have tw: "takeWhile (\<lambda>e. \<not> readOnly w (skillFileOf (skillsRootOf pp sd) e)) st = st"
    by (simp add: takeWhile_eq_all_conv)
  have "skillDirs (snd (updateTool env pp sgs sgc st cc t sd w)) (skillsRootOf pp sd) dn
          = SkillMd (Some (OPENSPEC_VERSION env))"
    unfolding e updateTool_skillDirs_generate tw using d by simp
  then show ?thesis by (simp add: existsSkillFile_def)
qed

lemma block_keeps_skill:
  assumes s: "sgs" and "existsSkillFile w r dn"
  shows "existsSkillFile (snd (updateTool env pp sgs sgc st cc t sd w)) r dn"
proof -
  from s have e: "sgs = True" by simp
  have "skillDirs (snd (updateTool env pp sgs sgc st cc t sd w)) r dn
          = SkillMd (Some (OPENSPEC_VERSION env))
        \<or> skillDirs (snd (updateTool env pp sgs sgc st cc t sd w)) r dn = skillDirs w r dn"
    unfolding e updateTool_skillDirs_generate by simp
  with assms(2) show ?thesis by (auto simp: existsSkillFile_def)
qed

lemma block_removes_dir:
  assumes s: "\<not> sgs" and "\<not> locked w (join (skillsRootOf pp sd) dn)"
    and "workflow \<in> set ALL_WORKFLOWS" and "map_of WORKFLOW_TO_SKILL_DIR workflow = Some dn"
  shows "\<not> existsSkillDir (snd (updateTool env pp sgs sgc st cc t sd w)) (skillsRootOf pp sd) dn"
proof -
  from s have e: "sgs = False" by simp
  have "skillDirs (snd (updateTool env pp sgs sgc st cc t sd w)) (skillsRootOf pp sd) dn = NoDir"
    unfolding e updateTool_skillDirs_remove using assms(2,3,4) by auto
  then show ?thesis by (simp add: existsSkillDir_def)
qed

lemma block_keeps_no_dir:
  assumes s: "\<not> sgs" and "\<not> existsSkillDir w r dn"
  shows "\<not> existsSkillDir (snd (updateTool env pp sgs sgc st cc t sd w)) r dn"
proof -
  from s have e: "sgs = False" by simp
  have "skillDirs (snd (updateTool env pp sgs sgc st cc t sd w)) r dn = NoDir
        \<or> skillDirs (snd (updateTool env pp sgs sgc st cc t sd w)) r dn = skillDirs w r dn"
    unfolding e updateTool_skillDirs_remove by simp
  with assms(2) show ?thesis by (auto simp: existsSkillDir_def)
qed

lemma block_writes_command:
  assumes s: "sgc"
    and ok: "fst (fst (updateTool env pp sgs sgc st cc t sd w)) = None"
    and g: "adapters env (tool_value t) = Some g" and c: "c \<in> set cc"
  shows "cmdFiles (snd (updateTool env pp sgs sgc st cc t sd w)) (fullPath pp (g c))"
proof -
  from s have e: "sgc = True" by simp
  show ?thesis
    unfolding e updateTool_cmdFiles_generate [OF ok [unfolded e]] using g c by simp
qed

lemma block_keeps_command:
  assumes s: "sgc"
    and ok: "fst (fst (updateTool env pp sgs sgc st cc t sd w)) = None"
    and "cmdFiles w q"
  shows "cmdFiles (snd (updateTool env pp sgs sgc st cc t sd w)) q"
proof -
  from s have e: "sgc = True" by simp
  show ?thesis
    unfolding e updateTool_cmdFiles_generate [OF ok [unfolded e]] using assms(3) by simp
qed

lemma block_removes_command:
  assumes s: "\<not> sgc"
    and ok: "fst (fst (updateTool env pp sgs sgc st cc t sd w)) = None"
    and g: "adapters env (tool_value t) = Some g" and c: "c \<in> set ALL_WORKFLOWS"
    and l: "\<not> locked w (fullPath pp (g c))"
  shows "\<not> cmdFiles (snd (updateTool env pp sgs sgc st cc t sd w)) (fullPath pp (g c))"
proof -
  from s have e: "sgc = False" by simp
  show ?thesis
    unfolding e updateTool_cmdFiles_remove [OF ok [unfolded e]] using g c l by auto
qed

lemma block_keeps_no_command:
  assumes s: "\<not> sgc"
    and ok: "fst (fst (updateTool env pp sgs sgc st cc t sd w)) = None"
    and "\<not> cmdFiles w q"
  shows "\<not> cmdFiles (snd (updateTool env pp sgs sgc st cc t sd w)) q"
proof -
  from s have e: "sgc = False" by simp
  show ?thesis
    unfolding e updateTool_cmdFiles_remove [OF ok [unfolded e]] using assms(3) by simp
qed

lemma block_reconciles:
  assumes ft: "findTool env tid = Some tool" and sd: "skillsDirOf tool = Some sd"
    and ok: "fst (fst (updateTool env pp sgs sgc st cc tool sd w)) = None"
    and nl: "\<forall>p. \<not> locked w p"
    and st: "st = (if sgs then getSkillTemplates (Some d) else [])"
    and cc: "cc = (if sgc then getCommandContents (Some d) else [])"
    and dc: "set d \<subseteq> set ALL_WORKFLOWS"
  shows "\<not> hasProfileOrDeliveryDrift env pp tid d sgs sgc
             (snd (updateTool env pp sgs sgc st cc tool sd w))"
proof
  let ?w' = "snd (updateTool env pp sgs sgc st cc tool sd w)"
  assume "hasProfileOrDeliveryDrift env pp tid d sgs sgc ?w'"
  then have bad:
    "(if sgs
      then (\<exists>wf \<in> set d. \<exists>dn. map_of WORKFLOW_TO_SKILL_DIR wf = Some dn
              \<and> \<not> existsSkillFile ?w' (skillsRootOf pp sd) dn)
      else (\<exists>wf \<in> set ALL_WORKFLOWS. \<exists>dn. map_of WORKFLOW_TO_SKILL_DIR wf = Some dn
              \<and> existsSkillDir ?w' (skillsRootOf pp sd) dn))
     \<or> (\<exists>g. adapters env tid = Some g
           \<and> (if sgc then (\<exists>wf \<in> set d. \<not> cmdFiles ?w' (fullPath pp (g wf)))
               else (\<exists>wf \<in> set ALL_WORKFLOWS. cmdFiles ?w' (fullPath pp (g wf)))))"
    unfolding drift_iff using ft sd by auto
  have tv: "tool_value tool = tid" using ft by (rule findTool_value)
  have a: "existsSkillFile ?w' (skillsRootOf pp sd) dn"
    if "sgs" "workflow \<in> set d" "map_of WORKFLOW_TO_SKILL_DIR workflow = Some dn" for workflow dn
  proof -
    from that have "dn \<in> set (map fst (getSkillTemplates (Some d)))"
      unfolding getSkillTemplates_dirs by blast
    then have "dn \<in> set (map fst st)" using that(1) st by simp
    from block_writes_skill [OF that(1) ok this] show ?thesis .
  qed
  have b: "\<not> existsSkillDir ?w' (skillsRootOf pp sd) dn"
    if "\<not> sgs" "workflow \<in> set ALL_WORKFLOWS" "map_of WORKFLOW_TO_SKILL_DIR workflow = Some dn"
    for workflow dn
    using block_removes_dir [OF that(1) _ that(2,3)] nl by blast
  have c: "cmdFiles ?w' (fullPath pp (g workflow))"
    if "sgc" "adapters env tid = Some g" "workflow \<in> set d" for workflow g
  proof -
    from that(3) dc have "workflow \<in> set COMMAND_TEMPLATE_IDS"
      unfolding catalog_commands [symmetric] by blast
    with that have "workflow \<in> set cc"
      using cc by (simp add: getCommandContents_def)
    from block_writes_command [OF that(1) ok that(2) [folded tv] this] show ?thesis .
  qed
  have e: "\<not> cmdFiles ?w' (fullPath pp (g workflow))"
    if "\<not> sgc" "adapters env tid = Some g" "workflow \<in> set ALL_WORKFLOWS" for workflow g
    using block_removes_command [OF that(1) ok that(2) [folded tv] that(3)] nl by blast
  from bad a b c e show False
    by (cases sgs; cases sgc; simp; blast)
qed

lemma block_keeps_reconciled:
  assumes nd: "\<not> hasProfileOrDeliveryDrift env pp tid d sgs sgc w"
    and ok: "fst (fst (updateTool env pp sgs sgc st cc t sd w)) = None"
  shows "\<not> hasProfileOrDeliveryDrift env pp tid d sgs sgc
             (snd (updateTool env pp sgs sgc st cc t sd w))"
proof
  let ?w' = "snd (updateTool env pp sgs sgc st cc t sd w)"
  assume "hasProfileOrDeliveryDrift env pp tid d sgs sgc ?w'"
  then obtain tool sd' where ft: "findTool env tid = Some tool" "skillsDirOf tool = Some sd'"
    and bad:
    "(if sgs
      then (\<exists>wf \<in> set d. \<exists>dn. map_of WORKFLOW_TO_SKILL_DIR wf = Some dn
              \<and> \<not> existsSkillFile ?w' (skillsRootOf pp sd') dn)
      else (\<exists>wf \<in> set ALL_WORKFLOWS. \<exists>dn. map_of WORKFLOW_TO_SKILL_DIR wf = Some dn
              \<and> existsSkillDir ?w' (skillsRootOf pp sd') dn))
     \<or> (\<exists>g. adapters env tid = Some g
           \<and> (if sgc then (\<exists>wf \<in> set d. \<not> cmdFiles ?w' (fullPath pp (g wf)))
               else (\<exists>wf \<in> set ALL_WORKFLOWS. cmdFiles ?w' (fullPath pp (g wf)))))"
    unfolding drift_iff by blast
  have 1: "sgs \<Longrightarrow> \<not> existsSkillFile ?w' r dn \<Longrightarrow> \<not> existsSkillFile w r dn" for r dn
    using block_keeps_skill [of sgs w r dn env pp sgc st cc t sd] by blast
  have 2: "\<not> sgs \<Longrightarrow> existsSkillDir ?w' r dn \<Longrightarrow> existsSkillDir w r dn" for r dn
    using block_keeps_no_dir [of sgs w r dn env pp sgc st cc t sd] by blast
  have 3: "sgc \<Longrightarrow> \<not> cmdFiles ?w' q \<Longrightarrow> \<not> cmdFiles w q" for q
    using block_keeps_command [OF _ ok, of q] by blast
  have 4: "\<not> sgc \<Longrightarrow> cmdFiles ?w' q \<Longrightarrow> cmdFiles w q" for q
    using block_keeps_no_command [OF _ ok, of q] by blast
  have "(if sgs
      then (\<exists>wf \<in> set d. \<exists>dn. map_of WORKFLOW_TO_SKILL_DIR wf = Some dn
              \<and> \<not> existsSkillFile w (skillsRootOf pp sd') dn)
      else (\<exists>wf \<in> set ALL_WORKFLOWS. \<exists>dn. map_of WORKFLOW_TO_SKILL_DIR wf = Some dn
              \<and> existsSkillDir w (skillsRootOf pp sd') dn))
     \<or> (\<exists>g. adapters env tid = Some g
           \<and> (if sgc then (\<exists>wf \<in> set d. \<not> cmdFiles w (fullPath pp (g wf)))
               else (\<exists>wf \<in> set ALL_WORKFLOWS. cmdFiles w (fullPath pp (g wf)))))"
  proof (cases sgs; cases sgc)
    assume s: "sgs" "sgc"
    from bad s 1 [OF s(1)] 3 [OF s(2)] show ?thesis by simp blast
  next
    assume s: "sgs" "\<not> sgc"
    from bad s 1 [OF s(1)] 4 [OF s(2)] show ?thesis by simp blast
  next
    assume s: "\<not> sgs" "sgc"
    from bad s 2 [OF s(1)] 3 [OF s(2)] show ?thesis by simp blast
  next
    assume s: "\<not> sgs" "\<not> sgc"
    from bad s 2 [OF s(1)] 4 [OF s(2)] show ?thesis by simp blast
  qed
  with ft have "hasProfileOrDeliveryDrift env pp tid d sgs sgc w"
    unfolding drift_iff by blast
  with nd show False by contradiction
qed

lemma updateTool_dirs:
  "dirs w p \<Longrightarrow> dirs (snd (updateTool env pp sgs sgc st cc t sd w)) p"
  by (cases sgs; cases sgc; cases "adapters env (tool_value t)")
     (auto simp: updateTool_def Let_def case_prod_beta removeSkillDirs_def removeCommandFiles_def
        writeSkillFiles_dirs writeCommandFiles_dirs removeSkillDirsLoop_fields
        removeCommandFilesLoop_fields split: option.splits)

lemma updateTools_kept:
  "configFile (run_world (updateTools env pp sgs sgc st cc ids r)) = configFile (run_world r)"
  "locked (run_world (updateTools env pp sgs sgc st cc ids r)) = locked (run_world r)"
  by (induction ids arbitrary: r;
      auto simp: split: option.splits prod.splits
        dest: arg_cong [where f = "\<lambda>x. configFile (snd x)"]
              arg_cong [where f = "\<lambda>x. locked (snd x)"] simp: updateTool_fields)+

lemma updateTools_dirs:
  "dirs (run_world r) p \<Longrightarrow> dirs (run_world (updateTools env pp sgs sgc st cc ids r)) p"
proof (induction ids arbitrary: r)
  case Nil
  then show ?case by simp
next
  case (Cons a ids)
  show ?case
  proof (cases "\<exists>tool sd. findTool env a = Some tool \<and> skillsDirOf tool = Some sd")
    case False
    then have "findTool env a = None
                 \<or> (\<exists>tool. findTool env a = Some tool \<and> skillsDirOf tool = None)"
      by (cases "findTool env a") auto
    from updateTools_skip [OF this] Cons show ?thesis by simp
  next
    case True
    then obtain tool sd where ft: "findTool env a = Some tool" "skillsDirOf tool = Some sd"
      by blast
    have d: "dirs (snd (updateTool env pp sgs sgc st cc tool sd (run_world r))) p"
      using Cons.prems by (rule updateTool_dirs)
    show ?thesis
      unfolding updateTools_step [OF ft]
      by (rule Cons.IH) (simp add: d split: option.splits)
  qed
qed

lemma loop_reconciles:
  assumes st: "st = (if sgs then getSkillTemplates (Some d) else [])"
    and cc: "cc = (if sgc then getCommandContents (Some d) else [])"
    and dc: "set d \<subseteq> set ALL_WORKFLOWS"
  shows "(\<forall>(tool, sd) \<in> set (processable env ids).
            toolError env pp sgs sgc st cc tool sd (readOnly (run_world r)) = None) \<Longrightarrow>
         (\<forall>p. \<not> locked (run_world r) p) \<Longrightarrow>
         tid \<in> set ids \<or> \<not> hasProfileOrDeliveryDrift env pp tid d sgs sgc (run_world r) \<Longrightarrow>
         \<not> hasProfileOrDeliveryDrift env pp tid d sgs sgc
              (run_world (updateTools env pp sgs sgc st cc ids r))"
proof (induction ids arbitrary: r)
  case Nil
  then show ?case by simp
next
  case (Cons a ids)
  show ?case
  proof (cases "\<exists>tool sd. findTool env a = Some tool \<and> skillsDirOf tool = Some sd")
    case False
    then have skip: "findTool env a = None
                 \<or> (\<exists>tool. findTool env a = Some tool \<and> skillsDirOf tool = None)"
      by (cases "findTool env a") auto
    have step: "updateTools env pp sgs sgc st cc (a # ids) r
                  = updateTools env pp sgs sgc st cc ids r"
      using skip by (rule updateTools_skip)
    have pr: "processable env (a # ids) = processable env ids"
      using skip by (auto simp: processable_Cons split: option.splits)
    have "\<not> hasProfileOrDeliveryDrift env pp a d sgs sgc (run_world r)"
      unfolding drift_iff using False by blast
    with Cons.prems(3)
    have p3: "tid \<in> set ids \<or> \<not> hasProfileOrDeliveryDrift env pp tid d sgs sgc (run_world r)"
      by auto
    from Cons.prems(1) have p1: "\<forall>(tool, sd) \<in> set (processable env ids).
            toolError env pp sgs sgc st cc tool sd (readOnly (run_world r)) = None"
      unfolding pr .
    from Cons.IH [OF p1 Cons.prems(2) p3] show ?thesis unfolding step .
  next
    case True
    then obtain tool sd where ft: "findTool env a = Some tool" "skillsDirOf tool = Some sd"
      by blast
    let ?w' = "snd (updateTool env pp sgs sgc st cc tool sd (run_world r))"
    let ?r' = "r\<lparr>run_world := ?w',
              updatedTools := updatedTools r @ [tool_name tool],
              removedSkillCount := removedSkillCount r
                 + fst (snd (fst (updateTool env pp sgs sgc st cc tool sd (run_world r)))),
              removedCommandCount := removedCommandCount r
                 + snd (snd (fst (updateTool env pp sgs sgc st cc tool sd (run_world r)))),
              spinnerLines := spinnerLines r @ [SpinnerSucceed (tool_name tool)]\<rparr>"
    have pr: "processable env (a # ids) = (tool, sd) # processable env ids"
      by (simp add: processable_Cons ft)
    have te: "toolError env pp sgs sgc st cc tool sd (readOnly (run_world r)) = None"
      using Cons.prems(1) unfolding pr by simp
    have step: "updateTools env pp sgs sgc st cc (a # ids) r
                  = updateTools env pp sgs sgc st cc ids ?r'"
      unfolding updateTools_step [OF ft] te by simp
    have ok: "fst (fst (updateTool env pp sgs sgc st cc tool sd (run_world r))) = None"
      using te by (simp add: updateTool_error)
    have p1: "\<forall>(tool, sd) \<in> set (processable env ids).
            toolError env pp sgs sgc st cc tool sd (readOnly (run_world ?r')) = None"
      using Cons.prems(1) unfolding pr by (simp add: updateTool_fields)
    have p2: "\<forall>p. \<not> locked (run_world ?r') p"
      using Cons.prems(2) by (simp add: updateTool_fields)
    have p3: "tid \<in> set ids
                \<or> \<not> hasProfileOrDeliveryDrift env pp tid d sgs sgc (run_world ?r')"
    proof (cases "tid \<in> set ids")
      case True
      then show ?thesis by simp
    next
      case False
      show ?thesis
      proof (cases "tid = a")
        case True
        from block_reconciles [OF ft ok Cons.prems(2) st cc dc]
        show ?thesis unfolding True by simp
      next
        case na: False
        with False Cons.prems(3)
        have "\<not> hasProfileOrDeliveryDrift env pp tid d sgs sgc (run_world r)" by simp
        from block_keeps_reconciled [OF this ok] show ?thesis by simp
      qed
    qed
    from Cons.IH [OF p1 p2 p3] show ?thesis unfolding step .
  qed
qed

section \<open>Runs of the update command\<close>

lemma plan_fields:
  "configuredTools (planUpdate env pp newly w) = getConfiguredToolsForUpdate env pp w"
  "desiredWorkflows (planUpdate env pp newly w)
     = desiredWorkflowsOf (getGlobalConfig (plan_world (planUpdate env pp newly w)))"
  "shouldGenerateSkills (planUpdate env pp newly w)
     = (deliveryOf (getGlobalConfig (plan_world (planUpdate env pp newly w))) \<noteq> ''commands'')"
  "shouldGenerateCommands (planUpdate env pp newly w)
     = (deliveryOf (getGlobalConfig (plan_world (planUpdate env pp newly w))) \<noteq> ''skills'')"
  "toolsToUpdateSet (planUpdate env pp newly w)
     = toolsToUpdateSetOf env pp (getConfiguredToolsForUpdate env pp w)
         (desiredWorkflowsOf (getGlobalConfig (plan_world (planUpdate env pp newly w))))
         (deliveryOf (getGlobalConfig (plan_world (planUpdate env pp newly w))) \<noteq> ''commands'')
         (deliveryOf (getGlobalConfig (plan_world (planUpdate env pp newly w))) \<noteq> ''skills'')
         (plan_world (planUpdate env pp newly w))"
  by (simp_all add: planUpdate_def Let_def)

lemma plan_world_fields:
  "dirs (plan_world (planUpdate env pp newly w)) = dirs w"
  "locked (plan_world (planUpdate env pp newly w)) = locked w"
  "readOnly (plan_world (planUpdate env pp newly w)) = readOnly w"
  "skillDirs (plan_world (planUpdate env pp newly w)) = skillDirs w"
  "cmdFiles (plan_world (planUpdate env pp newly w)) = cmdFiles w"
  by (simp_all add: planUpdate_def Let_def migrate_artifacts)

lemma migrate_delivery:
  "deliveryOf (getGlobalConfig (fst (migrateIfNeeded pp tools w))) = deliveryOf (getGlobalConfig w)"
  by (cases "configFile w")
     (auto simp: migrate_cases getGlobalConfig_def deliveryOf_def DEFAULT_CONFIG_def
        split: option.splits)

lemma plan_delivery:
  "deliveryOf (getGlobalConfig (plan_world (planUpdate env pp newly w)))
     = deliveryOf (getGlobalConfig w)"
  by (simp add: planUpdate_def Let_def migrate_delivery)

lemma spinner_kinds:
  "set (spinnerLines (updateTools env pp sgs sgc st cc ids (emptyRun w)))
     \<subseteq> range SpinnerSucceed \<union> range SpinnerFail"
  using updateTools_lists [of env pp sgs sgc st cc ids "emptyRun w"]
  by (auto simp: emptyRun_def)

lemma summary_kinds:
  "set (summaryLines r)
     \<subseteq> {SummaryUpdated (updatedTools r), SummaryFailed (failedTools r),
         RemovedCommands (removedCommandCount r), RemovedSkills (removedSkillCount r)}"
  by (auto simp: summaryLines_def)

lemma runUpdate_eq:
  "runUpdate env force pp newly w =
     updateTools env pp
       (deliveryOf (getGlobalConfig (plan_world (planUpdate env pp newly w))) \<noteq> ''commands'')
       (deliveryOf (getGlobalConfig (plan_world (planUpdate env pp newly w))) \<noteq> ''skills'')
       (if deliveryOf (getGlobalConfig (plan_world (planUpdate env pp newly w))) \<noteq> ''commands''
        then getSkillTemplates (Some (desiredWorkflowsOf
               (getGlobalConfig (plan_world (planUpdate env pp newly w))))) else [])
       (if deliveryOf (getGlobalConfig (plan_world (planUpdate env pp newly w))) \<noteq> ''skills''
        then getCommandContents (Some (desiredWorkflowsOf
               (getGlobalConfig (plan_world (planUpdate env pp newly w))))) else [])
       (if force then getConfiguredToolsForUpdate env pp w
        else toolsToUpdateSet (planUpdate env pp newly w))
       (emptyRun (plan_world (planUpdate env pp newly w)))"
  unfolding runUpdate_def Let_def plan_fields(1,2,3,4) ..

lemma runUpdate_spinner_kinds:
  "set (spinnerLines (runUpdate env force pp newly w)) \<subseteq> range SpinnerSucceed \<union> range SpinnerFail"
  unfolding runUpdate_eq by (rule spinner_kinds)

lemma runUpdate_config:
  "configFile (run_world (runUpdate env force pp newly w))
     = configFile (plan_world (planUpdate env pp newly w))"
  unfolding runUpdate_eq by (simp add: updateTools_kept emptyRun_def)

text \<open>The run that reaches the per-tool loop, read off the plan line of its output.\<close>

lemma execute_run:
  assumes ex: "execute env force pp newly w = Inr (w', out)"
    and line: "UpdatePlan ids upToDate \<in> set out \<or> ForceUpdating ids \<in> set out"
  shows "w' = run_world (runUpdate env force pp newly w)"
    and "ids = (if force then getConfiguredToolsForUpdate env pp w
                else toolsToUpdateSet (planUpdate env pp newly w))"
    and "set (spinnerLines (runUpdate env force pp newly w)) \<subseteq> set out"
    and "set (summaryLines (runUpdate env force pp newly w)) \<subseteq> set out"
    and "set out \<subseteq> set (migrationLines (planUpdate env pp newly w))
           \<union> {UpdatePlan ids upToDate, ForceUpdating ids}
           \<union> set (spinnerLines (runUpdate env force pp newly w))
           \<union> set (summaryLines (runUpdate env force pp newly w))
           \<union> {GettingStarted, RestartIDE,
               ToolsLine (updatedTools (runUpdate env force pp newly w))}
           \<union> range ExtraWorkflowsNote"
proof -
  let ?pl = "planUpdate env pp newly w"
  let ?r = "runUpdate env force pp newly w"
  let ?ct = "getConfiguredToolsForUpdate env pp w"
  have d: "dirs w (join pp OPENSPEC_DIR_NAME)"
    using ex by (cases "dirs w (join pp OPENSPEC_DIR_NAME)") (simp_all add: execute_eq Let_def)
  have ml: "set (migrationLines ?pl) \<subseteq> range Migrated \<union> {NewInThisVersion}"
    using migration_lines by (fastforce simp: planUpdate_def Let_def)
  have nl: "set (displayExtraWorkflowsNote env pp ?ct (desiredWorkflows ?pl) w2)
              \<subseteq> range ExtraWorkflowsNote" for w2
    by (rule note_lines)
  have c1: "\<not> (?ct = [] \<and> newly = [])"
  proof
    assume "?ct = [] \<and> newly = []"
    with ex d have "out = [NoConfiguredTools]" by (simp add: execute_eq Let_def plan_fields(1))
    with line show False by simp
  qed
  have c2: "\<not> (\<not> force \<and> toolsToUpdateSet ?pl = [])"
  proof
    assume a: "\<not> force \<and> toolsToUpdateSet ?pl = []"
    with ex d c1 have "out = migrationLines ?pl
        @ [UpToDate (map toolId (toolStatusesOf env pp ?ct (plan_world ?pl)))]
        @ displayExtraWorkflowsNote env pp ?ct (desiredWorkflows ?pl) (plan_world ?pl)"
      by (auto simp: execute_eq Let_def plan_fields(1))
    with line ml nl [of "plan_world ?pl"] show False by auto
  qed
  from ex d c1 c2 have w': "w' = run_world ?r"
    and out: "out = migrationLines ?pl
                @ (if force then [ForceUpdating ?ct]
                   else [UpdatePlan (toolsToUpdateSet ?pl)
                          (map toolId (filter (\<lambda>s. toolId s \<notin> set (toolsToUpdateSet ?pl))
                             (toolStatusesOf env pp ?ct (plan_world ?pl))))])
                @ spinnerLines ?r @ summaryLines ?r
                @ (if newly \<noteq> [] then [GettingStarted] else [])
                @ displayExtraWorkflowsNote env pp ?ct (desiredWorkflows ?pl) (run_world ?r)
                @ (if updatedTools ?r \<noteq> [] then [ToolsLine (updatedTools ?r)] else [])
                @ [RestartIDE]"
    by (auto simp: execute_eq Let_def plan_fields(1))
  show "w' = run_world ?r" by (rule w')
  have sk: "set (spinnerLines ?r) \<subseteq> range SpinnerSucceed \<union> range SpinnerFail"
    by (rule runUpdate_spinner_kinds)
  have sm: "set (summaryLines ?r)
     \<subseteq> {SummaryUpdated (updatedTools ?r), SummaryFailed (failedTools ?r),
         RemovedCommands (removedCommandCount ?r), RemovedSkills (removedSkillCount ?r)}"
    by (rule summary_kinds)
  have other: "x \<noteq> UpdatePlan i u \<and> x \<noteq> ForceUpdating i"
    if "x \<in> set (migrationLines ?pl) \<union> set (spinnerLines ?r) \<union> set (summaryLines ?r)
          \<union> set (displayExtraWorkflowsNote env pp ?ct (desiredWorkflows ?pl) (run_world ?r))"
    for x i u
    using that ml sk sm nl [of "run_world ?r"] by auto
  show ids: "ids = (if force then ?ct else toolsToUpdateSet ?pl)"
  proof (cases force)
    case True
    with line out other [of "UpdatePlan ids upToDate" ids upToDate]
      other [of "ForceUpdating ids" ids upToDate]
    show ?thesis by (auto split: if_splits)
  next
    case False
    with line out other [of "UpdatePlan ids upToDate" ids upToDate]
      other [of "ForceUpdating ids" ids upToDate]
    show ?thesis by (auto split: if_splits)
  qed
  show "set (spinnerLines ?r) \<subseteq> set out" unfolding out by auto
  show "set (summaryLines ?r) \<subseteq> set out" unfolding out by auto
  show "set out \<subseteq> set (migrationLines ?pl)
           \<union> {UpdatePlan ids upToDate, ForceUpdating ids}
           \<union> set (spinnerLines ?r) \<union> set (summaryLines ?r)
           \<union> {GettingStarted, RestartIDE, ToolsLine (updatedTools ?r)}
           \<union> range ExtraWorkflowsNote"
  proof (cases force)
    case True
    with line out other [of "UpdatePlan ids upToDate" ids upToDate] ids
    have "out = migrationLines ?pl @ [ForceUpdating ids]
                @ spinnerLines ?r @ summaryLines ?r
                @ (if newly \<noteq> [] then [GettingStarted] else [])
                @ displayExtraWorkflowsNote env pp ?ct (desiredWorkflows ?pl) (run_world ?r)
                @ (if updatedTools ?r \<noteq> [] then [ToolsLine (updatedTools ?r)] else [])
                @ [RestartIDE]"
      by simp
    then show ?thesis using nl [of "run_world ?r"] by (auto split: if_splits)
  next
    case False
    with line out other [of "ForceUpdating ids" ids upToDate]
    have "UpdatePlan ids upToDate \<in> set out" by auto
    with False out other [of "UpdatePlan ids upToDate" ids upToDate]
    have "out = migrationLines ?pl @ [UpdatePlan ids upToDate]
                @ spinnerLines ?r @ summaryLines ?r
                @ (if newly \<noteq> [] then [GettingStarted] else [])
                @ displayExtraWorkflowsNote env pp ?ct (desiredWorkflows ?pl) (run_world ?r)
                @ (if updatedTools ?r \<noteq> [] then [ToolsLine (updatedTools ?r)] else [])
                @ [RestartIDE]"
      by (auto split: if_splits)
    then show ?thesis using nl [of "run_world ?r"] by (auto split: if_splits)
  qed
qed

lemma updateTools_invariant:
  assumes pres: "\<And>t s w. Q w \<Longrightarrow> Q (snd (updateTool env pp sgs sgc st cc t s w))"
  shows "Q (run_world r) \<Longrightarrow> Q (run_world (updateTools env pp sgs sgc st cc ids r))"
proof (induction ids arbitrary: r)
  case Nil
  then show ?case by simp
next
  case (Cons a ids)
  show ?case
  proof (cases "\<exists>tool sd. findTool env a = Some tool \<and> skillsDirOf tool = Some sd")
    case False
    then have "findTool env a = None
                 \<or> (\<exists>tool. findTool env a = Some tool \<and> skillsDirOf tool = None)"
      by (cases "findTool env a") auto
    from updateTools_skip [OF this] Cons show ?thesis by simp
  next
    case True
    then obtain tool sd where ft: "findTool env a = Some tool" "skillsDirOf tool = Some sd"
      by blast
    have q: "Q (snd (updateTool env pp sgs sgc st cc tool sd (run_world r)))"
      using Cons.prems by (rule pres)
    show ?thesis
      unfolding updateTools_step [OF ft]
      by (rule Cons.IH) (simp add: q split: option.splits)
  qed
qed

lemma updateTools_establish:
  assumes pres: "\<And>t s w. Q w \<Longrightarrow> Q (snd (updateTool env pp sgs sgc st cc t s w))"
    and est: "\<And>w. readOnly w = ro \<Longrightarrow> locked w = lk \<Longrightarrow>
                Q (snd (updateTool env pp sgs sgc st cc tool sd w))"
  shows "(tool, sd) \<in> set (processable env ids) \<Longrightarrow> readOnly (run_world r) = ro \<Longrightarrow>
         locked (run_world r) = lk \<Longrightarrow>
         Q (run_world (updateTools env pp sgs sgc st cc ids r))"
proof (induction ids arbitrary: r)
  case Nil
  then show ?case by (simp add: processable_Nil)
next
  case (Cons a ids)
  show ?case
  proof (cases "\<exists>tool sd. findTool env a = Some tool \<and> skillsDirOf tool = Some sd")
    case False
    then have skip: "findTool env a = None
                 \<or> (\<exists>tool. findTool env a = Some tool \<and> skillsDirOf tool = None)"
      by (cases "findTool env a") auto
    have pr: "processable env (a # ids) = processable env ids"
      using skip by (auto simp: processable_Cons split: option.splits)
    from Cons.IH [OF Cons.prems(1) [unfolded pr] Cons.prems(2,3)]
    show ?thesis unfolding updateTools_skip [OF skip] .
  next
    case True
    then obtain tool0 sd0 where ft: "findTool env a = Some tool0" "skillsDirOf tool0 = Some sd0"
      by blast
    let ?w' = "snd (updateTool env pp sgs sgc st cc tool0 sd0 (run_world r))"
    let ?r' = "case toolError env pp sgs sgc st cc tool0 sd0 (readOnly (run_world r)) of
          None \<Rightarrow>
            r\<lparr>run_world := ?w',
              updatedTools := updatedTools r @ [tool_name tool0],
              removedSkillCount := removedSkillCount r
                 + fst (snd (fst (updateTool env pp sgs sgc st cc tool0 sd0 (run_world r)))),
              removedCommandCount := removedCommandCount r
                 + snd (snd (fst (updateTool env pp sgs sgc st cc tool0 sd0 (run_world r)))),
              spinnerLines := spinnerLines r @ [SpinnerSucceed (tool_name tool0)]\<rparr>
        | Some err \<Rightarrow>
            r\<lparr>run_world := ?w',
              failedTools := failedTools r @ [(tool_name tool0, err)],
              removedSkillCount := removedSkillCount r
                 + fst (snd (fst (updateTool env pp sgs sgc st cc tool0 sd0 (run_world r)))),
              removedCommandCount := removedCommandCount r
                 + snd (snd (fst (updateTool env pp sgs sgc st cc tool0 sd0 (run_world r)))),
              spinnerLines := spinnerLines r @ [SpinnerFail (tool_name tool0)]\<rparr>"
    have w': "run_world ?r' = ?w'"
      by (cases "toolError env pp sgs sgc st cc tool0 sd0 (readOnly (run_world r))") simp_all
    have inv: "readOnly (run_world ?r') = ro" "locked (run_world ?r') = lk"
      unfolding w' using Cons.prems(2,3) by (simp_all add: updateTool_fields)
    have pr: "processable env (a # ids) = (tool0, sd0) # processable env ids"
      by (simp add: processable_Cons ft)
    from Cons.prems(1) pr
    consider "(tool, sd) = (tool0, sd0)" | "(tool, sd) \<in> set (processable env ids)"
      by auto
    then show ?thesis
    proof cases
      case 1
      then have q: "Q (run_world ?r')"
        using est [OF Cons.prems(2,3)] by (simp add: w')
      have "Q (run_world (updateTools env pp sgs sgc st cc ids ?r'))"
        using pres q
        by (rule updateTools_invariant [where Q = Q and env = env and pp = pp and sgs = sgs
              and sgc = sgc and st = st and cc = cc and r = ?r' and ids = ids])
      then show ?thesis
        unfolding updateTools_step [OF ft] .
    next
      case 2
      show ?thesis
        unfolding updateTools_step [OF ft] by (rule Cons.IH [OF 2 inv])
    qed
  qed
qed

section \<open>What a run does to the selected tools\<close>

text \<open>
  A run that selects at least one tool reaches the per-tool loop; its result is the world
  the loop leaves, and the lines of the loop and of its summary are part of the output.
\<close>

lemma execute_loop:
  assumes run: "execute env force pp newly w = Inr (w', out)"
    and ids: "ids = (if force then getConfiguredToolsForUpdate env pp w
                     else toolsToUpdateSet (planUpdate env pp newly w))"
    and ne: "ids \<noteq> []"
    and sgs: "sgs = (deliveryOf (getGlobalConfig w) \<noteq> ''commands'')"
    and sgc: "sgc = (deliveryOf (getGlobalConfig w) \<noteq> ''skills'')"
    and st: "st = (if sgs then getSkillTemplates (Some (desiredWorkflows (planUpdate env pp newly w)))
                   else [])"
    and cc: "cc = (if sgc then getCommandContents (Some (desiredWorkflows (planUpdate env pp newly w)))
                   else [])"
    and r: "r = updateTools env pp sgs sgc st cc ids (emptyRun (plan_world (planUpdate env pp newly w)))"
  shows "w' = run_world r"
    and "set (spinnerLines r) \<subseteq> set out"
    and "set (summaryLines r) \<subseteq> set out"
    and "SummaryUpdated us \<in> set out \<Longrightarrow> us = updatedTools r"
    and "SummaryFailed fs \<in> set out \<Longrightarrow> fs = failedTools r"
    and "SpinnerFail n \<in> set out \<Longrightarrow> SpinnerFail n \<in> set (spinnerLines r)"
    and "(\<exists>upToDate. UpdatePlan ids upToDate \<in> set out) \<or> ForceUpdating ids \<in> set out"
    and "RestartIDE \<in> set out"
proof -
  let ?pl = "planUpdate env pp newly w"
  let ?r = "runUpdate env force pp newly w"
  let ?ct = "getConfiguredToolsForUpdate env pp w"
  have rr: "?r = r"
    unfolding runUpdate_eq r sgs sgc st cc ids plan_delivery plan_fields(2) ..
  have d: "dirs w (join pp OPENSPEC_DIR_NAME)"
    using run by (cases "dirs w (join pp OPENSPEC_DIR_NAME)") (simp_all add: execute_eq Let_def)
  have tus: "?ct = [] \<Longrightarrow> toolsToUpdateSet ?pl = []"
    by (simp add: plan_fields(5) toolsToUpdateSetOf_Nil)
  have c1: "?ct \<noteq> []" using ne ids tus by (auto split: if_splits)
  have c2: "\<not> (\<not> force \<and> toolsToUpdateSet ?pl = [])" using ne ids by auto
  from run d c1 c2 have w': "w' = run_world ?r"
    and out: "out = migrationLines ?pl
                @ (if force then [ForceUpdating ?ct]
                   else [UpdatePlan (toolsToUpdateSet ?pl)
                          (map toolId (filter (\<lambda>s. toolId s \<notin> set (toolsToUpdateSet ?pl))
                             (toolStatusesOf env pp ?ct (plan_world ?pl))))])
                @ spinnerLines ?r @ summaryLines ?r
                @ (if newly \<noteq> [] then [GettingStarted] else [])
                @ displayExtraWorkflowsNote env pp ?ct (desiredWorkflows ?pl) (run_world ?r)
                @ (if updatedTools ?r \<noteq> [] then [ToolsLine (updatedTools ?r)] else [])
                @ [RestartIDE]"
    by (auto simp: execute_eq Let_def plan_fields(1))
  have ml: "set (migrationLines ?pl) \<subseteq> range Migrated \<union> {NewInThisVersion}"
    using migration_lines by (fastforce simp: planUpdate_def Let_def)
  have nl: "set (displayExtraWorkflowsNote env pp ?ct (desiredWorkflows ?pl) (run_world ?r))
              \<subseteq> range ExtraWorkflowsNote"
    by (rule note_lines)
  have sk: "set (spinnerLines ?r) \<subseteq> range SpinnerSucceed \<union> range SpinnerFail"
    by (rule runUpdate_spinner_kinds)
  have sm: "set (summaryLines ?r)
     \<subseteq> {SummaryUpdated (updatedTools ?r), SummaryFailed (failedTools ?r),
         RemovedCommands (removedCommandCount ?r), RemovedSkills (removedSkillCount ?r)}"
    by (rule summary_kinds)
  show "w' = run_world r" using w' rr by simp
  show "set (spinnerLines r) \<subseteq> set out" unfolding out rr [symmetric] by auto
  show "set (summaryLines r) \<subseteq> set out" unfolding out rr [symmetric] by auto
  show "us = updatedTools r" if "SummaryUpdated us \<in> set out"
    using that ml nl sk sm unfolding out rr [symmetric] by (auto split: if_splits)
  show "fs = failedTools r" if "SummaryFailed fs \<in> set out"
    using that ml nl sk sm unfolding out rr [symmetric] by (auto split: if_splits)
  show "SpinnerFail n \<in> set (spinnerLines r)" if "SpinnerFail n \<in> set out"
    using that ml nl sm unfolding out rr [symmetric] by (auto split: if_splits)
  show "(\<exists>upToDate. UpdatePlan ids upToDate \<in> set out) \<or> ForceUpdating ids \<in> set out"
    unfolding out ids by (cases force) auto
  show "RestartIDE \<in> set out" unfolding out by simp
qed

lemma block_keeps_no_skill_file:
  assumes s: "\<not> sgs" and "\<not> existsSkillFile w r dn"
  shows "\<not> existsSkillFile (snd (updateTool env pp sgs sgc st cc t sd w)) r dn"
proof -
  from s have e: "sgs = False" by simp
  have "skillDirs (snd (updateTool env pp sgs sgc st cc t sd w)) r dn = NoDir
        \<or> skillDirs (snd (updateTool env pp sgs sgc st cc t sd w)) r dn = skillDirs w r dn"
    unfolding e updateTool_skillDirs_remove by simp
  with assms(2) show ?thesis by (auto simp: existsSkillFile_def)
qed



lemma block_keeps_no_command_always:
  assumes s: "\<not> sgc" and n: "\<not> cmdFiles w q"
  shows "\<not> cmdFiles (snd (updateTool env pp sgs sgc st cc t sd w)) q"
proof (cases "fst (fst (updateTool env pp sgs sgc st cc t sd w))")
  case None
  from block_keeps_no_command [OF s None n] show ?thesis .
next
  case (Some err)
  from s have e: "sgc = False" by simp
  let ?ws = "writeSkillFiles (join pp sd) (join (join pp sd) ''skills'') (OPENSPEC_VERSION env) st w"
  from Some have "sgs \<and> fst ?ws \<noteq> None"
    by (auto simp: e updateTool_def Let_def case_prod_beta split: option.splits if_splits)
  then have "snd (updateTool env pp sgs sgc st cc t sd w) = snd ?ws"
    by (auto simp: updateTool_def Let_def case_prod_beta)
  then show ?thesis using n by (simp add: writeSkillFiles_fields)
qed



lemma updateTools_dir_removed:
  assumes s: "\<not> sgs" and ts: "(tool, sd) \<in> set (processable env ids)"
    and l: "\<not> locked (run_world r) (join (skillsRootOf pp sd) dn)"
    and c: "workflow \<in> set ALL_WORKFLOWS" "map_of WORKFLOW_TO_SKILL_DIR workflow = Some dn"
  shows "\<not> existsSkillDir (run_world (updateTools env pp sgs sgc st cc ids r)) (skillsRootOf pp sd) dn"
proof (rule updateTools_establish
         [where Q = "\<lambda>w. \<not> existsSkillDir w (skillsRootOf pp sd) dn" and tool = tool and sd = sd
         and ro = "readOnly (run_world r)" and lk = "locked (run_world r)"])
  show "\<not> existsSkillDir (snd (updateTool env pp sgs sgc st cc t s0 w)) (skillsRootOf pp sd) dn"
    if "\<not> existsSkillDir w (skillsRootOf pp sd) dn" for t s0 w
    using s that by (rule block_keeps_no_dir)
  show "\<not> existsSkillDir (snd (updateTool env pp sgs sgc st cc tool sd w)) (skillsRootOf pp sd) dn"
    if "locked w = locked (run_world r)" for w
    using block_removes_dir [OF s _ c, of w pp sd env sgc st cc tool] l that by simp
qed (use ts in simp_all)

lemma updateTools_command_removed:
  assumes s: "\<not> sgc" and ts: "(tool, sd) \<in> set (processable env ids)"
    and ok: "fst (fst (updateTool env pp sgs sgc st cc tool sd (run_world r))) = None"
    and g: "adapters env (tool_value tool) = Some g"
    and l: "\<not> locked (run_world r) (fullPath pp (g workflow))"
    and c: "workflow \<in> set ALL_WORKFLOWS"
  shows "\<not> cmdFiles (run_world (updateTools env pp sgs sgc st cc ids r)) (fullPath pp (g workflow))"
proof (rule updateTools_establish
         [where Q = "\<lambda>w. \<not> cmdFiles w (fullPath pp (g workflow))" and tool = tool and sd = sd
         and ro = "readOnly (run_world r)" and lk = "locked (run_world r)"])
  show "\<not> cmdFiles (snd (updateTool env pp sgs sgc st cc t s0 w)) (fullPath pp (g workflow))"
    if "\<not> cmdFiles w (fullPath pp (g workflow))" for t s0 w
    using s that by (rule block_keeps_no_command_always)
  show "\<not> cmdFiles (snd (updateTool env pp sgs sgc st cc tool sd w)) (fullPath pp (g workflow))"
    if ro: "readOnly w = readOnly (run_world r)" and lk: "locked w = locked (run_world r)" for w
  proof -
    have "fst (fst (updateTool env pp sgs sgc st cc tool sd w)) = None"
      using ok ro by (simp add: updateTool_error)
    from block_removes_command [OF s this g c] l lk show ?thesis by simp
  qed
qed (use ts in simp_all)

text \<open>What the removal passes achieve within a run of the update command.\<close>

lemma removal_in_run:
  assumes run: "execute env force pp newly w = Inr (w', out)"
    and ids: "ids = (if force then getConfiguredToolsForUpdate env pp w
                     else toolsToUpdateSet (planUpdate env pp newly w))"
    and ts: "(tool, sd) \<in> set (processable env ids)"
  shows "deliveryOf (getGlobalConfig w) = ''commands'' \<longrightarrow>
           (\<forall>workflow \<in> set ALL_WORKFLOWS. \<forall>d.
              map_of WORKFLOW_TO_SKILL_DIR workflow = Some d
              \<and> \<not> locked w (join (skillsRootOf pp sd) d) \<longrightarrow>
              \<not> existsSkillDir w' (skillsRootOf pp sd) d)"
    and "deliveryOf (getGlobalConfig w) = ''skills''
         \<and> fst (fst (updateTool env pp True False
                  (getSkillTemplates (Some (desiredWorkflows (planUpdate env pp newly w)))) []
                  tool sd w)) = None \<longrightarrow>
           (\<forall>g. adapters env (tool_value tool) = Some g \<longrightarrow>
              (\<forall>workflow \<in> set ALL_WORKFLOWS. \<not> locked w (fullPath pp (g workflow)) \<longrightarrow>
                 \<not> cmdFiles w' (fullPath pp (g workflow))))"
proof -
  let ?pl = "planUpdate env pp newly w"
  let ?sgs = "deliveryOf (getGlobalConfig w) \<noteq> ''commands''"
  let ?sgc = "deliveryOf (getGlobalConfig w) \<noteq> ''skills''"
  let ?st = "if ?sgs then getSkillTemplates (Some (desiredWorkflows ?pl)) else []"
  let ?cc = "if ?sgc then getCommandContents (Some (desiredWorkflows ?pl)) else []"
  let ?r0 = "emptyRun (plan_world ?pl)"
  from ts have ne: "ids \<noteq> []" by (auto simp: processable_Nil)
  note lp = execute_loop [OF run ids ne refl refl refl refl refl]
  have rw: "readOnly (run_world ?r0) = readOnly w" "locked (run_world ?r0) = locked w"
    by (simp_all add: emptyRun_def plan_world_fields)
  show "deliveryOf (getGlobalConfig w) = ''commands'' \<longrightarrow>
           (\<forall>workflow \<in> set ALL_WORKFLOWS. \<forall>d.
              map_of WORKFLOW_TO_SKILL_DIR workflow = Some d
              \<and> \<not> locked w (join (skillsRootOf pp sd) d) \<longrightarrow>
              \<not> existsSkillDir w' (skillsRootOf pp sd) d)"
  proof (intro impI ballI allI)
    fix workflow d
    assume dl: "deliveryOf (getGlobalConfig w) = ''commands''"
      and c: "workflow \<in> set ALL_WORKFLOWS"
      and m: "map_of WORKFLOW_TO_SKILL_DIR workflow = Some d
              \<and> \<not> locked w (join (skillsRootOf pp sd) d)"
    have s: "\<not> ?sgs" using dl by simp
    have l: "\<not> locked (run_world ?r0) (join (skillsRootOf pp sd) d)" using m rw by simp
    from m have m1: "map_of WORKFLOW_TO_SKILL_DIR workflow = Some d" by simp
    show "\<not> existsSkillDir w' (skillsRootOf pp sd) d"
      unfolding lp(1) by (rule updateTools_dir_removed [OF s ts l c m1])
  qed
  show "deliveryOf (getGlobalConfig w) = ''skills''
         \<and> fst (fst (updateTool env pp True False
                  (getSkillTemplates (Some (desiredWorkflows (planUpdate env pp newly w)))) []
                  tool sd w)) = None \<longrightarrow>
           (\<forall>g. adapters env (tool_value tool) = Some g \<longrightarrow>
              (\<forall>workflow \<in> set ALL_WORKFLOWS. \<not> locked w (fullPath pp (g workflow)) \<longrightarrow>
                 \<not> cmdFiles w' (fullPath pp (g workflow))))"
  proof (intro impI ballI allI)
    fix g workflow
    assume dl: "deliveryOf (getGlobalConfig w) = ''skills''
         \<and> fst (fst (updateTool env pp True False
                  (getSkillTemplates (Some (desiredWorkflows (planUpdate env pp newly w)))) []
                  tool sd w)) = None"
      and g: "adapters env (tool_value tool) = Some g"
      and c: "workflow \<in> set ALL_WORKFLOWS"
      and nl: "\<not> locked w (fullPath pp (g workflow))"
    have s: "\<not> ?sgc" using dl by simp
    have ok: "fst (fst (updateTool env pp ?sgs ?sgc ?st ?cc tool sd (run_world ?r0))) = None"
      using dl rw by (simp add: updateTool_error)
    have l: "\<not> locked (run_world ?r0) (fullPath pp (g workflow))" using nl rw by simp
    from updateTools_command_removed [OF s ts ok g l c]
    show "\<not> cmdFiles w' (fullPath pp (g workflow))"
      unfolding lp(1) .
  qed
qed

section \<open>Removal, failure isolation and visibility of failures\<close>

text \<open>
  C8, as stated, fails when an entry cannot be deleted: the removal pass over the skills
  root counts one directory removed and leaves the directory of \<^verbatim>\<open>explore\<close> in place, the
  pass over the command files leaves the command file of \<^verbatim>\<open>explore\<close> in place, and after
  the whole update run, which reports Claude as updated, the directory is still there
  although only commands are to be delivered.
\<close>

theorem undeletable_entry_survives_counterexample:
  "deliveryOf (getGlobalConfig ex_lockedSkill) = ''commands''
   \<and> existsSkillDir (fst (removeSkillDirs ''/p/.claude/skills'' ex_lockedSkill))
        ''/p/.claude/skills'' ''openspec-explore''
   \<and> snd (removeSkillDirs ''/p/.claude/skills'' ex_lockedSkill) = 1
   \<and> cmdFiles (fst (removeCommandFiles ex_env ''/p'' ''claude'' ex_lockedCommand))
        ''/p/.claude/commands/opsx/explore.md''
   \<and> SummaryUpdated [''Claude Code''] \<in> set (linesOf (execute ex_env False ''/p'' [] ex_lockedSkill))
   \<and> existsSkillDir (worldAfter ex_lockedSkill (execute ex_env False ''/p'' [] ex_lockedSkill))
        ''/p/.claude/skills'' ''openspec-explore''"
  by code_simp

text \<open>
  C8, amended. The removal pass over a skills root removes the skill directory of every
  workflow of the full catalog (all seven, whatever the desired workflows are) unless the
  directory cannot be deleted, in which case the failure is ignored and the directory
  stays; the pass over the command files does the same for the command file of every
  catalog workflow. A pass over entries that are already absent changes nothing, counts
  nothing and raises nothing, so a second pass is always a no-op. Within an update run:
  when only commands are delivered, no deletable catalog skill directory of a selected
  tool is left after the run; when only skills are delivered and the skill writes of a
  selected tool succeed, no deletable catalog command file of that tool is left.
\<close>

theorem full_catalog_removal:
  "(\<forall>workflow \<in> set ALL_WORKFLOWS. \<forall>d. map_of WORKFLOW_TO_SKILL_DIR workflow = Some d \<longrightarrow>
       (existsSkillDir (fst (removeSkillDirs root w)) root d
          \<longleftrightarrow> existsSkillDir w root d \<and> locked w (join root d)))
   \<and> (adapters env tid = Some g \<longrightarrow>
        (\<forall>workflow \<in> set ALL_WORKFLOWS.
           cmdFiles (fst (removeCommandFiles env pp tid w)) (fullPath pp (g workflow))
             \<longleftrightarrow> cmdFiles w (fullPath pp (g workflow)) \<and> locked w (fullPath pp (g workflow))))
   \<and> (\<forall>workflow \<in> set ALL_WORKFLOWS. map_of WORKFLOW_TO_SKILL_DIR workflow \<noteq> None)
   \<and> length ALL_WORKFLOWS = 7
   \<and> removeSkillDirs root (fst (removeSkillDirs root w)) = (fst (removeSkillDirs root w), 0)
   \<and> removeCommandFiles env pp tid (fst (removeCommandFiles env pp tid w))
       = (fst (removeCommandFiles env pp tid w), 0)
   \<and> ((\<forall>workflow \<in> set ALL_WORKFLOWS. \<forall>d. map_of WORKFLOW_TO_SKILL_DIR workflow = Some d \<longrightarrow>
          \<not> existsSkillDir w root d) \<longrightarrow> removeSkillDirs root w = (w, 0))
   \<and> ((\<forall>workflow \<in> set ALL_WORKFLOWS. \<not> cmdFiles w (fullPath pp (g workflow)))
        \<and> adapters env tid = Some g \<longrightarrow> removeCommandFiles env pp tid w = (w, 0))
   \<and> (execute env force pp newly w = Inr (w', out)
        \<and> ids = (if force then getConfiguredToolsForUpdate env pp w
                  else toolsToUpdateSet (planUpdate env pp newly w))
        \<and> (tool, sd) \<in> set (processable env ids) \<longrightarrow>
        (deliveryOf (getGlobalConfig w) = ''commands'' \<longrightarrow>
           (\<forall>workflow \<in> set ALL_WORKFLOWS. \<forall>d.
              map_of WORKFLOW_TO_SKILL_DIR workflow = Some d
              \<and> \<not> locked w (join (skillsRootOf pp sd) d) \<longrightarrow>
              \<not> existsSkillDir w' (skillsRootOf pp sd) d))
        \<and> (deliveryOf (getGlobalConfig w) = ''skills''
            \<and> fst (fst (updateTool env pp True False
                  (getSkillTemplates (Some (desiredWorkflows (planUpdate env pp newly w)))) []
                  tool sd w)) = None \<longrightarrow>
           (\<forall>g. adapters env (tool_value tool) = Some g \<longrightarrow>
              (\<forall>workflow \<in> set ALL_WORKFLOWS. \<not> locked w (fullPath pp (g workflow)) \<longrightarrow>
                 \<not> cmdFiles w' (fullPath pp (g workflow))))))"
proof (intro conjI)
  show "\<forall>workflow \<in> set ALL_WORKFLOWS. \<forall>d. map_of WORKFLOW_TO_SKILL_DIR workflow = Some d \<longrightarrow>
       (existsSkillDir (fst (removeSkillDirs root w)) root d
          \<longleftrightarrow> existsSkillDir w root d \<and> locked w (join root d))"
    by (auto simp: existsSkillDir_def removeSkillDirs_def removeSkillDirsLoop_skillDirs)
  show "adapters env tid = Some g \<longrightarrow>
        (\<forall>workflow \<in> set ALL_WORKFLOWS.
           cmdFiles (fst (removeCommandFiles env pp tid w)) (fullPath pp (g workflow))
             \<longleftrightarrow> cmdFiles w (fullPath pp (g workflow)) \<and> locked w (fullPath pp (g workflow)))"
    by (auto simp: removeCommandFiles_def removeCommandFilesLoop_cmdFiles)
  show "\<forall>workflow \<in> set ALL_WORKFLOWS. map_of WORKFLOW_TO_SKILL_DIR workflow \<noteq> None"
    by (simp add: ALL_WORKFLOWS_def WORKFLOW_TO_SKILL_DIR_def)
  show "length ALL_WORKFLOWS = 7" by (simp add: ALL_WORKFLOWS_def)
  show "removeSkillDirs root (fst (removeSkillDirs root w)) = (fst (removeSkillDirs root w), 0)"
    by (rule removeSkillDirs_again)
  show "removeCommandFiles env pp tid (fst (removeCommandFiles env pp tid w))
       = (fst (removeCommandFiles env pp tid w), 0)"
    by (rule removeCommandFiles_again)
  show "(\<forall>workflow \<in> set ALL_WORKFLOWS. \<forall>d. map_of WORKFLOW_TO_SKILL_DIR workflow = Some d \<longrightarrow>
          \<not> existsSkillDir w root d) \<longrightarrow> removeSkillDirs root w = (w, 0)"
    unfolding removeSkillDirs_def by (auto intro!: removeSkillDirsLoop_noop)
  show "(\<forall>workflow \<in> set ALL_WORKFLOWS. \<not> cmdFiles w (fullPath pp (g workflow)))
        \<and> adapters env tid = Some g \<longrightarrow> removeCommandFiles env pp tid w = (w, 0)"
    by (auto simp: removeCommandFiles_def intro!: removeCommandFilesLoop_noop)
  show "execute env force pp newly w = Inr (w', out)
        \<and> ids = (if force then getConfiguredToolsForUpdate env pp w
                  else toolsToUpdateSet (planUpdate env pp newly w))
        \<and> (tool, sd) \<in> set (processable env ids) \<longrightarrow>
        (deliveryOf (getGlobalConfig w) = ''commands'' \<longrightarrow>
           (\<forall>workflow \<in> set ALL_WORKFLOWS. \<forall>d.
              map_of WORKFLOW_TO_SKILL_DIR workflow = Some d
              \<and> \<not> locked w (join (skillsRootOf pp sd) d) \<longrightarrow>
              \<not> existsSkillDir w' (skillsRootOf pp sd) d))
        \<and> (deliveryOf (getGlobalConfig w) = ''skills''
            \<and> fst (fst (updateTool env pp True False
                  (getSkillTemplates (Some (desiredWorkflows (planUpdate env pp newly w)))) []
                  tool sd w)) = None \<longrightarrow>
           (\<forall>g. adapters env (tool_value tool) = Some g \<longrightarrow>
              (\<forall>workflow \<in> set ALL_WORKFLOWS. \<not> locked w (fullPath pp (g workflow)) \<longrightarrow>
                 \<not> cmdFiles w' (fullPath pp (g workflow)))))"
    using removal_in_run [of env force pp newly w w' out ids tool sd] by blast
qed

text \<open>The result of a run on a project that has its \<^verbatim>\<open>openspec\<close> directory.\<close>

lemma execute_result:
  "dirs w (join pp OPENSPEC_DIR_NAME) \<Longrightarrow>
   execute env force pp newly w
     = Inr (worldAfter w (execute env force pp newly w), linesOf (execute env force pp newly w))"
  using execute_total [of w pp env force newly]
  by (auto simp: worldAfter_def linesOf_def)

theorem full_catalog_removal_witness:
  "deliveryOf (getGlobalConfig ex_toCommands) = ''commands''
   \<and> (ex_claude, ''.claude'')
       \<in> set (processable ex_env (toolsToUpdateSet (planUpdate ex_env ''/p'' [] ex_toCommands)))
   \<and> existsSkillDir ex_toCommands (skillsRootOf ''/p'' ''.claude'') ''openspec-explore''
   \<and> \<not> existsSkillDir
         (worldAfter ex_toCommands (execute ex_env False ''/p'' [] ex_toCommands))
         (skillsRootOf ''/p'' ''.claude'') ''openspec-explore''
   \<and> \<not> existsSkillDir (fst (removeSkillDirs (skillsRootOf ''/p'' ''.claude'') ex_toCommands))
         (skillsRootOf ''/p'' ''.claude'') ''openspec-explore''"
proof -
  let ?ids = "toolsToUpdateSet (planUpdate ex_env ''/p'' [] ex_toCommands)"
  let ?w' = "worldAfter ex_toCommands (execute ex_env False ''/p'' [] ex_toCommands)"
  let ?out = "linesOf (execute ex_env False ''/p'' [] ex_toCommands)"
  have d: "dirs ex_toCommands (join ''/p'' OPENSPEC_DIR_NAME)" by code_simp
  have run: "execute ex_env False ''/p'' [] ex_toCommands = Inr (?w', ?out)"
    using d by (rule execute_result)
  have ids: "?ids = (if False then getConfiguredToolsForUpdate ex_env ''/p'' ex_toCommands
                     else ?ids)"
    by simp
  have ts: "(ex_claude, ''.claude'') \<in> set (processable ex_env ?ids)" by code_simp
  have dl: "deliveryOf (getGlobalConfig ex_toCommands) = ''commands''" by code_simp
  have wf: "''explore'' \<in> set ALL_WORKFLOWS"
    "map_of WORKFLOW_TO_SKILL_DIR ''explore'' = Some ''openspec-explore''"
    by code_simp+
  have nl: "\<not> locked ex_toCommands p" for p
    by (simp add: ex_toCommands_def mkWorld_def)
  have before: "existsSkillDir ex_toCommands (skillsRootOf ''/p'' ''.claude'') ''openspec-explore''"
    by code_simp
  note th = full_catalog_removal [where w = ex_toCommands and env = ex_env and pp = "''/p''"
      and force = False and newly = "[]" and w' = ?w' and out = ?out and ids = ?ids
      and tool = ex_claude and sd = "''.claude''" and root = "skillsRootOf ''/p'' ''.claude''"
      and tid = "''claude''" and g = "\<lambda>c. c"]
  from th run ids ts dl wf nl
  have after: "\<not> existsSkillDir ?w' (skillsRootOf ''/p'' ''.claude'') ''openspec-explore''"
    by blast
  from th wf nl
  have pass: "\<not> existsSkillDir (fst (removeSkillDirs (skillsRootOf ''/p'' ''.claude'') ex_toCommands))
         (skillsRootOf ''/p'' ''.claude'') ''openspec-explore''"
    by blast
  from dl ts before after pass show ?thesis by blast
qed







end
